theory Spec2Isabelle
  imports Complex_Main "HOL-Library.Word" "HOL-Library.Sublist"
begin

unbundle bit_operations_syntax

section \<open>Values of the JavaScript runtime\<close>

text \<open>
  Bytes of a \<^verbatim>\<open>Uint8Array\<close> are 8-bit words. A JavaScript string is a sequence of UTF-16
  code units, so it is a list of 16-bit words; \<open>ascii\<close> writes an ASCII literal.
\<close>

type_synonym byte = "8 word"
type_synonym jsstring = "16 word list"

definition ascii :: "string \<Rightarrow> jsstring" where
  "ascii s = map of_char s"

text \<open>Decimal digits of a number, as a template literal prints an integer.\<close>

function digits :: "nat \<Rightarrow> jsstring" where
  "digits n = (if n < 10 then [of_nat (48 + n)] else digits (n div 10) @ [of_nat (48 + n mod 10)])"
  by pat_completeness auto
termination
  by (relation "measure id") auto

declare digits.simps [simp del]

definition dec :: "int \<Rightarrow> jsstring" where
  "dec i = (if i < 0 then 0x2D # digits (nat (- i)) else digits (nat i))"

text \<open>
  The values \<^verbatim>\<open>JSON.parse\<close> produces, together with \<^verbatim>\<open>undefined\<close> (the value of a
  missing property). The code modelled here tests numbers for truthiness, prints them and
  passes them on, and does nothing else with them, so a number is given by the text that
  \<^verbatim>\<open>Number.prototype.toString\<close> prints for it: \<^verbatim>\<open>0\<close> for both zeros, \<^verbatim>\<open>1.5\<close>, \<^verbatim>\<open>1e+21\<close>, \<^verbatim>\<open>NaN\<close>.
  \<open>JObj\<close> lists the own properties of an object.
\<close>

datatype jsval =
    JUndefined
  | JNull
  | JBool bool
  | JNum jsstring
  | JStr jsstring
  | JArr "jsval list"
  | JObj "(jsstring \<times> jsval) list"

fun nullish :: "jsval \<Rightarrow> bool" where
  "nullish JUndefined = True"
| "nullish JNull = True"
| "nullish _ = False"

text \<open>Truthiness, as \<^verbatim>\<open>if (v)\<close>, \<^verbatim>\<open>a || b\<close> and \<^verbatim>\<open>a && b\<close> test it: every array and every object is
  truthy, the empty array too.\<close>

fun truthy :: "jsval \<Rightarrow> bool" where
  "truthy JUndefined = False"
| "truthy JNull = False"
| "truthy (JBool b) = b"
| "truthy (JNum n) = (n \<noteq> ascii ''0'' \<and> n \<noteq> ascii ''NaN'')"
| "truthy (JStr s) = (s \<noteq> [])"
| "truthy (JArr _) = True"
| "truthy (JObj _) = True"

text \<open>\<^verbatim>\<open>a || b\<close> gives the first operand when it is truthy, the second otherwise.\<close>

definition js_or :: "jsval \<Rightarrow> jsval \<Rightarrow> jsval" where
  "js_or a b = (if truthy a then a else b)"

text \<open>
  \<open>getProp v k\<close> is \<^verbatim>\<open>v.k\<close> for a value \<open>v\<close> that is neither \<^verbatim>\<open>null\<close> nor \<^verbatim>\<open>undefined\<close> and a
  key \<open>k\<close> that no prototype defines (the keys the code reads, other than \<^verbatim>\<open>length\<close> and
  \<^verbatim>\<open>map\<close>, are of that kind). \<open>optProp\<close> is \<^verbatim>\<open>v?.k\<close>.
\<close>

fun getProp :: "jsval \<Rightarrow> jsstring \<Rightarrow> jsval" where
  "getProp (JObj kvs) k = (case map_of kvs k of Some x \<Rightarrow> x | None \<Rightarrow> JUndefined)"
| "getProp _ k = JUndefined"

definition optProp :: "jsval \<Rightarrow> jsstring \<Rightarrow> jsval" where
  "optProp v k = (if nullish v then JUndefined else getProp v k)"

text \<open>Exceptions the runtime raises inside the code modelled here.\<close>

datatype exn = RangeError | TypeError | DecompressError | SyntaxError

fun join :: "jsstring \<Rightarrow> jsstring list \<Rightarrow> jsstring" where
  "join sep [] = []"
| "join sep [x] = x"
| "join sep (x # y # ys) = x @ sep @ join sep (y # ys)"

text \<open>
  \<^verbatim>\<open>String(v)\<close>. An array prints its elements joined by commas, \<^verbatim>\<open>null\<close> and \<^verbatim>\<open>undefined\<close>
  elements as the empty string. An object of \<^verbatim>\<open>JSON.parse\<close> prints through
  \<^verbatim>\<open>Object.prototype.toString\<close>, unless it has an own property \<^verbatim>\<open>toString\<close>: that property is
  not a function, and the conversion throws a \<^verbatim>\<open>TypeError\<close>.
\<close>

fun ToString :: "jsval \<Rightarrow> exn + jsstring" where
  "ToString JUndefined = Inr (ascii ''undefined'')"
| "ToString JNull = Inr (ascii ''null'')"
| "ToString (JBool b) = Inr (if b then ascii ''true'' else ascii ''false'')"
| "ToString (JNum n) = Inr n"
| "ToString (JStr s) = Inr s"
| "ToString (JArr xs) =
     (if \<exists>x \<in> set xs. \<not> nullish x \<and> isl (ToString x) then Inl TypeError
      else Inr (join (ascii '','') (map (\<lambda>x. if nullish x then [] else projr (ToString x)) xs)))"
| "ToString (JObj kvs) =
     (if map_of kvs (ascii ''toString'') = None then Inr (ascii ''[object Object]'')
      else Inl TypeError)"

text \<open>\<^verbatim>\<open>xs.join(sep)\<close> on an array of values.\<close>

definition js_join :: "jsstring \<Rightarrow> jsval list \<Rightarrow> exn + jsstring" where
  "js_join sep xs =
     (if \<exists>x \<in> set xs. \<not> nullish x \<and> isl (ToString x) then Inl TypeError
      else Inr (join sep (map (\<lambda>x. if nullish x then [] else projr (ToString x)) xs)))"

text \<open>\<^verbatim>\<open>String.prototype.trim\<close>: white space and line terminators of ECMAScript.\<close>

definition isWhiteSpace :: "16 word \<Rightarrow> bool" where
  "isWhiteSpace c \<longleftrightarrow>
     c \<in> {0x09, 0x0A, 0x0B, 0x0C, 0x0D, 0x20, 0xA0, 0x1680, 0x2028, 0x2029, 0x202F, 0x205F,
          0x3000, 0xFEFF} \<or> (0x2000 \<le> c \<and> c \<le> 0x200A)"

definition trim :: "jsstring \<Rightarrow> jsstring" where
  "trim s = rev (dropWhile isWhiteSpace (rev (dropWhile isWhiteSpace s)))"

text \<open>
  What the code takes from its platform: gzip and gunzip of \<^verbatim>\<open>zlib\<close> (gunzip fails on data that
  is not gzip), \<^verbatim>\<open>TextDecoder.decode\<close>, \<^verbatim>\<open>JSON.parse\<close> (fails on text that is not JSON), the
  encoded JSON text of the initial request, which depends on the configuration only, and the
  message the engine gives the \<^verbatim>\<open>TypeError\<close> it throws when a method of \<^verbatim>\<open>null\<close> is called.
\<close>

record runtime =
  gzip :: "byte list \<Rightarrow> byte list"
  gunzip :: "byte list \<Rightarrow> byte list option"
  decode :: "byte list \<Rightarrow> jsstring"
  JSON_parse :: "jsstring \<Rightarrow> jsval option"
  initRequestPayload :: "byte list"
  typeErrorMessage :: jsstring

section \<open>Shared types (app/shared/types/asr.ts)\<close>

datatype ASRState = Idle | Connecting | Ready | Recording | Processing | Completed | Error

text \<open>
  The fields of a result hold what the client puts there at run time: \<open>r_text\<close> and the
  fields of an utterance are values read from the server's JSON, a string when the server
  keeps to the declared types.
\<close>

record ASRUtterance =
  u_text :: jsval
  u_startTime :: jsval
  u_endTime :: jsval
  u_definite :: jsval

record ASRResult =
  r_text :: jsval
  isPartial :: bool
  utterances :: "ASRUtterance list option"
  r_error :: "jsstring option"

datatype ASREventType =
  StateChangeEvent | ResultEvent | ErrorEvent' | ConnectedEvent | DisconnectedEvent

text \<open>An emitted event, without its time stamp.\<close>

record ASREvent =
  ev_type :: ASREventType
  ev_state :: ASRState
  ev_result :: "ASRResult option"
  ev_error :: "jsstring option"

section \<open>The protocol client (app/main/asr/asr-client.ts)\<close>

subsection \<open>Protocol constants\<close>

definition CLIENT_FULL_REQUEST :: byte where "CLIENT_FULL_REQUEST = 0b0001"
definition CLIENT_AUDIO_ONLY_REQUEST :: byte where "CLIENT_AUDIO_ONLY_REQUEST = 0b0010"
definition SERVER_FULL_RESPONSE :: byte where "SERVER_FULL_RESPONSE = 0b1001"
definition SERVER_ERROR_RESPONSE :: byte where "SERVER_ERROR_RESPONSE = 0b1111"

definition NO_SEQUENCE :: byte where "NO_SEQUENCE = 0b0000"
definition POS_SEQUENCE :: byte where "POS_SEQUENCE = 0b0001"
definition NEG_SEQUENCE :: byte where "NEG_SEQUENCE = 0b0010"
definition NEG_WITH_SEQUENCE :: byte where "NEG_WITH_SEQUENCE = 0b0011"

definition NO_SERIALIZATION :: byte where "NO_SERIALIZATION = 0b0000"
definition JSON :: byte where "JSON = 0b0001"

definition NO_COMPRESSION :: byte where "NO_COMPRESSION = 0b0000"
definition GZIP :: byte where "GZIP = 0b0001"

subsection \<open>State of a client\<close>

datatype ConnectionState = Disconnected | ConnectionConnecting | Connected | Closing

text \<open>
  \<open>ws\<close> tells whether \<^verbatim>\<open>this.ws\<close> holds a socket, \<open>sendInterval\<close> whether the flush timer is
  set. \<open>wire\<close> is not a field of the class: it records the frames handed to \<^verbatim>\<open>ws.send\<close>,
  oldest first. The console output of the client is not modelled.
\<close>

record ASRClient =
  connectionState :: ConnectionState
  ws :: bool
  audioBuffer :: "byte list list"
  sendInterval :: bool
  wire :: "byte list list"

definition new_ASRClient :: ASRClient where
  "new_ASRClient =
     \<lparr>connectionState = Disconnected, ws = False, audioBuffer = [], sendInterval = False,
      wire = []\<rparr>"

definition isConnected :: "ASRClient \<Rightarrow> bool" where
  "isConnected c \<longleftrightarrow> connectionState c = Connected"

subsection \<open>Frames sent by the client\<close>

definition buildHeader :: "byte \<Rightarrow> byte \<Rightarrow> byte \<Rightarrow> byte \<Rightarrow> byte list" where
  "buildHeader messageType flags serialization compression =
     [push_bit 4 1 OR 1,
      push_bit 4 messageType OR flags,
      push_bit 4 serialization OR compression,
      0x00]"

text \<open>\<^verbatim>\<open>DataView.setUint32(offset, n, false)\<close>: the four bytes of \<open>n\<close> modulo \<open>2^32\<close>, big-endian.\<close>

definition setUint32 :: "nat \<Rightarrow> byte list" where
  "setUint32 n =
     (let w = (of_nat n :: 32 word)
      in [ucast (drop_bit 24 w), ucast (drop_bit 16 w), ucast (drop_bit 8 w), ucast w])"

definition fullClientRequest :: "runtime \<Rightarrow> byte list" where
  "fullClientRequest rt =
     (let compressedPayload = gzip rt (initRequestPayload rt)
      in buildHeader CLIENT_FULL_REQUEST NO_SEQUENCE JSON GZIP
         @ setUint32 (length compressedPayload) @ compressedPayload)"

definition audioPacket :: "runtime \<Rightarrow> byte list \<Rightarrow> bool \<Rightarrow> byte list" where
  "audioPacket rt audioData isLast =
     (let compressedAudio = gzip rt audioData;
          flags = (if isLast then NEG_SEQUENCE else NO_SEQUENCE)
      in buildHeader CLIENT_AUDIO_ONLY_REQUEST flags NO_SERIALIZATION GZIP
         @ setUint32 (length compressedAudio) @ compressedAudio)"

definition sendAudioPacket :: "runtime \<Rightarrow> byte list \<Rightarrow> bool \<Rightarrow> ASRClient \<Rightarrow> ASRClient" where
  "sendAudioPacket rt audioData isLast c =
     (if \<not> ws c \<or> \<not> isConnected c then c
      else c\<lparr>wire := wire c @ [audioPacket rt audioData isLast]\<rparr>)"

definition startAudioSender :: "ASRClient \<Rightarrow> ASRClient" where
  "startAudioSender c = c\<lparr>sendInterval := True\<rparr>"

definition stopAudioSender :: "ASRClient \<Rightarrow> ASRClient" where
  "stopAudioSender c = (if sendInterval c then c\<lparr>sendInterval := False\<rparr> else c)"

definition mergeAudioBuffer :: "ASRClient \<Rightarrow> byte list \<times> ASRClient" where
  "mergeAudioBuffer c = (concat (audioBuffer c), c\<lparr>audioBuffer := []\<rparr>)"

text \<open>One firing of the flush timer set by \<open>startAudioSender\<close>.\<close>

definition flushTick :: "runtime \<Rightarrow> ASRClient \<Rightarrow> ASRClient" where
  "flushTick rt c =
     (if audioBuffer c = [] \<or> \<not> isConnected c then c
      else (let (mergedData, c') = mergeAudioBuffer c in sendAudioPacket rt mergedData False c'))"

subsection \<open>Operations of the client\<close>

definition client_sendAudio :: "byte list \<Rightarrow> ASRClient \<Rightarrow> ASRClient" where
  "client_sendAudio audioData c =
     (if \<not> isConnected c then c else c\<lparr>audioBuffer := audioBuffer c @ [audioData]\<rparr>)"

definition client_finish :: "runtime \<Rightarrow> ASRClient \<Rightarrow> ASRClient" where
  "client_finish rt c =
     (let c1 = stopAudioSender c
      in if \<not> isConnected c1 then c1
         else if length (audioBuffer c1) > 0
              then (let (mergedData, c2) = mergeAudioBuffer c1
                    in sendAudioPacket rt mergedData True c2)
              else sendAudioPacket rt [] True c1)"

definition client_close :: "ASRClient \<Rightarrow> ASRClient" where
  "client_close c =
     (let c1 = stopAudioSender c;
          c2 = (if ws c1 then c1\<lparr>connectionState := Closing, ws := False\<rparr> else c1)
      in c2\<lparr>connectionState := Disconnected, audioBuffer := []\<rparr>)"

text \<open>
  \<^verbatim>\<open>connect()\<close> resolves or rejects on an event of the socket it opens. The events are the
  environment's: the \<^verbatim>\<open>WebSocket\<close> constructor throws (with a message), the socket reports an
  error while connecting (\<open>ErrorEvent e\<close>, with \<open>e\<close> the text the template literal prints for
  the event), the socket opens and the initial request goes out, or the socket opens and
  sending the initial request throws.
\<close>

datatype connect_event =
    ConstructorThrows jsstring
  | ErrorEvent jsstring
  | Open
  | OpenRequestFails jsstring

text \<open>
  The \<^verbatim>\<open>Error\<close> objects the client and the manager throw, one constructor for each message,
  \<open>Thrown m\<close> for an exception of the platform with message \<open>m\<close>, and \<open>UnhandledError e\<close> for
  the error that \<^verbatim>\<open>EventEmitter.emit\<close> throws when the event \<open>e\<close> is emitted as \<^verbatim>\<open>error\<close> and no
  listener is registered for \<^verbatim>\<open>error\<close> (\<^verbatim>\<open>ERR_UNHANDLED_ERROR\<close>, with \<open>e\<close> as its context).
\<close>

datatype error =
    CannotConnect ConnectionState
  | WebSocketConnectFailed
  | CannotStartSession ASRState
  | SessionNotStarted
  | CannotStopSession ASRState
  | FinalResultTimeout
  | Thrown jsstring
  | UnhandledError ASREvent

definition connectionErrorResult :: "jsstring \<Rightarrow> ASRResult" where
  "connectionErrorResult e =
     \<lparr>r_text = JStr [], isPartial = True, utterances = None,
      r_error = Some ([0x8FDE, 0x63A5, 0x9519, 0x8BEF, 0x3A, 0x20] @ e)\<rparr>"

text \<open>
  \<open>client_connect rt ev callbackThrows c\<close>. The result is the outcome of the promise, the
  client afterwards, and the results handed to the callback meanwhile. \<open>callbackThrows\<close> tells
  for which results the callback throws. The \<^verbatim>\<open>error\<close> listener of the socket calls the callback
  before it does anything else: when the callback throws there, the rest of the listener is
  skipped, the client stays in state \<open>ConnectionConnecting\<close>, the promise is neither resolved
  nor rejected (outcome \<open>None\<close>), and the exception goes to the platform, outside the code
  modelled here.
\<close>

definition client_connect ::
  "runtime \<Rightarrow> connect_event \<Rightarrow> (ASRResult \<Rightarrow> bool) \<Rightarrow> ASRClient
   \<Rightarrow> (error + unit) option \<times> ASRClient \<times> ASRResult list" where
  "client_connect rt ev callbackThrows c =
     (if connectionState c \<noteq> Disconnected
      then (Some (Inl (CannotConnect (connectionState c))), c, [])
      else
        (let c1 = c\<lparr>connectionState := ConnectionConnecting\<rparr>
         in case ev of
              ConstructorThrows m \<Rightarrow>
                (Some (Inl (Thrown m)), c1\<lparr>connectionState := Disconnected\<rparr>, [])
            | ErrorEvent e \<Rightarrow>
                if callbackThrows (connectionErrorResult e)
                then (None, c1\<lparr>ws := True\<rparr>, [connectionErrorResult e])
                else (Some (Inl WebSocketConnectFailed),
                      c1\<lparr>ws := True, connectionState := Disconnected\<rparr>,
                      [connectionErrorResult e])
            | Open \<Rightarrow>
                (let c2 = c1\<lparr>ws := True, connectionState := Connected\<rparr>;
                     c3 = c2\<lparr>wire := wire c2 @ [fullClientRequest rt]\<rparr>
                 in (Some (Inr ()), startAudioSender c3, []))
            | OpenRequestFails m \<Rightarrow>
                (Some (Inl (Thrown m)), c1\<lparr>ws := True, connectionState := Disconnected\<rparr>, [])))"

text \<open>The \<^verbatim>\<open>close\<close> listener of the socket.\<close>

definition onClose :: "ASRClient \<Rightarrow> ASRClient" where
  "onClose c = stopAudioSender (c\<lparr>connectionState := Disconnected\<rparr>)"

subsection \<open>Responses of the server\<close>

text \<open>\<^verbatim>\<open>DataView.getInt32(0, false)\<close> and \<^verbatim>\<open>getUint32(0, false)\<close>; both throw a
  \<^verbatim>\<open>RangeError\<close> when the view has fewer than four bytes.\<close>

definition word32be :: "byte list \<Rightarrow> 32 word" where
  "word32be bs =
     push_bit 24 (ucast (bs ! 0)) OR push_bit 16 (ucast (bs ! 1)) OR push_bit 8 (ucast (bs ! 2))
     OR ucast (bs ! 3)"

definition getInt32 :: "byte list \<Rightarrow> exn + int" where
  "getInt32 bs = (if length bs < 4 then Inl RangeError else Inr (sint (word32be bs)))"

definition getUint32 :: "byte list \<Rightarrow> exn + nat" where
  "getUint32 bs = (if length bs < 4 then Inl RangeError else Inr (unat (word32be bs)))"

definition serverErrorText :: "int \<Rightarrow> jsstring \<Rightarrow> jsstring" where
  "serverErrorText errorCode errorMessage =
     [0x9519, 0x8BEF, 0x7801, 0x20] @ dec errorCode @ ascii '': '' @ errorMessage"

text \<open>The branch of \<open>handleResponse\<close> for \<open>SERVER_ERROR_RESPONSE\<close>.\<close>

definition handleErrorResponse :: "runtime \<Rightarrow> byte \<Rightarrow> byte list \<Rightarrow> exn + ASRResult list" where
  "handleErrorResponse rt compressionMethod payload =
     (case getInt32 payload of
        Inl e \<Rightarrow> Inl e
      | Inr errorCode \<Rightarrow>
          (let payload' = drop 8 payload
           in case (if compressionMethod = GZIP then gunzip rt payload' else Some payload') of
                None \<Rightarrow> Inl DecompressError
              | Some bytes \<Rightarrow>
                  Inr [\<lparr>r_text = JStr [], isPartial = True, utterances = None,
                        r_error = Some (serverErrorText errorCode (decode rt bytes))\<rparr>]))"

text \<open>
  The third operand of the expression for \<open>text\<close>:
  \<^verbatim>\<open>result.utterances && result.utterances.length > 0 ? result.utterances.map(u => u.text).join('') : ""\<close>.
  For a value of \<^verbatim>\<open>result.utterances\<close> that is truthy and not an array, the source either
  throws here (\<^verbatim>\<open>map\<close> is not a function) or gives \<^verbatim>\<open>""\<close> and throws at the next statement,
  \<^verbatim>\<open>result.utterances?.map(...)\<close>, with nothing done in between; the model throws here.
\<close>

definition utterancesText :: "jsval \<Rightarrow> exn + jsval" where
  "utterancesText us =
     (case us of
        JArr xs \<Rightarrow>
          if length xs > 0
          then (if \<exists>u \<in> set xs. nullish u then Inl TypeError
                else (case js_join [] (map (\<lambda>u. getProp u (ascii ''text'')) xs) of
                        Inl e \<Rightarrow> Inl e
                      | Inr joined \<Rightarrow> Inr (JStr joined)))
          else Inr (JStr [])
      | v \<Rightarrow> if truthy v then Inl TypeError else Inr (JStr []))"

definition extractText :: "jsval \<Rightarrow> exn + jsval" where
  "extractText result =
     (let t1 = getProp result (ascii ''text'')
      in if truthy t1 then Inr t1
         else
           (let t2 = optProp (optProp (getProp result (ascii ''payload_msg'')) (ascii ''result''))
                       (ascii ''text'')
            in if truthy t2 then Inr t2
               else utterancesText (getProp result (ascii ''utterances''))))"

definition toUtterance :: "jsval \<Rightarrow> ASRUtterance" where
  "toUtterance u =
     \<lparr>u_text = getProp u (ascii ''text''),
      u_startTime = js_or (getProp u (ascii ''start_time'')) (getProp u (ascii ''startTime'')),
      u_endTime = js_or (getProp u (ascii ''end_time'')) (getProp u (ascii ''endTime'')),
      u_definite = getProp u (ascii ''definite'')\<rparr>"

text \<open>\<^verbatim>\<open>result.utterances?.map(...)\<close>: \<^verbatim>\<open>undefined\<close> for a missing or \<^verbatim>\<open>null\<close> list, a
  \<^verbatim>\<open>TypeError\<close> for a value that is not an array or for a \<^verbatim>\<open>null\<close> element.\<close>

definition extractUtterances :: "jsval \<Rightarrow> exn + ASRUtterance list option" where
  "extractUtterances result =
     (case getProp result (ascii ''utterances'') of
        JUndefined \<Rightarrow> Inr None
      | JNull \<Rightarrow> Inr None
      | JArr xs \<Rightarrow>
          if \<exists>u \<in> set xs. nullish u then Inl TypeError else Inr (Some (map toUtterance xs))
      | _ \<Rightarrow> Inl TypeError)"

text \<open>The part of \<open>handleResponse\<close> that follows \<^verbatim>\<open>JSON.parse\<close>: the list of results handed to
  the callback, or the exception thrown.\<close>

definition extractResult :: "jsval \<Rightarrow> bool \<Rightarrow> exn + ASRResult list" where
  "extractResult jsonData isLastPackage =
     (if nullish jsonData then Inl TypeError
      else
        (let result = js_or (optProp (getProp jsonData (ascii ''payload_msg'')) (ascii ''result''))
                            (getProp jsonData (ascii ''result''))
         in if \<not> truthy result then Inr []
            else
              (case extractText result of
                 Inl e \<Rightarrow> Inl e
               | Inr text \<Rightarrow>
                   (case extractUtterances result of
                      Inl e \<Rightarrow> Inl e
                    | Inr utts \<Rightarrow>
                        if truthy text \<or> utts \<noteq> None
                        then Inr [\<lparr>r_text = text, isPartial = \<not> isLastPackage,
                                   utterances = utts, r_error = None\<rparr>]
                        else Inr []))))"

text \<open>The branch of \<open>handleResponse\<close> for \<open>SERVER_FULL_RESPONSE\<close>. The size read from the frame
  is not used.\<close>

definition handleFullResponse ::
  "runtime \<Rightarrow> byte \<Rightarrow> bool \<Rightarrow> byte list \<Rightarrow> exn + ASRResult list" where
  "handleFullResponse rt compressionMethod isLastPackage payload =
     (case getUint32 payload of
        Inl e \<Rightarrow> Inl e
      | Inr payloadSize \<Rightarrow>
          (let payload' = drop 4 payload
           in if length payload' = 0 then Inr []
              else
                (case (if compressionMethod = GZIP then gunzip rt payload' else Some payload') of
                   None \<Rightarrow> Inl DecompressError
                 | Some bytes \<Rightarrow>
                     (case JSON_parse rt (decode rt bytes) of
                        None \<Rightarrow> Inl SyntaxError
                      | Some jsonData \<Rightarrow> extractResult jsonData isLastPackage))))"

definition handleResponse :: "runtime \<Rightarrow> byte list \<Rightarrow> exn + ASRResult list" where
  "handleResponse rt data =
     (if length data < 4 then Inr []
      else
        (let headerSize = unat (data ! 0 AND 0x0F) * 4;
             messageType = drop_bit 4 (data ! 1) AND 0x0F;
             messageFlags = data ! 1 AND 0x0F;
             compressionMethod = data ! 2 AND 0x0F;
             payload = drop headerSize data;
             payload = (if messageFlags AND 0x01 \<noteq> 0 then drop 4 payload else payload);
             isLastPackage = (messageFlags AND 0x02 \<noteq> 0)
         in if messageType = SERVER_ERROR_RESPONSE
            then handleErrorResponse rt compressionMethod payload
            else if messageType = SERVER_FULL_RESPONSE
            then handleFullResponse rt compressionMethod isLastPackage payload
            else Inr []))"

text \<open>The \<^verbatim>\<open>message\<close> listener of the socket catches what \<open>handleResponse\<close> throws.\<close>

definition onMessage :: "runtime \<Rightarrow> byte list \<Rightarrow> ASRResult list" where
  "onMessage rt data = (case handleResponse rt data of Inl e \<Rightarrow> [] | Inr results \<Rightarrow> results)"

text \<open>Clients that a sequence of calls and socket events can produce.\<close>

inductive client_reachable :: "runtime \<Rightarrow> ASRClient \<Rightarrow> bool" for rt :: runtime where
  cr_new: "client_reachable rt new_ASRClient"
| cr_connect: "client_reachable rt c \<Longrightarrow> client_connect rt ev callbackThrows c = (out, c', rs)
     \<Longrightarrow> client_reachable rt c'"
| cr_sendAudio: "client_reachable rt c \<Longrightarrow> client_reachable rt (client_sendAudio audioData c)"
| cr_finish: "client_reachable rt c \<Longrightarrow> client_reachable rt (client_finish rt c)"
| cr_close: "client_reachable rt c \<Longrightarrow> client_reachable rt (client_close c)"
| cr_flushTick: "client_reachable rt c \<Longrightarrow> sendInterval c \<Longrightarrow> client_reachable rt (flushTick rt c)"
| cr_onClose: "client_reachable rt c \<Longrightarrow> client_reachable rt (onClose c)"

section \<open>The session manager (app/main/asr/asr-manager.ts)\<close>

subsection \<open>Errors\<close>

definition stateName :: "ASRState \<Rightarrow> jsstring" where
  "stateName st =
     (case st of
        Idle \<Rightarrow> ascii ''idle'' | Connecting \<Rightarrow> ascii ''connecting'' | Ready \<Rightarrow> ascii ''ready''
      | Recording \<Rightarrow> ascii ''recording'' | Processing \<Rightarrow> ascii ''processing''
      | Completed \<Rightarrow> ascii ''completed'' | Error \<Rightarrow> ascii ''error'')"

definition connectionStateName :: "ConnectionState \<Rightarrow> jsstring" where
  "connectionStateName st =
     (case st of
        Disconnected \<Rightarrow> ascii ''disconnected'' | ConnectionConnecting \<Rightarrow> ascii ''connecting''
      | Connected \<Rightarrow> ascii ''connected'' | Closing \<Rightarrow> ascii ''closing'')"

text \<open>
  The \<^verbatim>\<open>message\<close> of each error the code throws or catches, in UTF-16 code units. The catch
  blocks read it. An \<open>UnhandledError\<close> leaves the catch block that raises it and is caught
  nowhere in the code, so nothing reads its message; that message is the rendering
  \<^verbatim>\<open>util.inspect\<close> gives of the event with its time stamp, which the events of the model do
  not keep, and no equation gives it.
\<close>

fun message :: "error \<Rightarrow> jsstring" where
  "message (CannotConnect st) =
     [0x65E0, 0x6CD5, 0x8FDE, 0x63A5, 0xFF1A, 0x5F53, 0x524D, 0x72B6, 0x6001, 0x4E3A, 0x20]
     @ connectionStateName st"
| "message WebSocketConnectFailed = ascii ''WebSocket '' @ [0x8FDE, 0x63A5, 0x5931, 0x8D25]"
| "message (CannotStartSession st) =
     [0x65E0, 0x6CD5, 0x5F00, 0x59CB, 0x4F1A, 0x8BDD, 0xFF1A, 0x5F53, 0x524D, 0x72B6, 0x6001,
      0x4E3A, 0x20] @ stateName st"
| "message SessionNotStarted = [0x4F1A, 0x8BDD, 0x672A, 0x5F00, 0x59CB]"
| "message (CannotStopSession st) =
     [0x65E0, 0x6CD5, 0x505C, 0x6B62, 0x4F1A, 0x8BDD, 0xFF1A, 0x5F53, 0x524D, 0x72B6, 0x6001,
      0x4E3A, 0x20] @ stateName st"
| "message FinalResultTimeout = [0x7B49, 0x5F85, 0x6700, 0x7EC8, 0x7ED3, 0x679C, 0x8D85, 0x65F6]"
| "message (Thrown m) = m"

text \<open>
  The source throws plain \<^verbatim>\<open>Error\<close> objects. The specification names them by what they
  report: an operation that is not valid in the current state, and the wait for the final
  result that ran out.
\<close>

fun isInvalidStateError :: "error \<Rightarrow> bool" where
  "isInvalidStateError (CannotConnect _) = True"
| "isInvalidStateError (CannotStartSession _) = True"
| "isInvalidStateError SessionNotStarted = True"
| "isInvalidStateError (CannotStopSession _) = True"
| "isInvalidStateError _ = False"

fun isTimeoutError :: "error \<Rightarrow> bool" where
  "isTimeoutError FinalResultTimeout = True"
| "isTimeoutError _ = False"

subsection \<open>State of a manager\<close>

text \<open>The configuration after the constructor has filled in the defaults;
  \<open>maxHistorySize\<close> is a number of entries.\<close>

record ASRManagerConfig =
  autoSaveHistory :: bool
  maxHistorySize :: nat

text \<open>Times are milliseconds, as \<^verbatim>\<open>Date.getTime()\<close> gives them.\<close>

record TranscriptionHistoryEntry =
  h_id :: jsstring
  h_text :: jsval
  h_startTime :: int
  h_endTime :: int
  h_duration :: int

datatype warning = AudioIgnored ASRState | TimeoutUsingLastPartial

text \<open>
  The fields of the class, from \<open>config\<close> to \<open>history\<close>; the state it inherits from
  \<^verbatim>\<open>EventEmitter\<close>: \<open>listeners\<close> has the type of event of each registered listener, in the order
  of registration (the listeners are the caller's functions, and are taken to return
  normally); and three records of what the manager did: \<open>emitted\<close> lists the events passed
  to \<^verbatim>\<open>emit\<close>, \<open>warnings\<close> the calls of \<^verbatim>\<open>console.warn\<close>, and \<open>closedClients\<close> the clients that
  \<open>cleanup\<close> closed and dropped, each in the state it was left in.
\<close>

record ASRManager =
  config :: ASRManagerConfig
  client :: "ASRClient option"
  currentState :: ASRState
  sessionStartTime :: "int option"
  partialResults :: "ASRResult list"
  finalResult :: "ASRResult option"
  history :: "TranscriptionHistoryEntry list"
  listeners :: "ASREventType list"
  emitted :: "ASREvent list"
  warnings :: "warning list"
  closedClients :: "ASRClient list"

definition new_ASRManager :: "bool option \<Rightarrow> nat option \<Rightarrow> ASRManager" where
  "new_ASRManager autoSave maxSize =
     \<lparr>config = \<lparr>autoSaveHistory = (case autoSave of None \<Rightarrow> True | Some b \<Rightarrow> b),
                maxHistorySize = (case maxSize of None \<Rightarrow> 100 | Some n \<Rightarrow> n)\<rparr>,
      client = None, currentState = Idle, sessionStartTime = None, partialResults = [],
      finalResult = None, history = [], listeners = [], emitted = [], warnings = [],
      closedClients = []\<rparr>"

subsection \<open>Events\<close>

text \<open>\<^verbatim>\<open>on\<close> adds a listener; \<^verbatim>\<open>off\<close> removes a listener that was added for \<open>ty\<close>.\<close>

definition on :: "ASREventType \<Rightarrow> ASRManager \<Rightarrow> ASRManager" where
  "on ty s = s\<lparr>listeners := listeners s @ [ty]\<rparr>"

definition off :: "ASREventType \<Rightarrow> ASRManager \<Rightarrow> ASRManager" where
  "off ty s = s\<lparr>listeners := remove1 ty (listeners s)\<rparr>"

text \<open>
  \<^verbatim>\<open>EventEmitter.emit(type, event)\<close>: the listeners of the type are called; an event of type
  \<^verbatim>\<open>error\<close> for which no listener is registered is thrown as an \<open>UnhandledError\<close>. The value
  is the exception thrown, if any, and the manager afterwards.
\<close>

definition emit :: "ASREvent \<Rightarrow> ASRManager \<Rightarrow> error option \<times> ASRManager" where
  "emit e s =
     (if ev_type e = ErrorEvent' \<and> ErrorEvent' \<notin> set (listeners s) then Some (UnhandledError e)
      else None,
      s\<lparr>emitted := emitted s @ [e]\<rparr>)"

subsection \<open>Private methods\<close>

definition emitEvent ::
  "ASREventType \<Rightarrow> ASRResult option \<Rightarrow> jsstring option \<Rightarrow> ASRManager
   \<Rightarrow> error option \<times> ASRManager" where
  "emitEvent ty res err s =
     emit \<lparr>ev_type = ty, ev_state = currentState s, ev_result = res, ev_error = err\<rparr> s"

text \<open>The event of \<open>setState\<close> is a \<^verbatim>\<open>state-change\<close>, which \<open>emit\<close> does not throw.\<close>

definition setState :: "ASRState \<Rightarrow> ASRManager \<Rightarrow> ASRManager" where
  "setState st s =
     (let previousState = currentState s;
          s1 = s\<lparr>currentState := st\<rparr>
      in if previousState \<noteq> st then snd (emitEvent StateChangeEvent None None s1) else s1)"

text \<open>\<^verbatim>\<open>if (result.error)\<close>: an error that is present and not the empty string.\<close>

definition hasError :: "ASRResult \<Rightarrow> bool" where
  "hasError r = (case r_error r of None \<Rightarrow> False | Some e \<Rightarrow> e \<noteq> [])"

text \<open>The value is the exception thrown, if any, and the manager afterwards.\<close>

definition handleTranscriptionResult ::
  "ASRResult \<Rightarrow> ASRManager \<Rightarrow> error option \<times> ASRManager" where
  "handleTranscriptionResult r s =
     (if hasError r then emitEvent ErrorEvent' (Some r) (r_error r) s
      else
        (let s1 = (if isPartial r then s\<lparr>partialResults := partialResults s @ [r]\<rparr>
                   else s\<lparr>finalResult := Some r\<rparr>)
         in emitEvent ResultEvent (Some r) None s1))"

text \<open>
  The callback runs once for each result the client hands over, in order. An exception of
  the callback leaves the manager as the callback left it: the \<^verbatim>\<open>message\<close> listener of the
  client catches it, and from the \<^verbatim>\<open>error\<close> listener of the socket it goes to the platform.
\<close>

definition deliver :: "ASRResult list \<Rightarrow> ASRManager \<Rightarrow> ASRManager" where
  "deliver rs s = foldl (\<lambda>s r. snd (handleTranscriptionResult r s)) s rs"

text \<open>
  \<open>waitForFinalResult timeoutMs elapsed sleeps s\<close>. Each turn of the loop reads the clock;
  \<open>elapsed\<close> is \<^verbatim>\<open>Date.now() - startTime\<close> at this turn. The environment gives, for each
  \<^verbatim>\<open>setTimeout(resolve, 100)\<close> the loop awaits, the time by which the clock has advanced when
  the loop resumes and the results the callback received meanwhile. The value is \<open>None\<close> when
  the loop is still waiting at the end of \<open>sleeps\<close>; otherwise it is the result returned or
  the error thrown, the manager, and the time elapsed at the last turn.
\<close>

fun waitForFinalResult ::
  "int \<Rightarrow> int \<Rightarrow> (nat \<times> ASRResult list) list \<Rightarrow> ASRManager
   \<Rightarrow> ((error + ASRResult) \<times> ASRManager \<times> int) option" where
  "waitForFinalResult timeoutMs elapsed sleeps s =
     (case finalResult s of
        Some r \<Rightarrow> Some (Inr r, s, elapsed)
      | None \<Rightarrow>
          if elapsed > timeoutMs
          then (case partialResults s of
                  [] \<Rightarrow> Some (Inl FinalResultTimeout, s, elapsed)
                | _ # _ \<Rightarrow>
                    Some (Inr ((last (partialResults s))\<lparr>isPartial := False\<rparr>),
                          s\<lparr>warnings := warnings s @ [TimeoutUsingLastPartial]\<rparr>, elapsed))
          else (case sleeps of
                  [] \<Rightarrow> None
                | (d, rs) # sleeps' \<Rightarrow>
                    waitForFinalResult timeoutMs (elapsed + int d) sleeps' (deliver rs s)))"

declare waitForFinalResult.simps [simp del]

text \<open>The delay the loop asks of \<^verbatim>\<open>setTimeout\<close>, and the budget \<open>stopSession\<close> passes.\<close>

definition POLL_INTERVAL_MS :: nat where "POLL_INTERVAL_MS = 100"
definition FINAL_RESULT_TIMEOUT_MS :: int where "FINAL_RESULT_TIMEOUT_MS = 5000"

text \<open>
  \<open>addToHistory rt now uuid result s\<close>, with \<open>now\<close> the time \<^verbatim>\<open>new Date()\<close> reads and \<open>uuid\<close> the
  value of \<^verbatim>\<open>crypto.randomUUID()\<close>. Calling \<^verbatim>\<open>getTime()\<close> on a \<^verbatim>\<open>null\<close> session start throws a
  \<^verbatim>\<open>TypeError\<close> with the message of the engine.
\<close>

definition addToHistory ::
  "runtime \<Rightarrow> int \<Rightarrow> jsstring \<Rightarrow> ASRResult \<Rightarrow> ASRManager \<Rightarrow> error + ASRManager" where
  "addToHistory rt now uuid result s =
     (case sessionStartTime s of
        None \<Rightarrow> Inl (Thrown (typeErrorMessage rt))
      | Some start \<Rightarrow>
          (let entry = \<lparr>h_id = uuid, h_text = r_text result, h_startTime = start,
                        h_endTime = now, h_duration = now - start\<rparr>;
               h = entry # history s
           in Inr (s\<lparr>history := (if length h > maxHistorySize (config s)
                                  then take (maxHistorySize (config s)) h else h)\<rparr>)))"

definition cleanup :: "ASRManager \<Rightarrow> ASRManager" where
  "cleanup s =
     (let s1 = (case client s of
                  Some c \<Rightarrow> s\<lparr>closedClients := closedClients s @ [client_close c], client := None\<rparr>
                | None \<Rightarrow> s)
      in s1\<lparr>sessionStartTime := None\<rparr>)"

subsection \<open>Public methods\<close>

text \<open>
  The \<^verbatim>\<open>catch\<close> block of \<open>startSession\<close> and of \<open>stopSession\<close>: the state becomes \<open>Error\<close>, the
  error is emitted, and \<^verbatim>\<open>throw error\<close> is reached when the emission has not thrown. The value
  is the exception that leaves the block, and the manager.
\<close>

definition catchBlock :: "error \<Rightarrow> ASRManager \<Rightarrow> error \<times> ASRManager" where
  "catchBlock e s =
     (case emitEvent ErrorEvent' None (Some (message e)) (setState Error s) of
        (Some unhandled, s') \<Rightarrow> (unhandled, s')
      | (None, s') \<Rightarrow> (e, s'))"

text \<open>
  \<open>startSession rt now ev s\<close>, with \<open>now\<close> the time \<^verbatim>\<open>new Date()\<close> reads and \<open>ev\<close> the event
  of the socket on which \<^verbatim>\<open>connect()\<close> depends. The outcome is \<open>None\<close> when the promise of
  \<^verbatim>\<open>connect()\<close> is never settled, and with it the promise of \<open>startSession\<close>.
\<close>

definition startSession ::
  "runtime \<Rightarrow> int \<Rightarrow> connect_event \<Rightarrow> ASRManager \<Rightarrow> (error + unit) option \<times> ASRManager" where
  "startSession rt now ev s =
     (if currentState s \<noteq> Idle then (Some (Inl (CannotStartSession (currentState s))), s)
      else
        (let s1 = setState Connecting s;
             s2 = s1\<lparr>sessionStartTime := Some now, partialResults := [], finalResult := None\<rparr>;
             (outcome, c, results) =
               client_connect rt ev (\<lambda>r. fst (handleTranscriptionResult r s2) \<noteq> None)
                 new_ASRClient;
             s3 = deliver results (s2\<lparr>client := Some c\<rparr>)
         in case outcome of
              None \<Rightarrow> (None, s3)
            | Some (Inr _) \<Rightarrow>
                (Some (Inr ()), snd (emitEvent ConnectedEvent None None (setState Ready s3)))
            | Some (Inl e) \<Rightarrow> (let (e', s4) = catchBlock e s3 in (Some (Inl e'), s4))))"

definition sendAudio :: "byte list \<Rightarrow> ASRManager \<Rightarrow> (error + unit) \<times> ASRManager" where
  "sendAudio audioData s =
     (case client s of
        None \<Rightarrow> (Inl SessionNotStarted, s)
      | Some _ \<Rightarrow>
          (let s1 = (if currentState s = Ready then setState Recording s else s)
           in if currentState s1 \<noteq> Recording
              then (Inr (), s1\<lparr>warnings := warnings s1 @ [AudioIgnored (currentState s1)]\<rparr>)
              else (Inr (), s1\<lparr>client := map_option (client_sendAudio audioData) (client s1)\<rparr>)))"

text \<open>
  What the environment does while \<open>stopSession\<close> runs: whether \<^verbatim>\<open>client.finish()\<close> throws (an
  exception of gzip or of the socket, with its message; the client is then left with its
  timer stopped and its last packet unsent), the results the callback receives while
  \<^verbatim>\<open>finish()\<close> is awaited, the clock when the wait for the final result starts, the sleeps
  of that wait (see \<open>waitForFinalResult\<close>), and the identifier \<^verbatim>\<open>crypto.randomUUID()\<close> gives.
\<close>

record stop_env =
  finishThrows :: "jsstring option"
  duringFinish :: "ASRResult list"
  waitStart :: int
  sleeps :: "(nat \<times> ASRResult list) list"
  uuid :: jsstring

text \<open>The \<^verbatim>\<open>catch\<close> and \<^verbatim>\<open>finally\<close> blocks of \<open>stopSession\<close>, for an exception \<open>e\<close> of the
  \<^verbatim>\<open>try\<close> block.\<close>

definition stopFailed :: "error \<Rightarrow> ASRManager \<Rightarrow> (error + ASRResult) \<times> ASRManager" where
  "stopFailed e s = (let (e', s') = catchBlock e s in (Inl e', cleanup s'))"

text \<open>The value is \<open>None\<close> when the call has not returned at the end of \<open>sleeps env\<close>.\<close>

definition stopSession ::
  "runtime \<Rightarrow> stop_env \<Rightarrow> ASRManager \<Rightarrow> ((error + ASRResult) \<times> ASRManager) option" where
  "stopSession rt env s =
     (case client s of
        None \<Rightarrow> Some (Inl SessionNotStarted, s)
      | Some c \<Rightarrow>
          if currentState s \<noteq> Recording \<and> currentState s \<noteq> Ready
          then Some (Inl (CannotStopSession (currentState s)), s)
          else
            (let s1 = setState Processing s
             in case finishThrows env of
                  Some m \<Rightarrow>
                    Some (stopFailed (Thrown m)
                            (deliver (duringFinish env) (s1\<lparr>client := Some (stopAudioSender c)\<rparr>)))
                | None \<Rightarrow>
                    (let s2 = deliver (duringFinish env) (s1\<lparr>client := Some (client_finish rt c)\<rparr>)
                     in case waitForFinalResult FINAL_RESULT_TIMEOUT_MS 0 (sleeps env) s2 of
                          None \<Rightarrow> None
                        | Some (Inl e, s3, elapsed) \<Rightarrow> Some (stopFailed e s3)
                        | Some (Inr result, s3, elapsed) \<Rightarrow>
                            (let s4 = setState Completed s3
                             in if autoSaveHistory (config s4) \<and> truthy (r_text result)
                                then (case addToHistory rt (waitStart env + elapsed) (uuid env)
                                             result s4 of
                                        Inl e \<Rightarrow> Some (stopFailed e s4)
                                      | Inr s5 \<Rightarrow> Some (Inr result, cleanup s5))
                                else Some (Inr result, cleanup s4)))))"

text \<open>
  \<open>cancelSession\<close> closes the client, calls \<open>cleanup\<close> without awaiting it and sets the state.
  \<open>cleanup\<close> suspends once, at its second \<^verbatim>\<open>close()\<close>, and drops the client when it resumes,
  which is before a caller that awaits \<open>cancelSession\<close> does; the model is the state that
  caller sees.
\<close>

definition cancelSession :: "ASRManager \<Rightarrow> ASRManager" where
  "cancelSession s =
     (let s1 = (case client s of Some c \<Rightarrow> s\<lparr>client := Some (client_close c)\<rparr> | None \<Rightarrow> s)
      in setState Idle (cleanup s1))"

definition clearHistory :: "ASRManager \<Rightarrow> ASRManager" where
  "clearHistory s = s\<lparr>history := []\<rparr>"

definition getHistoryEntry :: "jsstring \<Rightarrow> ASRManager \<Rightarrow> TranscriptionHistoryEntry option" where
  "getHistoryEntry i s = find (\<lambda>entry. h_id entry = i) (history s)"

subsection \<open>Runs of a manager\<close>

text \<open>What can happen to a manager: a call of a public method, a result arriving at the
  callback, the flush timer of its client firing, or the socket of its client closing.\<close>

datatype op =
    StartSession int connect_event
  | SendAudio "byte list"
  | StopSession stop_env
  | CancelSession
  | ClearHistory
  | On ASREventType
  | Off ASREventType
  | Result ASRResult
  | FlushTick
  | SocketClosed

fun exec :: "runtime \<Rightarrow> op \<Rightarrow> ASRManager \<Rightarrow> ASRManager option" where
  "exec rt (StartSession now ev) s = Some (snd (startSession rt now ev s))"
| "exec rt (SendAudio audioData) s = Some (snd (sendAudio audioData s))"
| "exec rt (StopSession env) s = map_option snd (stopSession rt env s)"
| "exec rt CancelSession s = Some (cancelSession s)"
| "exec rt ClearHistory s = Some (clearHistory s)"
| "exec rt (On ty) s = Some (on ty s)"
| "exec rt (Off ty) s = Some (off ty s)"
| "exec rt (Result r) s = Some (snd (handleTranscriptionResult r s))"
| "exec rt FlushTick s = Some (s\<lparr>client := map_option (flushTick rt) (client s)\<rparr>)"
| "exec rt SocketClosed s = Some (s\<lparr>client := map_option onClose (client s)\<rparr>)"

fun run :: "runtime \<Rightarrow> op list \<Rightarrow> ASRManager \<Rightarrow> ASRManager option" where
  "run rt [] s = Some s"
| "run rt (x # xs) s = (case exec rt x s of None \<Rightarrow> None | Some s' \<Rightarrow> run rt xs s')"

text \<open>A manager is reachable when a run from a new manager ends in it.\<close>

definition reachable :: "runtime \<Rightarrow> ASRManager \<Rightarrow> bool" where
  "reachable rt s \<longleftrightarrow> (\<exists>autoSave maxSize ops. run rt ops (new_ASRManager autoSave maxSize) = Some s)"

text \<open>
  The sessions of a run that completed with a non-empty text, oldest first, each by the
  identifier drawn for it and the text of its result: the calls of \<open>stopSession\<close> that
  returned a result with a non-empty text.
\<close>

definition savedBy :: "runtime \<Rightarrow> op \<Rightarrow> ASRManager \<Rightarrow> (jsstring \<times> jsval) list" where
  "savedBy rt x s =
     (case x of
        StopSession env \<Rightarrow>
          (case stopSession rt env s of
             Some (Inr result, _) \<Rightarrow>
               if truthy (r_text result) then [(uuid env, r_text result)] else []
           | _ \<Rightarrow> [])
      | _ \<Rightarrow> [])"

fun completedSessions :: "runtime \<Rightarrow> op list \<Rightarrow> ASRManager \<Rightarrow> (jsstring \<times> jsval) list" where
  "completedSessions rt [] s = []"
| "completedSessions rt (x # xs) s =
     (case exec rt x s of
        None \<Rightarrow> []
      | Some s' \<Rightarrow> savedBy rt x s @ completedSessions rt xs s')"

text \<open>What holds of every manager a run can reach.\<close>

definition manager_inv :: "ASRManager \<Rightarrow> bool" where
  "manager_inv s \<longleftrightarrow>
     (currentState s = Ready \<or> currentState s = Recording \<longrightarrow> client s \<noteq> None)
     \<and> (client s \<noteq> None \<longrightarrow> sessionStartTime s \<noteq> None)
     \<and> length (history s) \<le> maxHistorySize (config s)"

definition entryKey :: "TranscriptionHistoryEntry \<Rightarrow> jsstring \<times> jsval" where
  "entryKey e = (h_id e, h_text e)"

section \<open>The rewrite service (app/main/rewrite/index.ts)\<close>

text \<open>The configuration after the constructor has filled in the defaults.\<close>

record RewriteConfig =
  apiUrl :: jsstring
  apiKey :: jsstring
  model :: jsstring
  temperature :: real
  maxTokens :: nat

definition new_RewriteService ::
  "jsstring \<Rightarrow> jsstring \<Rightarrow> jsstring \<Rightarrow> real option \<Rightarrow> nat option \<Rightarrow> RewriteConfig" where
  "new_RewriteService url key m temp maxTok =
     \<lparr>apiUrl = url, apiKey = key, model = m,
      temperature = (case temp of None \<Rightarrow> 3 / 10 | Some t \<Rightarrow> t),
      maxTokens = (case maxTok of None \<Rightarrow> 4096 | Some n \<Rightarrow> n)\<rparr>"

record RewriteResult =
  original :: jsstring
  polished :: jsstring
  success :: bool
  rw_error :: "jsstring option"

text \<open>
  A call of \<^verbatim>\<open>fetch\<close>: the address, the \<^verbatim>\<open>Authorization\<close> header and the fields of the body.
  The first message of the body is the constant system prompt and is left out.
\<close>

record request =
  req_url :: jsstring
  req_authorization :: jsstring
  req_model :: jsstring
  req_user :: jsstring
  req_temperature :: real
  req_max_tokens :: nat

text \<open>A value that is thrown: an \<^verbatim>\<open>Error\<close> object with its message, or any other value, with
  the text that \<^verbatim>\<open>String(error)\<close> returns for it.\<close>

datatype thrown = ErrorObject jsstring | NonError jsstring

datatype 'a outcome = Returns 'a | Throws thrown

text \<open>A response of \<^verbatim>\<open>fetch\<close>, with what \<^verbatim>\<open>response.text()\<close> and \<^verbatim>\<open>response.json()\<close> do.\<close>

record response =
  ok :: bool
  status :: int
  textBody :: "jsstring outcome"
  jsonBody :: "jsval outcome"

text \<open>\<^verbatim>\<open>error instanceof Error ? error.message : String(error)\<close>.\<close>

definition errorMessage :: "thrown \<Rightarrow> jsstring" where
  "errorMessage e = (case e of ErrorObject m \<Rightarrow> m | NonError printed \<Rightarrow> printed)"

text \<open>\<^verbatim>\<open>v?.[0]\<close>.\<close>

definition optIndex0 :: "jsval \<Rightarrow> jsval" where
  "optIndex0 v =
     (case v of
        JArr (x # _) \<Rightarrow> x
      | JStr (ch # _) \<Rightarrow> JStr [ch]
      | JObj kvs \<Rightarrow> getProp v (ascii ''0'')
      | _ \<Rightarrow> JUndefined)"

text \<open>
  \<^verbatim>\<open>data.choices?.[0]?.message?.content?.trim()\<close>: \<open>None\<close> stands for \<^verbatim>\<open>undefined\<close>. The expression
  throws a \<^verbatim>\<open>TypeError\<close> when \<open>data\<close> is \<^verbatim>\<open>null\<close> or \<^verbatim>\<open>undefined\<close> and when the content is there and is
  not a string (\<^verbatim>\<open>trim\<close> is then not a function); \<open>typeError data\<close> is the message the engine
  gives that error.
\<close>

definition completionContent :: "(jsval \<Rightarrow> jsstring) \<Rightarrow> jsval \<Rightarrow> jsstring option outcome" where
  "completionContent typeError data =
     (if nullish data then Throws (ErrorObject (typeError data))
      else
        (case optProp (optProp (optIndex0 (getProp data (ascii ''choices''))) (ascii ''message''))
                (ascii ''content'') of
           JUndefined \<Rightarrow> Returns None
         | JNull \<Rightarrow> Returns None
         | JStr content \<Rightarrow> Returns (Some (trim content))
         | _ \<Rightarrow> Throws (ErrorObject (typeError data))))"

definition apiRequestFailed :: "int \<Rightarrow> jsstring" where
  "apiRequestFailed st = ascii ''API '' @ [0x8BF7, 0x6C42, 0x5931, 0x8D25, 0x3A, 0x20] @ dec st"

definition apiEmptyResult :: jsstring where
  "apiEmptyResult = ascii ''API '' @ [0x8FD4, 0x56DE, 0x7A7A, 0x7ED3, 0x679C]"

definition rewriteRequest :: "RewriteConfig \<Rightarrow> jsstring \<Rightarrow> request" where
  "rewriteRequest cfg trimmedText =
     \<lparr>req_url = apiUrl cfg, req_authorization = ascii ''Bearer '' @ apiKey cfg,
      req_model = model cfg, req_user = trimmedText, req_temperature = temperature cfg,
      req_max_tokens = maxTokens cfg\<rparr>"

text \<open>The \<^verbatim>\<open>try\<close> block of \<open>rewrite\<close>.\<close>

definition rewriteTry ::
  "RewriteConfig \<Rightarrow> (request \<Rightarrow> response outcome) \<Rightarrow> (jsval \<Rightarrow> jsstring) \<Rightarrow> jsstring \<Rightarrow> jsstring
   \<Rightarrow> RewriteResult outcome"
  where
  "rewriteTry cfg fetch typeError text trimmedText =
     (case fetch (rewriteRequest cfg trimmedText) of
        Throws e \<Rightarrow> Throws e
      | Returns resp \<Rightarrow>
          if \<not> ok resp
          then (case textBody resp of
                  Throws e \<Rightarrow> Throws e
                | Returns errorText \<Rightarrow>
                    Returns \<lparr>original = text, polished = text, success = False,
                             rw_error = Some (apiRequestFailed (status resp))\<rparr>)
          else (case jsonBody resp of
                  Throws e \<Rightarrow> Throws e
                | Returns data \<Rightarrow>
                    (case completionContent typeError data of
                       Throws e \<Rightarrow> Throws e
                     | Returns content \<Rightarrow>
                         (case content of
                            Some (ch # rest) \<Rightarrow>
                              Returns \<lparr>original = text, polished = ch # rest, success = True,
                                       rw_error = None\<rparr>
                          | _ \<Rightarrow>
                              Returns \<lparr>original = text, polished = text, success = False,
                                       rw_error = Some apiEmptyResult\<rparr>))))"

text \<open>\<open>rewrite cfg fetch typeError text\<close>: the result, and the calls of \<^verbatim>\<open>fetch\<close> made.\<close>

definition rewrite ::
  "RewriteConfig \<Rightarrow> (request \<Rightarrow> response outcome) \<Rightarrow> (jsval \<Rightarrow> jsstring) \<Rightarrow> jsstring
   \<Rightarrow> RewriteResult \<times> request list"
  where
  "rewrite cfg fetch typeError text =
     (let trimmedText = trim text
      in if trimmedText = []
         then (\<lparr>original = text, polished = [], success = True, rw_error = None\<rparr>, [])
         else if apiKey cfg = []
         then (\<lparr>original = text, polished = text, success = True, rw_error = None\<rparr>, [])
         else
           (case rewriteTry cfg fetch typeError text trimmedText of
              Returns res \<Rightarrow> (res, [rewriteRequest cfg trimmedText])
            | Throws e \<Rightarrow>
                (\<lparr>original = text, polished = text, success = False,
                  rw_error = Some (errorMessage e)\<rparr>,
                 [rewriteRequest cfg trimmedText])))"

section \<open>Audio samples (app/main/asr/audio-processor.ts)\<close>

text \<open>
  An element of a \<^verbatim>\<open>Float32Array\<close>: a finite number, written as the real it denotes, an
  infinity, or NaN.
\<close>

datatype float = Finite real | PosInf | NegInf | NaN

text \<open>\<^verbatim>\<open>Math.max(-1, Math.min(1, x))\<close>.\<close>

fun clampSample :: "float \<Rightarrow> float" where
  "clampSample (Finite r) = Finite (max (- 1) (min 1 r))"
| "clampSample PosInf = Finite 1"
| "clampSample NegInf = Finite (- 1)"
| "clampSample NaN = NaN"

text \<open>The store into an \<^verbatim>\<open>Int16Array\<close>: NaN is stored as 0, a number is truncated towards zero
  and wrapped to sixteen bits.\<close>

definition truncate :: "real \<Rightarrow> int" where
  "truncate r = (if r < 0 then \<lceil>r\<rceil> else \<lfloor>r\<rfloor>)"

definition toInt16 :: "real \<Rightarrow> int" where
  "toInt16 r = sint (word_of_int (truncate r) :: 16 word)"

text \<open>
  One turn of the loop of \<open>float32ToInt16\<close>. The products are those of real numbers: a
  float32 has 24 significant bits and the factors have 16 and 15, so the double the source
  computes is the exact product.
\<close>

definition float32ToInt16_sample :: "float \<Rightarrow> int" where
  "float32ToInt16_sample x =
     (case clampSample x of
        Finite sample \<Rightarrow> toInt16 (if sample < 0 then sample * 0x8000 else sample * 0x7fff)
      | _ \<Rightarrow> 0)"

text \<open>
  The loop of \<open>float32ToInt16\<close>, from index \<open>i\<close> on: each turn stores one converted sample
  into \<open>int16Array\<close>. The array starts with a zero for each sample of the input, as
  \<^verbatim>\<open>new Int16Array(float32Array.length)\<close> makes it.
\<close>

function float32ToInt16_loop :: "float list \<Rightarrow> nat \<Rightarrow> int list \<Rightarrow> int list" where
  "float32ToInt16_loop float32Array i int16Array =
     (if i < length float32Array
      then float32ToInt16_loop float32Array (i + 1)
             (int16Array[i := float32ToInt16_sample (float32Array ! i)])
      else int16Array)"
  by pat_completeness auto
termination
  by (relation "measure (\<lambda>(float32Array, i, int16Array). length float32Array - i)") auto

declare float32ToInt16_loop.simps [simp del]

definition float32ToInt16 :: "float list \<Rightarrow> int list" where
  "float32ToInt16 float32Array =
     float32ToInt16_loop float32Array 0 (replicate (length float32Array) 0)"

text \<open>
  \<open>int16ToFloat32 fround int16Array\<close>. \<open>int16Quotient\<close> is the quotient of real numbers that
  a turn of the loop asks for. The source rounds it twice, to a double by the division and
  to a float32 by the store; \<open>fround\<close> is the two roundings together.
\<close>

definition int16Quotient :: "int \<Rightarrow> real" where
  "int16Quotient x = (if x < 0 then real_of_int x / 0x8000 else real_of_int x / 0x7fff)"

function int16ToFloat32_loop ::
  "(real \<Rightarrow> real) \<Rightarrow> int list \<Rightarrow> nat \<Rightarrow> float list \<Rightarrow> float list" where
  "int16ToFloat32_loop fround int16Array i float32Array =
     (if i < length int16Array
      then int16ToFloat32_loop fround int16Array (i + 1)
             (float32Array[i := Finite (fround (int16Quotient (int16Array ! i)))])
      else float32Array)"
  by pat_completeness auto
termination
  by (relation "measure (\<lambda>(fround, int16Array, i, float32Array). length int16Array - i)") auto

declare int16ToFloat32_loop.simps [simp del]

definition int16ToFloat32 :: "(real \<Rightarrow> real) \<Rightarrow> int list \<Rightarrow> float list" where
  "int16ToFloat32 fround int16Array =
     int16ToFloat32_loop fround int16Array 0 (replicate (length int16Array) (Finite 0))"

section \<open>Frames of the server and values for examples\<close>

text \<open>A runtime whose compression is the identity, whose text is ASCII, in which no text
  parses as JSON, and with a message for its \<^verbatim>\<open>TypeError\<close>.\<close>

definition plainRuntime :: runtime where
  "plainRuntime =
     \<lparr>gzip = (\<lambda>bytes. bytes), gunzip = Some, decode = map ucast,
      JSON_parse = (\<lambda>text. None), initRequestPayload = [],
      typeErrorMessage = ascii ''null is not an object''\<rparr>"

text \<open>A connected client with two chunks of audio in its buffer.\<close>

definition exampleClient :: ASRClient where
  "exampleClient =
     client_sendAudio [3]
       (client_sendAudio [1, 2]
          (fst (snd (client_connect plainRuntime Open (\<lambda>r. False) new_ASRClient))))"

text \<open>
  The bytes of a frame that follow its header and its sequence number, as \<open>handleResponse\<close>
  takes them, and the frames it reads as an error of the server with a code and a message:
  the type is \<open>SERVER_ERROR_RESPONSE\<close>, four bytes of code are there, and the bytes after the
  code and the length are the message, compressed when the header says so.
\<close>

definition frameBody :: "byte list \<Rightarrow> byte list" where
  "frameBody data =
     (let payload = drop (unat (data ! 0 AND 0x0F) * 4) data
      in if (data ! 1 AND 0x0F) AND 0x01 \<noteq> 0 then drop 4 payload else payload)"

definition serverErrorFrame :: "runtime \<Rightarrow> byte list \<Rightarrow> int \<Rightarrow> byte list \<Rightarrow> bool" where
  "serverErrorFrame rt data code msg \<longleftrightarrow>
     length data \<ge> 4 \<and> drop_bit 4 (data ! 1) AND 0x0F = SERVER_ERROR_RESPONSE
     \<and> length (frameBody data) \<ge> 4 \<and> code = sint (word32be (frameBody data))
     \<and> (if data ! 2 AND 0x0F = GZIP then gunzip rt (drop 8 (frameBody data)) = Some msg
         else msg = drop 8 (frameBody data))"

text \<open>The error frame of the client's tests: sequence number 1, code 45000000, message
  \<^verbatim>\<open>bad request\<close>.\<close>

definition badRequestFrame :: "byte list" where
  "badRequestFrame =
     [0x11, 0xF1, 0x01, 0x00] @ [0, 0, 0, 1] @ [0x02, 0xAE, 0xA5, 0x40] @ [0, 0, 0, 11]
     @ [0x62, 0x61, 0x64, 0x20, 0x72, 0x65, 0x71, 0x75, 0x65, 0x73, 0x74]"

text \<open>
  A full response of the server, not compressed and not the last: sequence number 1 and the
  JSON text \<^verbatim>\<open>{"result":{"text":"","utterances":[]}}\<close>. \<open>parsingRuntime\<close> is \<open>plainRuntime\<close>
  with a parser for this one text.
\<close>

definition emptyUtterancesText :: "byte list" where
  "emptyUtterancesText =
     [0x7B, 0x22, 0x72, 0x65, 0x73, 0x75, 0x6C, 0x74, 0x22, 0x3A, 0x7B, 0x22, 0x74, 0x65, 0x78,
      0x74, 0x22, 0x3A, 0x22, 0x22, 0x2C, 0x22, 0x75, 0x74, 0x74, 0x65, 0x72, 0x61, 0x6E, 0x63,
      0x65, 0x73, 0x22, 0x3A, 0x5B, 0x5D, 0x7D, 0x7D]"

definition emptyUtterancesJson :: jsval where
  "emptyUtterancesJson =
     JObj [(ascii ''result'', JObj [(ascii ''text'', JStr []), (ascii ''utterances'', JArr [])])]"

definition emptyUtterancesFrame :: "byte list" where
  "emptyUtterancesFrame =
     [0x11, 0x91, 0x10, 0x00] @ [0, 0, 0, 1] @ [0, 0, 0, 38] @ emptyUtterancesText"

definition parsingRuntime :: runtime where
  "parsingRuntime =
     plainRuntime
       \<lparr>JSON_parse :=
          (\<lambda>t. if t = map ucast emptyUtterancesText then Some emptyUtterancesJson else None)\<rparr>"

text \<open>Managers and environments of the examples: a result with a text, a manager after a
  successful \<open>startSession\<close>, a manager with a listener for \<^verbatim>\<open>error\<close> after a failed
  \<open>startSession\<close>, a manager that has sent audio and received a partial result, a
  \<open>stopSession\<close> during which the final result arrives, one during which nothing arrives in
  51 sleeps of 100 ms, and two sessions in a row.\<close>

definition textResult :: "string \<Rightarrow> bool \<Rightarrow> ASRResult" where
  "textResult t partial =
     \<lparr>r_text = JStr (ascii t), isPartial = partial, utterances = None, r_error = None\<rparr>"

definition readyManager :: ASRManager where
  "readyManager = snd (startSession plainRuntime 1000 Open (new_ASRManager None None))"

definition failedManager :: ASRManager where
  "failedManager =
     snd (startSession plainRuntime 1000 (ErrorEvent []) (on ErrorEvent' (new_ASRManager None None)))"

definition recordingManager :: ASRManager where
  "recordingManager =
     snd (handleTranscriptionResult (textResult ''hello'' True)
            (snd (sendAudio [1, 2] readyManager)))"

definition stopEnv :: "string \<Rightarrow> string \<Rightarrow> int \<Rightarrow> stop_env" where
  "stopEnv u t start =
     \<lparr>finishThrows = None, duringFinish = [textResult t False], waitStart = start, sleeps = [],
      uuid = ascii u\<rparr>"

definition silentEnv :: stop_env where
  "silentEnv =
     \<lparr>finishThrows = None, duringFinish = [], waitStart = 2000,
      sleeps = replicate 50 (100, []) @ [(100, [])], uuid = ascii ''id-0''\<rparr>"

text \<open>
  For the wait of \<open>stopSession\<close>: a manager that has sent audio and received nothing, with no
  listener, as the constructor leaves it; the same manager after \<^verbatim>\<open>on("error", ...)\<close>; a manager
  that has received two partial results; the environment of \<open>silentEnv\<close> cut to its first 50
  sleeps; and the event that reports the timeout.
\<close>

definition silentManager :: ASRManager where
  "silentManager = snd (sendAudio [1, 2] readyManager)"

definition listeningManager :: ASRManager where
  "listeningManager = on ErrorEvent' silentManager"

definition twoPartials :: ASRManager where
  "twoPartials = snd (handleTranscriptionResult (textResult ''hello world'' True) recordingManager)"

definition fiftySleeps :: stop_env where
  "fiftySleeps = silentEnv\<lparr>sleeps := replicate 50 (100, [])\<rparr>"

definition timeoutEvent :: ASREvent where
  "timeoutEvent =
     \<lparr>ev_type = ErrorEvent', ev_state = Error, ev_result = None,
      ev_error = Some (message FinalResultTimeout)\<rparr>"

definition twoSessions :: "op list" where
  "twoSessions =
     [StartSession 1000 Open, StopSession (stopEnv ''id-1'' ''first'' 2000), CancelSession,
      StartSession 3000 Open, StopSession (stopEnv ''id-2'' ''second'' 4000)]"

text \<open>A manager that keeps one entry of history.\<close>

definition smallManager :: ASRManager where
  "smallManager = new_ASRManager None (Some 1)"

text \<open>A rewrite service with a key, the message of an engine for its \<^verbatim>\<open>TypeError\<close>, a response
  that is not ok, the same response when reading its body fails with an empty message, a
  completion without choices, a completion with a text, and a \<^verbatim>\<open>fetch\<close> that fails with an
  empty message.\<close>

definition exampleConfig :: RewriteConfig where
  "exampleConfig =
     new_RewriteService (ascii ''https://api.example.com'') (ascii ''key'') (ascii ''model'')
       None None"

definition unauthorized :: response where
  "unauthorized =
     \<lparr>ok = False, status = 401, textBody = Returns (ascii ''Unauthorized''),
      jsonBody = Throws (ErrorObject (ascii ''Unexpected token''))\<rparr>"

definition exampleTypeError :: "jsval \<Rightarrow> jsstring" where
  "exampleTypeError data = ascii ''null is not an object''"

definition unreadable :: response where
  "unreadable = unauthorized\<lparr>textBody := Throws (ErrorObject [])\<rparr>"

definition polite :: response where
  "polite =
     \<lparr>ok = True, status = 200, textBody = Returns [],
      jsonBody = Returns (JObj [(ascii ''choices'',
        JArr [JObj [(ascii ''message'', JObj [(ascii ''content'', JStr (ascii '' Hi. ''))])]])])\<rparr>"

definition fetchFails :: "request \<Rightarrow> response outcome" where
  "fetchFails req = Throws (ErrorObject [])"

definition fetchUnreadable :: "request \<Rightarrow> response outcome" where
  "fetchUnreadable req = Returns unreadable"

definition noChoices :: response where
  "noChoices =
     \<lparr>ok = True, status = 200, textBody = Returns [],
      jsonBody = Returns (JObj [(ascii ''choices'', JArr [])])\<rparr>"

section \<open>Properties of the protocol client\<close>

lemmas protocol_constants =
  CLIENT_FULL_REQUEST_def CLIENT_AUDIO_ONLY_REQUEST_def SERVER_FULL_RESPONSE_def
  SERVER_ERROR_RESPONSE_def NO_SEQUENCE_def POS_SEQUENCE_def NEG_SEQUENCE_def
  NEG_WITH_SEQUENCE_def NO_SERIALIZATION_def JSON_def NO_COMPRESSION_def GZIP_def

subsection \<open>A connected client has a socket\<close>

lemma client_connect_ws:
  "client_connect rt ev callbackThrows c = (out, c', rs) \<Longrightarrow> isConnected c \<longrightarrow> ws c
   \<Longrightarrow> isConnected c' \<longrightarrow> ws c'"
  by (auto simp: client_connect_def isConnected_def Let_def startAudioSender_def
      split: if_splits connect_event.splits)

lemma client_reachable_ws: "client_reachable rt c \<Longrightarrow> isConnected c \<longrightarrow> ws c"
proof (induction rule: client_reachable.induct)
  case cr_new
  then show ?case by (simp add: new_ASRClient_def isConnected_def)
next
  case (cr_connect c ev callbackThrows out c' rs)
  then show ?case using client_connect_ws by blast
next
  case (cr_sendAudio c audioData)
  then show ?case by (simp add: client_sendAudio_def isConnected_def)
next
  case (cr_finish c)
  then show ?case
    by (auto simp: client_finish_def isConnected_def Let_def stopAudioSender_def
        sendAudioPacket_def mergeAudioBuffer_def)
next
  case (cr_close c)
  then show ?case by (simp add: client_close_def isConnected_def Let_def)
next
  case (cr_flushTick c)
  then show ?case
    by (auto simp: flushTick_def isConnected_def sendAudioPacket_def mergeAudioBuffer_def)
next
  case (cr_onClose c)
  then show ?case by (simp add: onClose_def isConnected_def stopAudioSender_def)
qed

subsection \<open>finish()\<close>

text \<open>
  Claim C6. For every client that calls and socket events can produce, \<open>finish()\<close> leaves the
  flush timer stopped. When the client is connected it sends exactly one more frame, a
  \<open>CLIENT_AUDIO_ONLY_REQUEST\<close> with flags \<open>NEG_SEQUENCE\<close> whose payload is the compressed
  concatenation of the queued chunks, and empties the queue; with an empty queue the frame
  sent is the last packet of the empty audio. When the client is not connected nothing is
  sent and nothing but the timer changes.
\<close>

theorem finish_sends_last_packet:
  assumes "client_reachable rt c"
  shows "sendInterval (client_finish rt c) = False
    \<and> (isConnected c \<longrightarrow>
         client_finish rt c =
           c\<lparr>sendInterval := False, audioBuffer := [],
             wire := wire c @
               [buildHeader CLIENT_AUDIO_ONLY_REQUEST NEG_SEQUENCE NO_SERIALIZATION GZIP
                @ setUint32 (length (gzip rt (concat (audioBuffer c))))
                @ gzip rt (concat (audioBuffer c))]\<rparr>)
    \<and> (isConnected c \<and> audioBuffer c = [] \<longrightarrow>
         wire (client_finish rt c) = wire c @ [audioPacket rt [] True])
    \<and> (\<not> isConnected c \<longrightarrow> client_finish rt c = c\<lparr>sendInterval := False\<rparr>)"
proof -
  have w: "isConnected c \<longrightarrow> ws c" using assms by (rule client_reachable_ws)
  show ?thesis using w
    by (auto simp: client_finish_def isConnected_def Let_def stopAudioSender_def
        sendAudioPacket_def mergeAudioBuffer_def audioPacket_def)
qed

lemma exampleClient_reachable: "client_reachable plainRuntime exampleClient"
  unfolding exampleClient_def
  by (intro cr_sendAudio,
      rule cr_connect [OF cr_new, where ev = Open and callbackThrows = "\<lambda>r. False"
        and out = "Some (Inr ())" and rs = "[]"])
     (simp add: client_connect_def new_ASRClient_def Let_def)

lemma exampleClient_eq:
  "exampleClient =
     \<lparr>connectionState = Connected, ws = True, audioBuffer = [[1, 2], [3]], sendInterval = True,
      wire = [[0x11, 0x10, 0x11, 0x00, 0, 0, 0, 0]]\<rparr>"
  by (simp add: exampleClient_def client_sendAudio_def client_connect_def new_ASRClient_def
      isConnected_def Let_def startAudioSender_def fullClientRequest_def buildHeader_def
      setUint32_def plainRuntime_def protocol_constants)

theorem finish_sends_last_packet_witness:
  "client_reachable plainRuntime exampleClient \<and> isConnected exampleClient
   \<and> client_finish plainRuntime exampleClient =
       \<lparr>connectionState = Connected, ws = True, audioBuffer = [], sendInterval = False,
        wire = [[0x11, 0x10, 0x11, 0x00, 0, 0, 0, 0],
                [0x11, 0x22, 0x01, 0x00, 0, 0, 0, 3, 1, 2, 3]]\<rparr>"
  using finish_sends_last_packet [OF exampleClient_reachable] exampleClient_reachable
  by (simp add: exampleClient_eq isConnected_def buildHeader_def setUint32_def plainRuntime_def
      protocol_constants)

subsection \<open>Error frames of the server\<close>

text \<open>
  Claim C5. For every frame that is an error of the server with code \<open>code\<close> and message
  bytes \<open>msg\<close> (the bytes after decompression when the frame is compressed), the message
  listener hands the callback exactly one result: its text is the empty string, it is
  partial, it has no utterances, and its error is a string that contains the decimal code
  and the decoded message.
\<close>

theorem server_error_callback:
  assumes "serverErrorFrame rt data code msg"
  shows "onMessage rt data =
           [\<lparr>r_text = JStr [], isPartial = True, utterances = None,
             r_error = Some (serverErrorText code (decode rt msg))\<rparr>]
         \<and> sublist (dec code) (serverErrorText code (decode rt msg))
         \<and> sublist (decode rt msg) (serverErrorText code (decode rt msg))"
proof -
  have 1: "handleResponse rt data = handleErrorResponse rt (data ! 2 AND 0x0F) (frameBody data)"
    using assms by (simp add: serverErrorFrame_def handleResponse_def frameBody_def Let_def)
  have 2: "handleErrorResponse rt (data ! 2 AND 0x0F) (frameBody data) =
      Inr [\<lparr>r_text = JStr [], isPartial = True, utterances = None,
             r_error = Some (serverErrorText code (decode rt msg))\<rparr>]"
    using assms by (auto simp: serverErrorFrame_def handleErrorResponse_def getInt32_def Let_def)
  have 3: "sublist (dec code) (serverErrorText code (decode rt msg))"
    unfolding serverErrorText_def sublist_def by blast
  have 4: "sublist (decode rt msg) (serverErrorText code (decode rt msg))"
    unfolding serverErrorText_def sublist_def
    by (rule exI[of _ "[0x9519, 0x8BEF, 0x7801, 0x20] @ dec code @ ascii '': ''"],
        rule exI[of _ "[]"]) simp
  show ?thesis using 1 2 3 4 by (simp add: onMessage_def)
qed

lemma badRequestFrame_body:
  "frameBody badRequestFrame =
     [0x02, 0xAE, 0xA5, 0x40, 0, 0, 0, 11,
      0x62, 0x61, 0x64, 0x20, 0x72, 0x65, 0x71, 0x75, 0x65, 0x73, 0x74]"
  by (simp add: frameBody_def badRequestFrame_def)

lemma badRequestFrame_code:
  "sint (word32be [0x02, 0xAE, 0xA5, 0x40, 0, 0, 0, 11,
      0x62, 0x61, 0x64, 0x20, 0x72, 0x65, 0x71, 0x75, 0x65, 0x73, 0x74]) = 45000000"
  by (simp add: word32be_def)

lemma dec_45000000: "dec 45000000 = ascii ''45000000''"
  by (simp add: dec_def digits.simps ascii_def)

lemma badRequestFrame_is_error:
  "serverErrorFrame plainRuntime badRequestFrame 45000000
     [0x62, 0x61, 0x64, 0x20, 0x72, 0x65, 0x71, 0x75, 0x65, 0x73, 0x74]"
  unfolding serverErrorFrame_def badRequestFrame_body badRequestFrame_code
  by (simp add: protocol_constants plainRuntime_def badRequestFrame_def)

theorem server_error_callback_witness:
  "serverErrorFrame plainRuntime badRequestFrame 45000000
     [0x62, 0x61, 0x64, 0x20, 0x72, 0x65, 0x71, 0x75, 0x65, 0x73, 0x74]
   \<and> onMessage plainRuntime badRequestFrame =
       [\<lparr>r_text = JStr [], isPartial = True, utterances = None,
         r_error = Some ([0x9519, 0x8BEF, 0x7801, 0x20] @ ascii ''45000000: bad request'')\<rparr>]"
  using server_error_callback [OF badRequestFrame_is_error] badRequestFrame_is_error
  by (simp add: serverErrorText_def dec_45000000 plainRuntime_def ascii_def)

subsection \<open>Full responses of the server\<close>

text \<open>A full response with nothing after its size field hands the callback nothing.\<close>

lemma empty_payload_no_callback:
  "length payload = 4 \<Longrightarrow> handleFullResponse rt compressionMethod isLastPackage payload = Inr []"
  by (simp add: handleFullResponse_def getUint32_def)

text \<open>The callback receives a result exactly when the text is truthy or
  \<^verbatim>\<open>result.utterances\<close> is an array, whatever its length.\<close>

lemma extractResult_callback:
  "extractResult jsonData isLastPackage = Inr [r] \<Longrightarrow> truthy (r_text r) \<or> utterances r \<noteq> None"
  by (auto simp: extractResult_def Let_def split: if_splits sum.splits)

text \<open>The response \<^verbatim>\<open>{"result": {"text": "", "utterances": []}}\<close> has an empty text and an
  empty list of utterances, and the callback receives a result for it.\<close>

lemma extractResult_empty_utterances:
  "extractResult emptyUtterancesJson False
   = Inr [\<lparr>r_text = JStr [], isPartial = True, utterances = Some [], r_error = None\<rparr>]"
  by (simp add: emptyUtterancesJson_def extractResult_def extractText_def extractUtterances_def
      utterancesText_def optProp_def js_or_def ascii_def Let_def)

lemma emptyUtterancesFrame_eq:
  "emptyUtterancesFrame =
     [0x11, 0x91, 0x10, 0x00, 0, 0, 0, 1, 0, 0, 0, 38] @ emptyUtterancesText"
  by (simp add: emptyUtterancesFrame_def)

lemma emptyUtterancesText_length: "length emptyUtterancesText = 38"
  by (simp add: emptyUtterancesText_def)

text \<open>
  Claim C3. The claim is that the callback runs only for a non-empty text or a non-empty
  list of utterances. For the frame of the full response
  \<^verbatim>\<open>{"result":{"text":"","utterances":[]}}\<close> the message listener runs the callback, with
  the empty text and the empty list: the test \<^verbatim>\<open>text || utterances\<close> holds for every array.
\<close>

theorem empty_utterances_callback:
  "onMessage parsingRuntime emptyUtterancesFrame
   = [\<lparr>r_text = JStr [], isPartial = True, utterances = Some [], r_error = None\<rparr>]"
proof -
  have p: "drop 12 emptyUtterancesFrame = emptyUtterancesText"
    "drop 8 emptyUtterancesFrame = 0 # 0 # 0 # 38 # emptyUtterancesText"
    "length emptyUtterancesFrame = 50"
    "emptyUtterancesFrame ! 0 = 0x11" "emptyUtterancesFrame ! Suc 0 = 0x91"
    "emptyUtterancesFrame ! 2 = 0x10"
    by (simp_all add: emptyUtterancesFrame_eq emptyUtterancesText_length)
  have n: "emptyUtterancesText \<noteq> []" by (simp add: emptyUtterancesText_def)
  have f: "handleFullResponse parsingRuntime 0 False (0 # 0 # 0 # 38 # emptyUtterancesText)
           = extractResult emptyUtterancesJson False"
    using n
    by (simp add: handleFullResponse_def getUint32_def parsingRuntime_def plainRuntime_def
        protocol_constants emptyUtterancesText_length)
  have "handleResponse parsingRuntime emptyUtterancesFrame
        = handleFullResponse parsingRuntime 0 False (0 # 0 # 0 # 38 # emptyUtterancesText)"
    by (simp add: handleResponse_def p protocol_constants Let_def)
  then show ?thesis by (simp add: onMessage_def f extractResult_empty_utterances)
qed

section \<open>Properties of the session manager\<close>

subsection \<open>What the private methods leave unchanged\<close>

lemma emitEvent_fields [simp]:
  "config (snd (emitEvent t r e s)) = config s"
  "client (snd (emitEvent t r e s)) = client s"
  "currentState (snd (emitEvent t r e s)) = currentState s"
  "sessionStartTime (snd (emitEvent t r e s)) = sessionStartTime s"
  "partialResults (snd (emitEvent t r e s)) = partialResults s"
  "finalResult (snd (emitEvent t r e s)) = finalResult s"
  "history (snd (emitEvent t r e s)) = history s"
  "listeners (snd (emitEvent t r e s)) = listeners s"
  "warnings (snd (emitEvent t r e s)) = warnings s"
  "closedClients (snd (emitEvent t r e s)) = closedClients s"
  by (simp_all add: emitEvent_def emit_def)

text \<open>Only an event of type \<^verbatim>\<open>error\<close> is thrown, and only when nothing listens for it.\<close>

lemma emitEvent_throws:
  "fst (emitEvent t r e s) =
     (if t = ErrorEvent' \<and> ErrorEvent' \<notin> set (listeners s)
      then Some (UnhandledError \<lparr>ev_type = t, ev_state = currentState s, ev_result = r,
                                 ev_error = e\<rparr>)
      else None)"
  by (simp add: emitEvent_def emit_def)

lemma setState_fields [simp]:
  "config (setState st s) = config s"
  "client (setState st s) = client s"
  "currentState (setState st s) = st"
  "sessionStartTime (setState st s) = sessionStartTime s"
  "partialResults (setState st s) = partialResults s"
  "finalResult (setState st s) = finalResult s"
  "history (setState st s) = history s"
  "listeners (setState st s) = listeners s"
  "warnings (setState st s) = warnings s"
  "closedClients (setState st s) = closedClients s"
  by (simp_all add: setState_def Let_def)

lemma setState_same: "currentState s = st \<Longrightarrow> setState st s = s"
  by (simp add: setState_def Let_def)

lemma handleTranscriptionResult_fields [simp]:
  "config (snd (handleTranscriptionResult r s)) = config s"
  "client (snd (handleTranscriptionResult r s)) = client s"
  "currentState (snd (handleTranscriptionResult r s)) = currentState s"
  "sessionStartTime (snd (handleTranscriptionResult r s)) = sessionStartTime s"
  "history (snd (handleTranscriptionResult r s)) = history s"
  "listeners (snd (handleTranscriptionResult r s)) = listeners s"
  "warnings (snd (handleTranscriptionResult r s)) = warnings s"
  "closedClients (snd (handleTranscriptionResult r s)) = closedClients s"
  by (simp_all add: handleTranscriptionResult_def Let_def)

text \<open>The callback throws for a result with an error when nothing listens for errors.\<close>

lemma handleTranscriptionResult_throws:
  "fst (handleTranscriptionResult r s) \<noteq> None
     \<longleftrightarrow> hasError r \<and> ErrorEvent' \<notin> set (listeners s)"
  by (simp add: handleTranscriptionResult_def emitEvent_throws Let_def)

lemma deliver_Nil [simp]: "deliver [] s = s"
  by (simp add: deliver_def)

lemma deliver_Cons [simp]:
  "deliver (r # rs) s = deliver rs (snd (handleTranscriptionResult r s))"
  by (simp add: deliver_def)

lemma deliver_fields [simp]:
  "config (deliver rs s) = config s"
  "client (deliver rs s) = client s"
  "currentState (deliver rs s) = currentState s"
  "sessionStartTime (deliver rs s) = sessionStartTime s"
  "history (deliver rs s) = history s"
  "listeners (deliver rs s) = listeners s"
  "warnings (deliver rs s) = warnings s"
  "closedClients (deliver rs s) = closedClients s"
  by (induction rs arbitrary: s; simp)+

lemma cleanup_fields [simp]:
  "config (cleanup s) = config s"
  "client (cleanup s) = None"
  "currentState (cleanup s) = currentState s"
  "sessionStartTime (cleanup s) = None"
  "partialResults (cleanup s) = partialResults s"
  "finalResult (cleanup s) = finalResult s"
  "history (cleanup s) = history s"
  "listeners (cleanup s) = listeners s"
  "warnings (cleanup s) = warnings s"
  by (simp_all add: cleanup_def Let_def split: option.splits)

lemma waitForFinalResult_fields:
  "waitForFinalResult timeoutMs elapsed sl s = Some (out, s', elapsed') \<Longrightarrow>
     config s' = config s \<and> client s' = client s \<and> currentState s' = currentState s
     \<and> sessionStartTime s' = sessionStartTime s \<and> history s' = history s
     \<and> listeners s' = listeners s \<and> closedClients s' = closedClients s"
proof (induction timeoutMs elapsed sl s rule: waitForFinalResult.induct)
  case (1 timeoutMs elapsed sleeps s)
  show ?case
  proof (cases "finalResult s")
    case (Some r)
    with "1.prems" show ?thesis by (simp add: waitForFinalResult.simps)
  next
    case None
    show ?thesis
    proof (cases "elapsed > timeoutMs")
      case True
      with None "1.prems" show ?thesis
        by (auto simp: waitForFinalResult.simps split: list.splits)
    next
      case False
      show ?thesis
      proof (cases sleeps)
        case Nil
        with None False "1.prems" show ?thesis by (simp add: waitForFinalResult.simps)
      next
        case (Cons p sleeps')
        obtain d rs where p: "p = (d, rs)" by (cases p)
        from None False Cons p "1.prems"
        have "waitForFinalResult timeoutMs (elapsed + int d) sleeps' (deliver rs s)
               = Some (out, s', elapsed')"
          by (simp add: waitForFinalResult.simps)
        from "1.IH"[OF None False Cons p[symmetric] this] show ?thesis by simp
      qed
    qed
  qed
qed



subsection \<open>The cases of stopSession\<close>

lemma addToHistory_take:
  "addToHistory rt now u r s = Inr s' \<Longrightarrow>
     \<exists>start. sessionStartTime s = Some start
       \<and> s' = s\<lparr>history := take (maxHistorySize (config s))
                   (\<lparr>h_id = u, h_text = r_text r, h_startTime = start, h_endTime = now,
                     h_duration = now - start\<rparr> # history s)\<rparr>"
  by (auto simp: addToHistory_def Let_def split: option.splits)

lemma addToHistory_Inl:
  "addToHistory rt now u r s = Inl e \<Longrightarrow> sessionStartTime s = None"
  by (auto simp: addToHistory_def Let_def split: option.splits)

text \<open>
  The catch block throws the error it caught when something listens for errors, and the
  error of the emitter otherwise.
\<close>

lemma catchBlock_error:
  "fst (catchBlock e s) =
     (if ErrorEvent' \<in> set (listeners s) then e
      else UnhandledError \<lparr>ev_type = ErrorEvent', ev_state = Error, ev_result = None,
                            ev_error = Some (message e)\<rparr>)"
proof -
  obtain u s' where p: "emitEvent ErrorEvent' None (Some (message e)) (setState Error s) = (u, s')"
    by (cases "emitEvent ErrorEvent' None (Some (message e)) (setState Error s)")
  from emitEvent_throws[of ErrorEvent' None "Some (message e)" "setState Error s"] p
  have u: "u = (if ErrorEvent' \<notin> set (listeners s)
                then Some (UnhandledError \<lparr>ev_type = ErrorEvent', ev_state = Error,
                                            ev_result = None, ev_error = Some (message e)\<rparr>)
                else None)"
    by simp
  show ?thesis unfolding catchBlock_def p using u by simp
qed

lemma catchBlock_fields [simp]:
  "config (snd (catchBlock e s)) = config s"
  "client (snd (catchBlock e s)) = client s"
  "currentState (snd (catchBlock e s)) = Error"
  "sessionStartTime (snd (catchBlock e s)) = sessionStartTime s"
  "partialResults (snd (catchBlock e s)) = partialResults s"
  "finalResult (snd (catchBlock e s)) = finalResult s"
  "history (snd (catchBlock e s)) = history s"
  "listeners (snd (catchBlock e s)) = listeners s"
  "warnings (snd (catchBlock e s)) = warnings s"
  "closedClients (snd (catchBlock e s)) = closedClients s"
proof -
  have "snd (catchBlock e s) = snd (emitEvent ErrorEvent' None (Some (message e)) (setState Error s))"
    by (simp add: catchBlock_def split: prod.splits option.splits)
  then show
    "config (snd (catchBlock e s)) = config s"
    "client (snd (catchBlock e s)) = client s"
    "currentState (snd (catchBlock e s)) = Error"
    "sessionStartTime (snd (catchBlock e s)) = sessionStartTime s"
    "partialResults (snd (catchBlock e s)) = partialResults s"
    "finalResult (snd (catchBlock e s)) = finalResult s"
    "history (snd (catchBlock e s)) = history s"
    "listeners (snd (catchBlock e s)) = listeners s"
    "warnings (snd (catchBlock e s)) = warnings s"
    "closedClients (snd (catchBlock e s)) = closedClients s"
    by simp_all
qed

lemma stopFailed_eq:
  "stopFailed e s = (Inl (fst (catchBlock e s)), cleanup (snd (catchBlock e s)))"
  by (simp add: stopFailed_def split: prod.splits)

lemma stopFailed_fields [simp]:
  "fst (stopFailed e s) = Inl (fst (catchBlock e s))"
  "history (snd (stopFailed e s)) = history s"
  "config (snd (stopFailed e s)) = config s"
  "client (snd (stopFailed e s)) = None"
  "sessionStartTime (snd (stopFailed e s)) = None"
  "currentState (snd (stopFailed e s)) = Error"
  "partialResults (snd (stopFailed e s)) = partialResults s"
  "finalResult (snd (stopFailed e s)) = finalResult s"
  "listeners (snd (stopFailed e s)) = listeners s"
  by (simp_all add: stopFailed_eq)

lemma stopSession_valid:
  "client s = Some c \<Longrightarrow> currentState s = Recording \<or> currentState s = Ready \<Longrightarrow>
   stopSession rt env s =
     (case finishThrows env of
        Some m \<Rightarrow>
          Some (stopFailed (Thrown m)
                  (deliver (duringFinish env)
                     ((setState Processing s)\<lparr>client := Some (stopAudioSender c)\<rparr>)))
      | None \<Rightarrow>
          (case waitForFinalResult FINAL_RESULT_TIMEOUT_MS 0 (sleeps env)
                  (deliver (duringFinish env)
                     ((setState Processing s)\<lparr>client := Some (client_finish rt c)\<rparr>)) of
             None \<Rightarrow> None
           | Some (Inl e, s3, elapsed) \<Rightarrow> Some (stopFailed e s3)
           | Some (Inr result, s3, elapsed) \<Rightarrow>
               (if autoSaveHistory (config s3) \<and> truthy (r_text result)
                then (case addToHistory rt (waitStart env + elapsed) (uuid env) result
                             (setState Completed s3) of
                        Inl e \<Rightarrow> Some (stopFailed e (setState Completed s3))
                      | Inr s5 \<Rightarrow> Some (Inr result, cleanup s5))
                else Some (Inr result, cleanup (setState Completed s3)))))"
  by (auto simp: stopSession_def Let_def split: option.splits sum.splits)

lemma stopSession_cases:
  assumes "stopSession rt env s = Some (out, s')"
  shows "(out = Inl SessionNotStarted \<and> s' = s \<and> client s = None)
    \<or> (out = Inl (CannotStopSession (currentState s)) \<and> s' = s
        \<and> currentState s \<noteq> Recording \<and> currentState s \<noteq> Ready)
    \<or> (client s \<noteq> None \<and> (currentState s = Recording \<or> currentState s = Ready)
        \<and> config s' = config s \<and> client s' = None \<and> sessionStartTime s' = None
        \<and> ((\<exists>e. out = Inl e \<and> currentState s' = Error \<and> history s' = history s)
           \<or> (\<exists>r. out = Inr r \<and> currentState s' = Completed
                \<and> (if autoSaveHistory (config s) \<and> truthy (r_text r)
                    then \<exists>start endTime. sessionStartTime s = Some start
                           \<and> history s' = take (maxHistorySize (config s))
                               (\<lparr>h_id = uuid env, h_text = r_text r, h_startTime = start,
                                 h_endTime = endTime, h_duration = endTime - start\<rparr> # history s)
                    else history s' = history s))))"
proof (cases "client s")
  case None
  with assms show ?thesis by (simp add: stopSession_def)
next
  case (Some c)
  show ?thesis
  proof (cases "currentState s \<noteq> Recording \<and> currentState s \<noteq> Ready")
    case True
    with Some assms show ?thesis by (auto simp: stopSession_def)
  next
    case False
    note st = False
    then have st': "currentState s = Recording \<or> currentState s = Ready" by simp
    note sv = stopSession_valid[OF \<open>client s = Some c\<close> st', of rt env]
    show ?thesis
    proof (cases "finishThrows env")
      case (Some m)
      note ft = Some
      from ft assms sv
      have "(out, s') = stopFailed (Thrown m)
              (deliver (duringFinish env) ((setState Processing s)\<lparr>client := Some (stopAudioSender c)\<rparr>))"
        by simp
      then have "out = Inl (fst (catchBlock (Thrown m)
              (deliver (duringFinish env) ((setState Processing s)\<lparr>client := Some (stopAudioSender c)\<rparr>))))" and
        "s' = snd (stopFailed (Thrown m)
              (deliver (duringFinish env) ((setState Processing s)\<lparr>client := Some (stopAudioSender c)\<rparr>)))"
        by (metis fst_conv stopFailed_fields(1), metis snd_conv)
      with \<open>client s = Some c\<close> st show ?thesis by auto
    next
      case None
      define s2 where "s2 = deliver (duringFinish env)
          ((setState Processing s)\<lparr>client := Some (client_finish rt c)\<rparr>)"
      have s2: "config s2 = config s" "history s2 = history s"
        "sessionStartTime s2 = sessionStartTime s"
        by (simp_all add: s2_def)
      note ft = None
      from ft assms sv
      have w: "(case waitForFinalResult FINAL_RESULT_TIMEOUT_MS 0 (sleeps env) s2 of
                  None \<Rightarrow> None
                | Some (Inl e, s3, elapsed) \<Rightarrow> Some (stopFailed e s3)
                | Some (Inr result, s3, elapsed) \<Rightarrow>
                    (if autoSaveHistory (config s3) \<and> truthy (r_text result)
                     then (case addToHistory rt (waitStart env + elapsed) (uuid env) result
                                  (setState Completed s3) of
                             Inl e \<Rightarrow> Some (stopFailed e (setState Completed s3))
                           | Inr s5 \<Rightarrow> Some (Inr result, cleanup s5))
                     else Some (Inr result, cleanup (setState Completed s3)))) = Some (out, s')"
        by (simp add: s2_def)
      then obtain res s3 elapsed where
        wr: "waitForFinalResult FINAL_RESULT_TIMEOUT_MS 0 (sleeps env) s2 = Some (res, s3, elapsed)"
        by (auto split: option.splits)
      from waitForFinalResult_fields[OF wr] s2
      have s3: "config s3 = config s" "history s3 = history s"
        "sessionStartTime s3 = sessionStartTime s" by simp_all
      show ?thesis
      proof (cases res)
        case (Inl e)
        with w wr have "(out, s') = stopFailed e s3" by simp
        then have "out = Inl (fst (catchBlock e s3))" "s' = snd (stopFailed e s3)"
          by (metis fst_conv stopFailed_fields(1), metis snd_conv)
        with \<open>client s = Some c\<close> st s3 show ?thesis by auto
      next
        case (Inr result)
        show ?thesis
        proof (cases "autoSaveHistory (config s) \<and> truthy (r_text result)")
          case False
          with Inr w wr s3 have "out = Inr result" "s' = cleanup (setState Completed s3)"
            by (auto simp: Let_def)
          with False \<open>client s = Some c\<close> st s3 show ?thesis by auto
        next
          case True
          show ?thesis
          proof (cases "addToHistory rt (waitStart env + elapsed) (uuid env) result
                          (setState Completed s3)")
            case (Inl e)
            with True Inr w wr s3 have "(out, s') = stopFailed e (setState Completed s3)"
              by (simp add: Let_def)
            then have "out = Inl (fst (catchBlock e (setState Completed s3)))"
              "s' = snd (stopFailed e (setState Completed s3))"
              by (metis fst_conv stopFailed_fields(1), metis snd_conv)
            with \<open>client s = Some c\<close> st s3 show ?thesis by auto
          next
            case (Inr s5)
            with True \<open>res = Inr result\<close> w wr s3 have o: "out = Inr result" "s' = cleanup s5"
              by (auto simp: Let_def)
            from addToHistory_take[OF Inr] s3 obtain start where
              "sessionStartTime s = Some start"
              "history s5 = take (maxHistorySize (config s))
                   (\<lparr>h_id = uuid env, h_text = r_text result, h_startTime = start,
                     h_endTime = waitStart env + elapsed,
                     h_duration = waitStart env + elapsed - start\<rparr> # history s)"
              "config s5 = config s" "currentState s5 = Completed"
              by auto
            with o True \<open>client s = Some c\<close> st show ?thesis by auto
          qed
        qed
      qed
    qed
  qed
qed


subsection \<open>The wait for the final result\<close>

text \<open>The loop returns when the sleeps last at least the delay asked for and there are enough
  of them to exhaust the budget.\<close>

lemma waitForFinalResult_total:
  "\<forall>(d, rs) \<in> set sl. POLL_INTERVAL_MS \<le> d \<Longrightarrow>
   timeoutMs < elapsed + 100 * int (length sl) \<Longrightarrow>
   waitForFinalResult timeoutMs elapsed sl s \<noteq> None"
proof (induction sl arbitrary: elapsed s)
  case Nil
  then show ?case
    by (auto simp: waitForFinalResult.simps split: option.splits list.splits)
next
  case (Cons p sl)
  obtain d rs where p: "p = (d, rs)" by (cases p)
  from Cons.prems p have d: "100 \<le> d" by (simp add: POLL_INTERVAL_MS_def)
  have "timeoutMs < (elapsed + int d) + 100 * int (length sl)"
    using Cons.prems(2) d by simp
  moreover have "\<forall>(d, rs) \<in> set sl. POLL_INTERVAL_MS \<le> d" using Cons.prems(1) by simp
  ultimately have "waitForFinalResult timeoutMs (elapsed + int d) sl (deliver rs s) \<noteq> None"
    by (rule Cons.IH[rotated])
  then show ?case
    by (subst waitForFinalResult.simps) (auto simp: p split: option.splits list.splits)
qed

text \<open>What the loop returns, read off the manager it leaves.\<close>

lemma waitForFinalResult_outcome:
  "waitForFinalResult timeoutMs elapsed sl s = Some (out, s', elapsed') \<Longrightarrow>
     (case finalResult s' of
        Some r \<Rightarrow> out = Inr r
      | None \<Rightarrow>
          timeoutMs < elapsed'
          \<and> (if partialResults s' = [] then out = Inl FinalResultTimeout
              else out = Inr ((last (partialResults s'))\<lparr>isPartial := False\<rparr>)))"
proof (induction sl arbitrary: elapsed s)
  case Nil
  then show ?case
    by (subst (asm) waitForFinalResult.simps) (auto split: option.splits list.splits if_splits)
next
  case (Cons p sl)
  obtain d rs where p: "p = (d, rs)" by (cases p)
  show ?case
  proof (cases "finalResult s = None \<and> \<not> timeoutMs < elapsed")
    case True
    with Cons.prems p
    have "waitForFinalResult timeoutMs (elapsed + int d) sl (deliver rs s) = Some (out, s', elapsed')"
      by (subst (asm) waitForFinalResult.simps) simp
    then show ?thesis by (rule Cons.IH)
  next
    case False
    with Cons.prems show ?thesis
      by (subst (asm) waitForFinalResult.simps) (auto split: option.splits list.splits if_splits)
  qed
qed

text \<open>The loop gives up at the first turn after the budget: it overruns the budget by less
  than one sleep.\<close>

lemma waitForFinalResult_bound:
  "waitForFinalResult timeoutMs elapsed sl s = Some (out, s', elapsed') \<Longrightarrow>
   \<forall>(d, rs) \<in> set sl. d \<le> D \<Longrightarrow> elapsed \<le> timeoutMs + int D \<Longrightarrow>
   elapsed' \<le> timeoutMs + int D"
proof (induction sl arbitrary: elapsed s)
  case Nil
  then show ?case
    by (subst (asm) waitForFinalResult.simps) (auto split: option.splits list.splits if_splits)
next
  case (Cons p sl)
  obtain d rs where p: "p = (d, rs)" by (cases p)
  show ?case
  proof (cases "finalResult s = None \<and> \<not> timeoutMs < elapsed")
    case True
    with Cons.prems p
    have w: "waitForFinalResult timeoutMs (elapsed + int d) sl (deliver rs s) = Some (out, s', elapsed')"
      by (subst (asm) waitForFinalResult.simps) simp
    have "elapsed + int d \<le> timeoutMs + int D" using True Cons.prems(2) p by auto
    moreover have "\<forall>(d, rs) \<in> set sl. d \<le> D" using Cons.prems(2) by simp
    ultimately show ?thesis using Cons.IH[OF w] by blast
  next
    case False
    with Cons.prems show ?thesis
      by (subst (asm) waitForFinalResult.simps) (auto split: option.splits list.splits if_splits)
  qed
qed

lemma waitForFinalResult_idle_sleeps:
  "finalResult s = None \<Longrightarrow> elapsed + int d * int n \<le> timeoutMs + int d \<Longrightarrow>
   waitForFinalResult timeoutMs elapsed (replicate n (d, []) @ sl) s
     = waitForFinalResult timeoutMs (elapsed + int d * int n) sl s"
proof (induction n arbitrary: elapsed)
  case 0
  then show ?case by simp
next
  case (Suc n)
  have nn: "0 \<le> int d * int n" by simp
  have "elapsed + int d * int n \<le> timeoutMs" using Suc.prems(2) by (simp add: algebra_simps)
  with nn have le: "\<not> timeoutMs < elapsed" by linarith
  have "waitForFinalResult timeoutMs elapsed (replicate (Suc n) (d, []) @ sl) s
        = waitForFinalResult timeoutMs (elapsed + int d) (replicate n (d, []) @ sl) s"
    using Suc.prems(1) le by (subst waitForFinalResult.simps) simp
  also have "\<dots> = waitForFinalResult timeoutMs (elapsed + int d + int d * int n) sl s"
    using Suc.prems by (intro Suc.IH) (simp_all add: algebra_simps)
  finally show ?case by (simp add: algebra_simps)
qed


subsection \<open>Reachable managers\<close>

lemma on_off_fields [simp]:
  "config (on ty s) = config s" "history (on ty s) = history s"
  "client (on ty s) = client s" "currentState (on ty s) = currentState s"
  "sessionStartTime (on ty s) = sessionStartTime s"
  "config (off ty s) = config s" "history (off ty s) = history s"
  "client (off ty s) = client s" "currentState (off ty s) = currentState s"
  "sessionStartTime (off ty s) = sessionStartTime s"
  by (simp_all add: on_def off_def)

text \<open>The manager that \<open>startSession\<close> leaves, for each outcome of \<^verbatim>\<open>connect()\<close>.\<close>

lemma startSession_snd:
  "snd (startSession rt now ev s) =
     (if currentState s \<noteq> Idle then s
      else
        (let s2 = (setState Connecting s)
                    \<lparr>sessionStartTime := Some now, partialResults := [], finalResult := None\<rparr>;
             (outcome, c, results) =
               client_connect rt ev (\<lambda>r. fst (handleTranscriptionResult r s2) \<noteq> None)
                 new_ASRClient;
             s3 = deliver results (s2\<lparr>client := Some c\<rparr>)
         in case outcome of
              None \<Rightarrow> s3
            | Some (Inr _) \<Rightarrow> snd (emitEvent ConnectedEvent None None (setState Ready s3))
            | Some (Inl e) \<Rightarrow> snd (catchBlock e s3)))"
  by (simp add: startSession_def Let_def split: prod.splits option.splits sum.splits)

lemma startSession_fields:
  "config (snd (startSession rt now ev s)) = config s"
  "history (snd (startSession rt now ev s)) = history s"
  by (simp_all add: startSession_snd Let_def split: prod.splits option.splits sum.splits)

lemma startSession_inv: "manager_inv s \<Longrightarrow> manager_inv (snd (startSession rt now ev s))"
  by (simp add: manager_inv_def startSession_snd Let_def
      split: prod.splits option.splits sum.splits)

lemma sendAudio_fields:
  "config (snd (sendAudio a s)) = config s"
  "history (snd (sendAudio a s)) = history s"
  by (auto simp: sendAudio_def Let_def split: option.splits)

lemma sendAudio_inv: "manager_inv s \<Longrightarrow> manager_inv (snd (sendAudio a s))"
  by (auto simp: manager_inv_def sendAudio_def Let_def split: option.splits)

lemma cancelSession_fields:
  "config (cancelSession s) = config s"
  "history (cancelSession s) = history s"
  by (auto simp: cancelSession_def Let_def split: option.splits)

lemma cancelSession_inv: "manager_inv s \<Longrightarrow> manager_inv (cancelSession s)"
  by (auto simp: manager_inv_def cancelSession_def Let_def split: option.splits)

lemma stopSession_inv:
  assumes "manager_inv s" "stopSession rt env s = Some (out, s')"
  shows "manager_inv s'"
  using stopSession_cases[OF assms(2)] assms(1)
  by (auto simp: manager_inv_def split: if_splits)

lemma stopSession_config: "stopSession rt env s = Some (out, s') \<Longrightarrow> config s' = config s"
  using stopSession_cases by blast

lemma exec_config: "exec rt x s = Some s' \<Longrightarrow> config s' = config s"
  by (cases x) (auto simp: startSession_fields sendAudio_fields cancelSession_fields
      clearHistory_def dest: stopSession_config)

lemma exec_inv: "manager_inv s \<Longrightarrow> exec rt x s = Some s' \<Longrightarrow> manager_inv s'"
proof (cases x)
  case (StopSession env)
  assume "manager_inv s" "exec rt x s = Some s'"
  with StopSession show ?thesis by (auto dest: stopSession_inv)
qed (auto simp: startSession_inv sendAudio_inv cancelSession_inv,
     auto simp: manager_inv_def clearHistory_def)

lemma run_inv: "manager_inv s \<Longrightarrow> run rt ops s = Some s' \<Longrightarrow> manager_inv s'"
  by (induction ops arbitrary: s) (auto split: option.splits dest: exec_inv)

lemma run_config: "run rt ops s = Some s' \<Longrightarrow> config s' = config s"
  by (induction ops arbitrary: s) (auto split: option.splits dest: exec_config)

lemma new_ASRManager_inv: "manager_inv (new_ASRManager a m)"
  by (simp add: manager_inv_def new_ASRManager_def)

lemma reachable_inv: "reachable rt s \<Longrightarrow> manager_inv s"
  unfolding reachable_def using run_inv new_ASRManager_inv by blast

lemma run_append:
  "run rt (xs @ ys) s = (case run rt xs s of None \<Rightarrow> None | Some s' \<Rightarrow> run rt ys s')"
  by (induction xs arbitrary: s) (auto split: option.splits)

lemma reachable_new: "reachable rt (new_ASRManager a m)"
  unfolding reachable_def by (rule exI[of _ a], rule exI[of _ m], rule exI[of _ "[]"]) simp

lemma reachable_run: "reachable rt s \<Longrightarrow> run rt ops s = Some s' \<Longrightarrow> reachable rt s'"
  unfolding reachable_def
proof -
  assume "\<exists>a m xs. run rt xs (new_ASRManager a m) = Some s" and r: "run rt ops s = Some s'"
  then obtain a m xs where "run rt xs (new_ASRManager a m) = Some s" by blast
  with r have "run rt (xs @ ops) (new_ASRManager a m) = Some s'" by (simp add: run_append)
  then show "\<exists>a m xs. run rt xs (new_ASRManager a m) = Some s'" by blast
qed

text \<open>One step of a run and the history.\<close>

lemma exec_history:
  assumes "exec rt x s = Some s'" "x \<noteq> ClearHistory"
  shows "history s' = history s
    \<or> (\<exists>env result e. x = StopSession env \<and> stopSession rt env s = Some (Inr result, s')
          \<and> autoSaveHistory (config s) \<and> truthy (r_text result)
          \<and> entryKey e = (uuid env, r_text result)
          \<and> history s' = take (maxHistorySize (config s)) (e # history s))"
proof (cases x)
  case (StopSession env)
  with assms obtain out where st: "stopSession rt env s = Some (out, s')" by auto
  from stopSession_cases[OF st]
  have "history s' = history s
    \<or> (\<exists>r start endTime. out = Inr r \<and> autoSaveHistory (config s) \<and> truthy (r_text r)
          \<and> history s' = take (maxHistorySize (config s))
               (\<lparr>h_id = uuid env, h_text = r_text r, h_startTime = start,
                 h_endTime = endTime, h_duration = endTime - start\<rparr> # history s))"
    by (auto split: if_splits)
  then show ?thesis
  proof
    assume "history s' = history s"
    then show ?thesis by simp
  next
    assume "\<exists>r start endTime. out = Inr r \<and> autoSaveHistory (config s) \<and> truthy (r_text r)
          \<and> history s' = take (maxHistorySize (config s))
               (\<lparr>h_id = uuid env, h_text = r_text r, h_startTime = start,
                 h_endTime = endTime, h_duration = endTime - start\<rparr> # history s)"
    then obtain r start endTime where o: "out = Inr r" "autoSaveHistory (config s)"
      "truthy (r_text r)"
      "history s' = take (maxHistorySize (config s))
               (\<lparr>h_id = uuid env, h_text = r_text r, h_startTime = start,
                 h_endTime = endTime, h_duration = endTime - start\<rparr> # history s)"
      by blast
    have "entryKey \<lparr>h_id = uuid env, h_text = r_text r, h_startTime = start,
                 h_endTime = endTime, h_duration = endTime - start\<rparr> = (uuid env, r_text r)"
      by (simp add: entryKey_def)
    with o st StopSession show ?thesis by blast
  qed
qed (use assms in \<open>auto simp: startSession_fields sendAudio_fields cancelSession_fields\<close>)

lemma stopSession_saved:
  assumes "stopSession rt env s = Some (Inr r, s')" "autoSaveHistory (config s)" "truthy (r_text r)"
  shows "\<exists>e. entryKey e = (uuid env, r_text r)
           \<and> history s' = take (maxHistorySize (config s)) (e # history s)"
proof -
  from stopSession_cases[OF assms(1)] assms(2,3)
  obtain start endTime where
    "history s' = take (maxHistorySize (config s))
               (\<lparr>h_id = uuid env, h_text = r_text r, h_startTime = start,
                 h_endTime = endTime, h_duration = endTime - start\<rparr> # history s)"
    by auto
  moreover have "entryKey \<lparr>h_id = uuid env, h_text = r_text r, h_startTime = start,
                 h_endTime = endTime, h_duration = endTime - start\<rparr> = (uuid env, r_text r)"
    by (simp add: entryKey_def)
  ultimately show ?thesis by blast
qed

lemma stopSession_unsaved:
  assumes "stopSession rt env s = Some (out, s')"
    "\<forall>r. out = Inr r \<longrightarrow> \<not> (autoSaveHistory (config s) \<and> truthy (r_text r))"
  shows "history s' = history s"
  using stopSession_cases[OF assms(1)] assms(2) by (auto split: if_splits)

lemma exec_history_keys:
  assumes "exec rt x s = Some s'" "x \<noteq> ClearHistory" "autoSaveHistory (config s)"
    "length (history s) \<le> maxHistorySize (config s)"
  shows "map entryKey (history s') =
           take (maxHistorySize (config s)) (rev (savedBy rt x s) @ map entryKey (history s))"
proof (cases x)
  case (StopSession env)
  with assms obtain out where st: "stopSession rt env s = Some (out, s')" by auto
  show ?thesis
  proof (cases "\<exists>r. out = Inr r \<and> truthy (r_text r)")
    case True
    then obtain r where r: "out = Inr r" "truthy (r_text r)" by blast
    with st StopSession have sv: "savedBy rt x s = [(uuid env, r_text r)]"
      by (simp add: savedBy_def)
    from stopSession_saved[OF st[unfolded r(1)] assms(3) r(2)]
    obtain e where e: "entryKey e = (uuid env, r_text r)"
      "history s' = take (maxHistorySize (config s)) (e # history s)" by blast
    have "(uuid env, r_text r) # map entryKey (history s) = map entryKey (e # history s)"
      by (simp add: e(1))
    then show ?thesis unfolding sv e(2) by (simp only: rev.simps append.simps take_map)
  next
    case False
    with st StopSession have sv: "savedBy rt x s = []"
      by (auto simp: savedBy_def split: sum.splits)
    from False have "history s' = history s" by (intro stopSession_unsaved[OF st]) auto
    with sv assms(4) show ?thesis by simp
  qed
qed (use assms in \<open>auto simp: startSession_fields sendAudio_fields cancelSession_fields savedBy_def\<close>)

lemma take_append_take: "take m (xs @ take m ys) = take m (xs @ ys)"
  by (simp add: min_def)

lemma run_history_keys:
  "manager_inv s \<Longrightarrow> autoSaveHistory (config s) \<Longrightarrow> ClearHistory \<notin> set ops \<Longrightarrow>
   run rt ops s = Some s' \<Longrightarrow>
   map entryKey (history s') =
     take (maxHistorySize (config s)) (rev (completedSessions rt ops s) @ map entryKey (history s))"
proof (induction ops arbitrary: s)
  case Nil
  then show ?case by (simp add: manager_inv_def)
next
  case (Cons x xs)
  from Cons.prems obtain s1 where e: "exec rt x s = Some s1" and r: "run rt xs s1 = Some s'"
    by (auto split: option.splits)
  have c: "config s1 = config s" using e by (rule exec_config)
  have i: "manager_inv s1" using Cons.prems(1) e by (rule exec_inv)
  have k: "map entryKey (history s1) =
      take (maxHistorySize (config s)) (rev (savedBy rt x s) @ map entryKey (history s))"
    using e Cons.prems by (intro exec_history_keys) (auto simp: manager_inv_def)
  have "map entryKey (history s') =
      take (maxHistorySize (config s1)) (rev (completedSessions rt xs s1) @ map entryKey (history s1))"
    using i Cons.prems c r by (intro Cons.IH) auto
  also have "\<dots> = take (maxHistorySize (config s))
      (rev (completedSessions rt xs s1) @ rev (savedBy rt x s) @ map entryKey (history s))"
    unfolding c k by (rule take_append_take)
  finally show ?case using e by simp
qed

subsection \<open>Guards on the state\<close>

lemma client_close_idem: "client_close (client_close c) = client_close c"
  by (simp add: client_close_def stopAudioSender_def Let_def)

text \<open>
  Claim C4. \<open>startSession\<close> fails with an invalid-state error, and changes nothing, in every
  state other than \<open>Idle\<close>; after a successful \<open>startSession\<close> the state is \<open>Ready\<close>, so a
  second call fails, also after audio has been sent. \<open>sendAudio\<close> fails with an invalid-state
  error when there is no client; with a client it moves the state from \<open>Ready\<close> to
  \<open>Recording\<close> and hands the chunk to the client, hands the chunk to the client in state
  \<open>Recording\<close>, and in every other state drops the chunk with a warning and returns normally.
  \<open>stopSession\<close> fails with an invalid-state error, and changes nothing, in every state other
  than \<open>Ready\<close> and \<open>Recording\<close>.
\<close>

theorem state_guards:
  "(currentState s \<noteq> Idle \<longrightarrow>
      startSession rt now ev s = (Some (Inl (CannotStartSession (currentState s))), s)
      \<and> isInvalidStateError (CannotStartSession (currentState s)))
   \<and> (startSession rt now ev s = (Some (Inr ()), s') \<longrightarrow>
        currentState s' = Ready
        \<and> startSession rt now' ev' s' = (Some (Inl (CannotStartSession Ready)), s')
        \<and> fst (startSession rt now' ev' (snd (sendAudio audioData s')))
            = Some (Inl (CannotStartSession Recording)))
   \<and> (client s = None \<longrightarrow>
        sendAudio audioData s = (Inl SessionNotStarted, s) \<and> isInvalidStateError SessionNotStarted)
   \<and> (\<forall>c. client s = Some c \<and> currentState s = Ready \<longrightarrow>
        sendAudio audioData s =
          (Inr (), (setState Recording s)\<lparr>client := Some (client_sendAudio audioData c)\<rparr>))
   \<and> (\<forall>c. client s = Some c \<and> currentState s = Recording \<longrightarrow>
        sendAudio audioData s = (Inr (), s\<lparr>client := Some (client_sendAudio audioData c)\<rparr>))
   \<and> (client s \<noteq> None \<and> currentState s \<noteq> Ready \<and> currentState s \<noteq> Recording \<longrightarrow>
        sendAudio audioData s = (Inr (), s\<lparr>warnings := warnings s @ [AudioIgnored (currentState s)]\<rparr>))
   \<and> (currentState s \<noteq> Ready \<and> currentState s \<noteq> Recording \<longrightarrow>
        (\<exists>e. stopSession rt env s = Some (Inl e, s) \<and> isInvalidStateError e))"
proof -
  have a: "currentState s \<noteq> Idle \<longrightarrow>
      startSession rt now ev s = (Some (Inl (CannotStartSession (currentState s))), s)
      \<and> isInvalidStateError (CannotStartSession (currentState s))"
    by (simp add: startSession_def)
  have b1: "startSession rt now ev s = (Some (Inr ()), s') \<longrightarrow> currentState s' = Ready \<and> client s' \<noteq> None"
    by (auto simp: startSession_def Let_def split: if_splits prod.splits sum.splits option.splits)
  have b: "startSession rt now ev s = (Some (Inr ()), s') \<longrightarrow>
        currentState s' = Ready
        \<and> startSession rt now' ev' s' = (Some (Inl (CannotStartSession Ready)), s')
        \<and> fst (startSession rt now' ev' (snd (sendAudio audioData s')))
            = Some (Inl (CannotStartSession Recording))"
    using b1 by (auto simp: startSession_def sendAudio_def Let_def split: option.splits)
  have c: "client s = None \<longrightarrow>
        sendAudio audioData s = (Inl SessionNotStarted, s) \<and> isInvalidStateError SessionNotStarted"
    by (simp add: sendAudio_def)
  have d: "\<forall>c. client s = Some c \<and> currentState s = Ready \<longrightarrow>
        sendAudio audioData s =
          (Inr (), (setState Recording s)\<lparr>client := Some (client_sendAudio audioData c)\<rparr>)"
    by (simp add: sendAudio_def Let_def)
  have e: "\<forall>c. client s = Some c \<and> currentState s = Recording \<longrightarrow>
        sendAudio audioData s = (Inr (), s\<lparr>client := Some (client_sendAudio audioData c)\<rparr>)"
    by (simp add: sendAudio_def Let_def)
  have f: "client s \<noteq> None \<and> currentState s \<noteq> Ready \<and> currentState s \<noteq> Recording \<longrightarrow>
        sendAudio audioData s = (Inr (), s\<lparr>warnings := warnings s @ [AudioIgnored (currentState s)]\<rparr>)"
    by (auto simp: sendAudio_def Let_def)
  have g: "currentState s \<noteq> Ready \<and> currentState s \<noteq> Recording \<longrightarrow>
        (\<exists>e. stopSession rt env s = Some (Inl e, s) \<and> isInvalidStateError e)"
    by (auto simp: stopSession_def split: option.splits)
  show ?thesis using a b c d e f g by blast
qed

subsection \<open>cancelSession()\<close>

text \<open>
  Claim C2, as the code has it. In every state \<open>cancelSession\<close> closes the client and drops
  it (the client it had is left disconnected, without socket, timer or queued audio), clears
  the start of the session and leaves the manager in state \<open>Idle\<close>. The partial results and
  the final result are kept as they were; the next \<open>startSession\<close> resets them.
\<close>

theorem cancelSession_effect:
  "currentState (cancelSession s) = Idle
   \<and> client (cancelSession s) = None
   \<and> sessionStartTime (cancelSession s) = None
   \<and> partialResults (cancelSession s) = partialResults s
   \<and> finalResult (cancelSession s) = finalResult s
   \<and> history (cancelSession s) = history s
   \<and> (\<forall>c. client s = Some c \<longrightarrow>
         closedClients (cancelSession s) = closedClients s @ [client_close c]
         \<and> connectionState (client_close c) = Disconnected \<and> \<not> ws (client_close c)
         \<and> audioBuffer (client_close c) = [] \<and> \<not> sendInterval (client_close c))
   \<and> (client s = None \<longrightarrow> closedClients (cancelSession s) = closedClients s)"
  by (auto simp: cancelSession_def Let_def cleanup_def client_close_idem client_close_def
      stopAudioSender_def split: option.splits)


text \<open>The next \<open>startSession\<close> resets both buffers, whatever becomes of the connection.\<close>

lemma deliver_errors:
  "\<forall>r \<in> set rs. hasError r \<Longrightarrow>
     partialResults (deliver rs s) = partialResults s \<and> finalResult (deliver rs s) = finalResult s"
  by (induction rs arbitrary: s) (simp_all add: handleTranscriptionResult_def)

lemma startSession_resets:
  assumes "currentState s = Idle"
  shows "partialResults (snd (startSession rt now ev s)) = []"
    and "finalResult (snd (startSession rt now ev s)) = None"
proof -
  have e: "\<forall>r \<in> set [connectionErrorResult e]. hasError r" for e
    by (simp add: connectionErrorResult_def hasError_def)
  show "partialResults (snd (startSession rt now ev s)) = []"
    using assms deliver_errors[OF e]
    by (cases ev) (simp_all add: startSession_snd client_connect_def new_ASRClient_def Let_def)
  show "finalResult (snd (startSession rt now ev s)) = None"
    using assms deliver_errors[OF e]
    by (cases ev) (simp_all add: startSession_snd client_connect_def new_ASRClient_def Let_def)
qed

subsection \<open>stopSession() and the final result\<close>

lemmas manager_defs =
  startSession_def sendAudio_def stopSession_def cancelSession_def clearHistory_def
  handleTranscriptionResult_def deliver_def setState_def emitEvent_def emit_def catchBlock_def
  on_def off_def cleanup_def
  addToHistory_def stopFailed_def hasError_def new_ASRManager_def
  client_connect_def client_sendAudio_def client_finish_def client_close_def new_ASRClient_def
  isConnected_def startAudioSender_def stopAudioSender_def mergeAudioBuffer_def
  sendAudioPacket_def audioPacket_def fullClientRequest_def buildHeader_def setUint32_def
  plainRuntime_def FINAL_RESULT_TIMEOUT_MS_def

lemma addToHistory_fields:
  "addToHistory rt now u r s = Inr s' \<Longrightarrow>
     partialResults s' = partialResults s \<and> finalResult s' = finalResult s
     \<and> currentState s' = currentState s"
  by (auto simp: addToHistory_def Let_def split: option.splits)

lemma waitForFinalResult_fifty:
  "finalResult s = None \<Longrightarrow>
   waitForFinalResult 5000 0 (replicate 50 (100, []) @ sl) s = waitForFinalResult 5000 5000 sl s"
  using waitForFinalResult_idle_sleeps[of s 0 100 50 5000 sl] by simp

text \<open>
  What a call of \<open>stopSession\<close> in which \<open>finish()\<close> returns gives, on a reachable manager in
  state \<open>Ready\<close> or \<open>Recording\<close>. The call returns when each sleep of the wait lasts at least
  the 100 ms asked for and 51 sleeps are allowed. When it returns with a final result
  received, it returns that result. When it returns without one, the wait has timed out:
  with at least one partial result recorded it returns the last of them with \<open>isPartial\<close> set
  to false and the state is \<open>Completed\<close>; with none the state is \<open>Error\<close>, and the call fails
  with the timeout error when something listens for errors, and with the error of the
  emitter when nothing does.
\<close>

lemma stopSession_outcome:
  assumes "reachable rt s" "currentState s = Ready \<or> currentState s = Recording"
    "finishThrows env = None"
  shows "((\<forall>(d, rs) \<in> set (sleeps env). POLL_INTERVAL_MS \<le> d) \<and> 51 \<le> length (sleeps env)
            \<longrightarrow> stopSession rt env s \<noteq> None)
    \<and> (\<forall>out s'. stopSession rt env s = Some (out, s') \<longrightarrow>
          (case finalResult s' of
             Some r \<Rightarrow> out = Inr r \<and> currentState s' = Completed
           | None \<Rightarrow>
               if partialResults s' = []
               then out = Inl (if ErrorEvent' \<in> set (listeners s) then FinalResultTimeout
                               else UnhandledError timeoutEvent)
                    \<and> currentState s' = Error
               else out = Inr ((last (partialResults s'))\<lparr>isPartial := False\<rparr>)
                    \<and> currentState s' = Completed))"
proof -
  from assms(1) have inv: "manager_inv s" by (rule reachable_inv)
  with assms(2) obtain c where c: "client s = Some c" by (auto simp: manager_inv_def)
  with inv obtain start where start: "sessionStartTime s = Some start"
    by (auto simp: manager_inv_def)
  from assms(2) have st: "currentState s = Recording \<or> currentState s = Ready" by blast
  define s2 where "s2 = deliver (duringFinish env)
                     ((setState Processing s)\<lparr>client := Some (client_finish rt c)\<rparr>)"
  have sv: "stopSession rt env s =
      (case waitForFinalResult FINAL_RESULT_TIMEOUT_MS 0 (sleeps env) s2 of
         None \<Rightarrow> None
       | Some (Inl e, s3, elapsed) \<Rightarrow> Some (stopFailed e s3)
       | Some (Inr result, s3, elapsed) \<Rightarrow>
           (if autoSaveHistory (config s3) \<and> truthy (r_text result)
            then (case addToHistory rt (waitStart env + elapsed) (uuid env) result
                         (setState Completed s3) of
                    Inl e \<Rightarrow> Some (stopFailed e (setState Completed s3))
                  | Inr s5 \<Rightarrow> Some (Inr result, cleanup s5))
            else Some (Inr result, cleanup (setState Completed s3))))"
    unfolding s2_def using stopSession_valid[OF c st, of rt env] assms(3) by simp
  have start2: "sessionStartTime s2 = Some start" "listeners s2 = listeners s"
    by (simp_all add: s2_def start)
  have noInl: "addToHistory rt now u r (setState Completed s3) \<noteq> Inl e"
    if "sessionStartTime s3 = Some start" for now u r s3 e
    using that by (auto simp: addToHistory_def Let_def)
  have A: "(\<forall>(d, rs) \<in> set (sleeps env). POLL_INTERVAL_MS \<le> d) \<and> 51 \<le> length (sleeps env)
            \<longrightarrow> stopSession rt env s \<noteq> None"
  proof
    assume h: "(\<forall>(d, rs) \<in> set (sleeps env). POLL_INTERVAL_MS \<le> d) \<and> 51 \<le> length (sleeps env)"
    then have "FINAL_RESULT_TIMEOUT_MS < 0 + 100 * int (length (sleeps env))"
      by (simp add: FINAL_RESULT_TIMEOUT_MS_def)
    with h have "waitForFinalResult FINAL_RESULT_TIMEOUT_MS 0 (sleeps env) s2 \<noteq> None"
      by (intro waitForFinalResult_total) auto
    then obtain res s3 elapsed where
      w: "waitForFinalResult FINAL_RESULT_TIMEOUT_MS 0 (sleeps env) s2 = Some (res, s3, elapsed)"
      by auto
    show "stopSession rt env s \<noteq> None"
      unfolding sv w by (auto split: sum.splits)
  qed
  have B: "\<forall>out s'. stopSession rt env s = Some (out, s') \<longrightarrow>
          (case finalResult s' of
             Some r \<Rightarrow> out = Inr r \<and> currentState s' = Completed
           | None \<Rightarrow>
               if partialResults s' = []
               then out = Inl (if ErrorEvent' \<in> set (listeners s) then FinalResultTimeout
                               else UnhandledError timeoutEvent)
                    \<and> currentState s' = Error
               else out = Inr ((last (partialResults s'))\<lparr>isPartial := False\<rparr>)
                    \<and> currentState s' = Completed)"
  proof (intro allI impI)
    fix out s'
    assume r: "stopSession rt env s = Some (out, s')"
    then obtain res s3 elapsed where
      w: "waitForFinalResult FINAL_RESULT_TIMEOUT_MS 0 (sleeps env) s2 = Some (res, s3, elapsed)"
      unfolding sv by (auto split: option.splits)
    from waitForFinalResult_fields[OF w] start2
    have start3: "sessionStartTime s3 = Some start" "listeners s3 = listeners s" by simp_all
    note o = waitForFinalResult_outcome[OF w]
    show "case finalResult s' of
             Some r \<Rightarrow> out = Inr r \<and> currentState s' = Completed
           | None \<Rightarrow>
               if partialResults s' = []
               then out = Inl (if ErrorEvent' \<in> set (listeners s) then FinalResultTimeout
                               else UnhandledError timeoutEvent)
                    \<and> currentState s' = Error
               else out = Inr ((last (partialResults s'))\<lparr>isPartial := False\<rparr>)
                    \<and> currentState s' = Completed"
    proof (cases res)
      case (Inl e)
      with r w have "(out, s') = stopFailed e s3" unfolding sv by simp
      then have "out = Inl (fst (catchBlock e s3))" "s' = snd (stopFailed e s3)"
        by (metis fst_conv stopFailed_fields(1), metis snd_conv)
      with o Inl start3(2) show ?thesis
        by (auto simp: catchBlock_error timeoutEvent_def split: option.splits if_splits)
    next
      case (Inr result)
      have "out = Inr result \<and> partialResults s' = partialResults s3
            \<and> finalResult s' = finalResult s3 \<and> currentState s' = Completed"
      proof (cases "autoSaveHistory (config s3) \<and> truthy (r_text result)")
        case False
        with r w Inr show ?thesis unfolding sv by auto
      next
        case True
        obtain s5 where a: "addToHistory rt (waitStart env + elapsed) (uuid env) result
                         (setState Completed s3) = Inr s5"
          using noInl[OF start3(1)] by (meson sum.exhaust)
        with True r w Inr have "out = Inr result" "s' = cleanup s5" unfolding sv by auto
        with addToHistory_fields[OF a] show ?thesis by simp
      qed
      with o Inr show ?thesis by (auto split: option.splits if_splits)
    qed
  qed
  from A B show ?thesis by blast
qed

text \<open>
  A call of \<open>stopSession\<close> during which nothing arrives, with sleeps of exactly 100 ms: after
  50 sleeps, 5000 ms into the wait, the call has not returned; the 51st sleep ends the wait,
  at 5100 ms, and the time is in the entry of the history.
\<close>

lemma stopSession_idle_wait:
  assumes "client s = Some c" "currentState s = Recording \<or> currentState s = Ready"
    "finishThrows env = None" "duringFinish env = []" "finalResult s = None"
  shows "sleeps env = replicate 50 (100, []) \<Longrightarrow> stopSession rt env s = None"
    and "sleeps env = replicate 50 (100, []) @ [(100, [])] \<Longrightarrow> partialResults s = [] \<Longrightarrow>
         stopSession rt env s =
           Some (stopFailed FinalResultTimeout
                   ((setState Processing s)\<lparr>client := Some (client_finish rt c)\<rparr>))"
    and "sleeps env = replicate 50 (100, []) @ [(100, [])] \<Longrightarrow> partialResults s \<noteq> [] \<Longrightarrow>
         sessionStartTime s = Some start \<Longrightarrow> autoSaveHistory (config s) \<Longrightarrow>
         truthy (r_text (last (partialResults s))) \<Longrightarrow>
         \<exists>s'. stopSession rt env s
                 = Some (Inr ((last (partialResults s))\<lparr>isPartial := False\<rparr>), s')
           \<and> currentState s' = Completed
           \<and> history s' = take (maxHistorySize (config s))
               (\<lparr>h_id = uuid env, h_text = r_text (last (partialResults s)), h_startTime = start,
                 h_endTime = waitStart env + 5100, h_duration = waitStart env + 5100 - start\<rparr>
                # history s)"
proof -
  define s2 where "s2 = (setState Processing s)\<lparr>client := Some (client_finish rt c)\<rparr>"
  have f2: "finalResult s2 = None" "partialResults s2 = partialResults s"
    "sessionStartTime s2 = sessionStartTime s" "config s2 = config s" "history s2 = history s"
    by (simp_all add: s2_def assms(5))
  have sv: "stopSession rt env s =
      (case waitForFinalResult 5000 0 (sleeps env) s2 of
         None \<Rightarrow> None
       | Some (Inl e, s3, elapsed) \<Rightarrow> Some (stopFailed e s3)
       | Some (Inr result, s3, elapsed) \<Rightarrow>
           (if autoSaveHistory (config s3) \<and> truthy (r_text result)
            then (case addToHistory rt (waitStart env + elapsed) (uuid env) result
                         (setState Completed s3) of
                    Inl e \<Rightarrow> Some (stopFailed e (setState Completed s3))
                  | Inr s5 \<Rightarrow> Some (Inr result, cleanup s5))
            else Some (Inr result, cleanup (setState Completed s3))))"
    using stopSession_valid[OF assms(1,2), of rt env] assms(3,4)
    by (simp add: s2_def FINAL_RESULT_TIMEOUT_MS_def)
  have w50: "waitForFinalResult 5000 0 (replicate 50 (100, [])) s2 = None"
  proof -
    have "waitForFinalResult 5000 0 (replicate 50 (100, []) @ []) s2
            = waitForFinalResult 5000 5000 [] s2"
      using f2(1) by (rule waitForFinalResult_fifty)
    then show ?thesis by (simp add: waitForFinalResult.simps f2)
  qed
  have w51: "waitForFinalResult 5000 0 (replicate 50 (100, []) @ [(100, [])]) s2
               = waitForFinalResult 5000 5100 [] s2"
    unfolding waitForFinalResult_fifty[OF f2(1)]
    by (subst waitForFinalResult.simps) (simp add: f2)
  show "stopSession rt env s = None" if "sleeps env = replicate 50 (100, [])"
    unfolding sv that w50 by simp
  show "stopSession rt env s = Some (stopFailed FinalResultTimeout s2)"
    if "sleeps env = replicate 50 (100, []) @ [(100, [])]" "partialResults s = []"
    unfolding sv that(1) w51 using that(2)
    by (simp add: waitForFinalResult.simps f2)
  show "\<exists>s'. stopSession rt env s
                 = Some (Inr ((last (partialResults s))\<lparr>isPartial := False\<rparr>), s')
           \<and> currentState s' = Completed
           \<and> history s' = take (maxHistorySize (config s))
               (\<lparr>h_id = uuid env, h_text = r_text (last (partialResults s)), h_startTime = start,
                 h_endTime = waitStart env + 5100, h_duration = waitStart env + 5100 - start\<rparr>
                # history s)"
    if h: "sleeps env = replicate 50 (100, []) @ [(100, [])]" "partialResults s \<noteq> []"
      "sessionStartTime s = Some start" "autoSaveHistory (config s)"
      "truthy (r_text (last (partialResults s)))"
  proof -
    define s3 where "s3 = s2\<lparr>warnings := warnings s2 @ [TimeoutUsingLastPartial]\<rparr>"
    have w: "waitForFinalResult 5000 5100 [] s2
               = Some (Inr ((last (partialResults s))\<lparr>isPartial := False\<rparr>), s3, 5100)"
      using h(2) by (simp add: waitForFinalResult.simps f2 s3_def split: list.splits)
    have f3: "config s3 = config s" "sessionStartTime s3 = Some start" "history s3 = history s"
      by (simp_all add: s3_def f2 h(3))
    have a: "addToHistory rt (waitStart env + 5100) (uuid env)
               ((last (partialResults s))\<lparr>isPartial := False\<rparr>) (setState Completed s3)
             = Inr ((setState Completed s3)\<lparr>history := take (maxHistorySize (config s))
               (\<lparr>h_id = uuid env, h_text = r_text (last (partialResults s)), h_startTime = start,
                 h_endTime = waitStart env + 5100, h_duration = waitStart env + 5100 - start\<rparr>
                # history s)\<rparr>)"
      by (simp add: addToHistory_def f3 Let_def)
    have "stopSession rt env s
            = Some (Inr ((last (partialResults s))\<lparr>isPartial := False\<rparr>),
                cleanup ((setState Completed s3)\<lparr>history := take (maxHistorySize (config s))
               (\<lparr>h_id = uuid env, h_text = r_text (last (partialResults s)), h_startTime = start,
                 h_endTime = waitStart env + 5100, h_duration = waitStart env + 5100 - start\<rparr>
                # history s)\<rparr>))"
      unfolding sv h(1) w51 w using h(4,5) by (simp add: f3 a)
    then show ?thesis by simp
  qed
qed


subsection \<open>Examples\<close>

lemma readyManager_eq:
  "readyManager =
     \<lparr>config = \<lparr>autoSaveHistory = True, maxHistorySize = 100\<rparr>,
      client = Some \<lparr>connectionState = Connected, ws = True, audioBuffer = [],
                     sendInterval = True, wire = [[0x11, 0x10, 0x11, 0x00, 0, 0, 0, 0]]\<rparr>,
      currentState = Ready, sessionStartTime = Some 1000, partialResults = [],
      finalResult = None, history = [], listeners = [],
      emitted = [\<lparr>ev_type = StateChangeEvent, ev_state = Connecting, ev_result = None, ev_error = None\<rparr>,
                 \<lparr>ev_type = StateChangeEvent, ev_state = Ready, ev_result = None, ev_error = None\<rparr>,
                 \<lparr>ev_type = ConnectedEvent, ev_state = Ready, ev_result = None, ev_error = None\<rparr>],
      warnings = [], closedClients = []\<rparr>"
  by (simp add: readyManager_def manager_defs protocol_constants Let_def)

lemma readyManager_reachable: "reachable plainRuntime readyManager"
proof -
  have "run plainRuntime [StartSession 1000 Open] (new_ASRManager None None) = Some readyManager"
    by (simp add: readyManager_def)
  with reachable_new show ?thesis by (rule reachable_run)
qed

lemma silentManager_reachable: "reachable plainRuntime silentManager"
proof -
  have "run plainRuntime [SendAudio [1, 2]] readyManager = Some silentManager"
    by (simp add: silentManager_def)
  with readyManager_reachable show ?thesis by (rule reachable_run)
qed

lemma recordingManager_reachable: "reachable plainRuntime recordingManager"
proof -
  have "run plainRuntime [Result (textResult ''hello'' True)] silentManager
          = Some recordingManager"
    by (simp add: recordingManager_def silentManager_def)
  with silentManager_reachable show ?thesis by (rule reachable_run)
qed

lemma silentManager_fields:
  "currentState silentManager = Recording"
  "finalResult silentManager = None"
  "partialResults silentManager = []"
  "client silentManager =
     Some \<lparr>connectionState = Connected, ws = True, audioBuffer = [[1, 2]],
           sendInterval = True, wire = [[0x11, 0x10, 0x11, 0x00, 0, 0, 0, 0]]\<rparr>"
  "warnings silentManager = []"
  "sessionStartTime silentManager = Some 1000"
  "config silentManager = \<lparr>autoSaveHistory = True, maxHistorySize = 100\<rparr>"
  "history silentManager = []"
  "listeners silentManager = []"
  by (simp_all add: silentManager_def readyManager_eq manager_defs Let_def)

lemma recordingManager_fields:
  "currentState recordingManager = Recording"
  "finalResult recordingManager = None"
  "partialResults recordingManager = [textResult ''hello'' True]"
  "client recordingManager =
     Some \<lparr>connectionState = Connected, ws = True, audioBuffer = [[1, 2]],
           sendInterval = True, wire = [[0x11, 0x10, 0x11, 0x00, 0, 0, 0, 0]]\<rparr>"
  "warnings recordingManager = []"
  "sessionStartTime recordingManager = Some 1000"
  "config recordingManager = \<lparr>autoSaveHistory = True, maxHistorySize = 100\<rparr>"
  "history recordingManager = []"
  by (simp_all add: recordingManager_def readyManager_eq textResult_def manager_defs Let_def)

lemma twoPartials_fields:
  "currentState twoPartials = Recording"
  "finalResult twoPartials = None"
  "partialResults twoPartials = [textResult ''hello'' True, textResult ''hello world'' True]"
  "client twoPartials =
     Some \<lparr>connectionState = Connected, ws = True, audioBuffer = [[1, 2]],
           sendInterval = True, wire = [[0x11, 0x10, 0x11, 0x00, 0, 0, 0, 0]]\<rparr>"
  "sessionStartTime twoPartials = Some 1000"
  "config twoPartials = \<lparr>autoSaveHistory = True, maxHistorySize = 100\<rparr>"
  "history twoPartials = []"
  by (simp_all add: twoPartials_def recordingManager_fields handleTranscriptionResult_def
      textResult_def hasError_def Let_def)

lemma twoPartials_reachable: "reachable plainRuntime twoPartials"
proof -
  have "run plainRuntime [Result (textResult ''hello world'' True)] recordingManager
          = Some twoPartials"
    by (simp add: twoPartials_def)
  with recordingManager_reachable show ?thesis by (rule reachable_run)
qed

lemma listeningManager_fields:
  "currentState listeningManager = Recording"
  "finalResult listeningManager = None"
  "partialResults listeningManager = []"
  "client listeningManager =
     Some \<lparr>connectionState = Connected, ws = True, audioBuffer = [[1, 2]],
           sendInterval = True, wire = [[0x11, 0x10, 0x11, 0x00, 0, 0, 0, 0]]\<rparr>"
  "listeners listeningManager = [ErrorEvent']"
  by (simp_all add: listeningManager_def on_def silentManager_fields)

lemma listeningManager_reachable: "reachable plainRuntime listeningManager"
proof -
  have "run plainRuntime [On ErrorEvent'] silentManager = Some listeningManager"
    by (simp add: listeningManager_def)
  with silentManager_reachable show ?thesis by (rule reachable_run)
qed

text \<open>
  With no final result and sleeps of exactly 100 ms, the loop is still waiting when 5000 ms
  have elapsed, and gives up after the 51st sleep, at 5100 ms.
\<close>

lemma wait_exceeds_budget:
  "waitForFinalResult FINAL_RESULT_TIMEOUT_MS 0 (replicate 50 (100, [])) recordingManager = None
   \<and> waitForFinalResult FINAL_RESULT_TIMEOUT_MS 0 (replicate 50 (100, []) @ [(100, [])])
        recordingManager
      = Some (Inr ((textResult ''hello'' True)\<lparr>isPartial := False\<rparr>),
              recordingManager\<lparr>warnings := [TimeoutUsingLastPartial]\<rparr>, 5100)
   \<and> \<not> (5100 \<le> FINAL_RESULT_TIMEOUT_MS)"
proof -
  have 1: "waitForFinalResult 5000 0 (replicate 50 (100, []) @ []) recordingManager
           = waitForFinalResult 5000 5000 [] recordingManager"
    by (rule waitForFinalResult_fifty) (simp add: recordingManager_fields)
  have 2: "waitForFinalResult 5000 0 (replicate 50 (100, []) @ [(100, [])]) recordingManager
           = waitForFinalResult 5000 5000 [(100, [])] recordingManager"
    by (rule waitForFinalResult_fifty) (simp add: recordingManager_fields)
  have 3: "waitForFinalResult 5000 5000 [] recordingManager = None"
    by (simp add: waitForFinalResult.simps recordingManager_fields)
  have 4: "waitForFinalResult 5000 5000 [(100, [])] recordingManager
           = Some (Inr ((textResult ''hello'' True)\<lparr>isPartial := False\<rparr>),
              recordingManager\<lparr>warnings := [TimeoutUsingLastPartial]\<rparr>, 5100)"
    by (simp add: waitForFinalResult.simps recordingManager_fields)
  from 1 2 3 4 show ?thesis by (simp add: FINAL_RESULT_TIMEOUT_MS_def)
qed

lemma silentEnv_fields:
  "finishThrows silentEnv = None" "duringFinish silentEnv = []"
  "sleeps silentEnv = replicate 50 (100, []) @ [(100, [])]"
  "waitStart silentEnv = 2000" "uuid silentEnv = ascii ''id-0''"
  by (simp_all add: silentEnv_def)

lemma fiftySleeps_fields:
  "finishThrows fiftySleeps = None" "duringFinish fiftySleeps = []"
  "sleeps fiftySleeps = replicate 50 (100, [])"
  by (simp_all add: fiftySleeps_def silentEnv_def)

text \<open>
  Claim C1. The claim is that the wait lasts at most 5000 ms and that a wait which times out
  with no partial result makes \<open>stopSession\<close> fail with the timeout error. The source says the
  same: the comment at the call of \<open>waitForFinalResult\<close> reads "wait at most 5 seconds", and
  the catch block ends in \<^verbatim>\<open>throw error\<close>. The code does neither. Take a manager that has sent
  audio and a \<open>stopSession\<close> during which nothing arrives, with sleeps of exactly 100 ms.
  After 50 sleeps, 5000 ms into the wait, the call has not returned; it returns after the
  51st, at 5100 ms. On the manager without listeners (the manager the constructor gives) no
  partial result is recorded and the call fails, not with the timeout error, but with the
  error that \<^verbatim>\<open>emit("error", ...)\<close> throws in the catch block before \<^verbatim>\<open>throw error\<close> is reached.
  On the same manager with a listener for \<^verbatim>\<open>error\<close> it fails with the timeout error. On the
  manager with two partial results it returns the later one with \<open>isPartial\<close> set to false,
  and the entry of the history ends 5100 ms after the wait began (at 2000).
\<close>

theorem stopSession_timeout_divergence:
  "listeners silentManager = [] \<and> partialResults silentManager = []
   \<and> stopSession plainRuntime fiftySleeps silentManager = None
   \<and> map_option fst (stopSession plainRuntime silentEnv silentManager)
       = Some (Inl (UnhandledError timeoutEvent))
   \<and> \<not> isTimeoutError (UnhandledError timeoutEvent)
   \<and> map_option (currentState \<circ> snd) (stopSession plainRuntime silentEnv silentManager)
       = Some Error
   \<and> listeners listeningManager = [ErrorEvent']
   \<and> stopSession plainRuntime fiftySleeps listeningManager = None
   \<and> map_option fst (stopSession plainRuntime silentEnv listeningManager)
       = Some (Inl FinalResultTimeout)
   \<and> partialResults twoPartials = [textResult ''hello'' True, textResult ''hello world'' True]
   \<and> stopSession plainRuntime fiftySleeps twoPartials = None
   \<and> map_option fst (stopSession plainRuntime silentEnv twoPartials)
       = Some (Inr (textResult ''hello world'' False))
   \<and> map_option (history \<circ> snd) (stopSession plainRuntime silentEnv twoPartials)
       = Some [\<lparr>h_id = ascii ''id-0'', h_text = JStr (ascii ''hello world''), h_startTime = 1000,
                h_endTime = 7100, h_duration = 6100\<rparr>]"
proof -
  note s = silentManager_fields
  note l = listeningManager_fields
  note t = twoPartials_fields
  have a1: "stopSession plainRuntime fiftySleeps silentManager = None"
    by (rule stopSession_idle_wait(1)[OF s(4) disjI1[OF s(1)] fiftySleeps_fields(1,2) s(2)
          fiftySleeps_fields(3)])
  have a2: "stopSession plainRuntime silentEnv silentManager
      = Some (stopFailed FinalResultTimeout
                ((setState Processing silentManager)\<lparr>client := Some (client_finish plainRuntime
                    \<lparr>connectionState = Connected, ws = True, audioBuffer = [[1, 2]],
                      sendInterval = True, wire = [[0x11, 0x10, 0x11, 0x00, 0, 0, 0, 0]]\<rparr>)\<rparr>))"
    by (rule stopSession_idle_wait(2)[OF s(4) disjI1[OF s(1)] silentEnv_fields(1,2) s(2)
          silentEnv_fields(3) s(3)])
  have b1: "stopSession plainRuntime fiftySleeps listeningManager = None"
    by (rule stopSession_idle_wait(1)[OF l(4) disjI1[OF l(1)] fiftySleeps_fields(1,2) l(2)
          fiftySleeps_fields(3)])
  have b2: "stopSession plainRuntime silentEnv listeningManager
      = Some (stopFailed FinalResultTimeout
                ((setState Processing listeningManager)\<lparr>client := Some (client_finish plainRuntime
                    \<lparr>connectionState = Connected, ws = True, audioBuffer = [[1, 2]],
                      sendInterval = True, wire = [[0x11, 0x10, 0x11, 0x00, 0, 0, 0, 0]]\<rparr>)\<rparr>))"
    by (rule stopSession_idle_wait(2)[OF l(4) disjI1[OF l(1)] silentEnv_fields(1,2) l(2)
          silentEnv_fields(3) l(3)])
  have c1: "stopSession plainRuntime fiftySleeps twoPartials = None"
    by (rule stopSession_idle_wait(1)[OF t(4) disjI1[OF t(1)] fiftySleeps_fields(1,2) t(2)
          fiftySleeps_fields(3)])
  have last: "last (partialResults twoPartials) = textResult ''hello world'' True"
    by (simp add: t)
  have ne: "partialResults twoPartials \<noteq> []" by (simp add: t)
  have au: "autoSaveHistory (config twoPartials)" by (simp add: t)
  have tr: "truthy (r_text (last (partialResults twoPartials)))"
    unfolding last by (simp add: textResult_def ascii_def)
  from stopSession_idle_wait(3)[OF t(4) disjI1[OF t(1)] silentEnv_fields(1,2) t(2)
      silentEnv_fields(3) ne t(5) au tr, of plainRuntime]
  obtain s' where c2: "stopSession plainRuntime silentEnv twoPartials
        = Some (Inr ((textResult ''hello world'' True)\<lparr>isPartial := False\<rparr>), s')"
    and c3: "history s' = [\<lparr>h_id = ascii ''id-0'', h_text = JStr (ascii ''hello world''),
                             h_startTime = 1000, h_endTime = 7100, h_duration = 6100\<rparr>]"
    by (auto simp: last t silentEnv_fields textResult_def)
  have nt: "\<not> isTimeoutError (UnhandledError timeoutEvent)" by simp
  show ?thesis
    using a1 b1 c1 nt
    by (simp add: a2 b2 c2 c3 s l t catchBlock_error timeoutEvent_def textResult_def)
qed

lemma failedManager_fields:
  "currentState failedManager = Error"
  "client failedManager =
     Some \<lparr>connectionState = Disconnected, ws = True, audioBuffer = [],
           sendInterval = False, wire = []\<rparr>"
  "warnings failedManager = []"
  by (simp_all add: failedManager_def manager_defs Let_def connectionErrorResult_def)

text \<open>
  A \<open>startSession\<close> that fails, on the manager the constructor gives and on a manager with a
  listener for \<^verbatim>\<open>error\<close>. When the socket reports an error and nothing listens, the callback
  throws inside the listener of the socket and the call never returns; when the constructor
  of the socket throws and nothing listens, the call fails with the error of the emitter.
\<close>

lemma startSession_failures:
  "fst (startSession plainRuntime 1000 (ErrorEvent []) (new_ASRManager None None)) = None"
  "currentState (snd (startSession plainRuntime 1000 (ErrorEvent []) (new_ASRManager None None)))
     = Connecting"
  "fst (startSession plainRuntime 1000 (ErrorEvent []) (on ErrorEvent' (new_ASRManager None None)))
     = Some (Inl WebSocketConnectFailed)"
  "fst (startSession plainRuntime 1000 (ConstructorThrows (ascii ''bad url''))
          (new_ASRManager None None))
     = Some (Inl (UnhandledError \<lparr>ev_type = ErrorEvent', ev_state = Error, ev_result = None,
                                   ev_error = Some (ascii ''bad url'')\<rparr>))"
  "fst (startSession plainRuntime 1000 (ConstructorThrows (ascii ''bad url''))
          (on ErrorEvent' (new_ASRManager None None)))
     = Some (Inl (Thrown (ascii ''bad url'')))"
  by (simp_all add: manager_defs connectionErrorResult_def Let_def)

lemma new_ASRManager_fields:
  "currentState (new_ASRManager a m) = Idle" "client (new_ASRManager a m) = None"
  by (simp_all add: new_ASRManager_def)

theorem state_guards_witness:
  "currentState readyManager \<noteq> Idle
   \<and> startSession plainRuntime 5000 Open readyManager
       = (Some (Inl (CannotStartSession Ready)), readyManager)
   \<and> startSession plainRuntime 1000 Open (new_ASRManager None None)
       = (Some (Inr ()), readyManager)
   \<and> fst (startSession plainRuntime 5000 Open (snd (sendAudio [1, 2] readyManager)))
       = Some (Inl (CannotStartSession Recording))
   \<and> client (new_ASRManager None None) = None
   \<and> sendAudio [1, 2] (new_ASRManager None None)
       = (Inl SessionNotStarted, new_ASRManager None None)
   \<and> currentState readyManager = Ready
   \<and> currentState (snd (sendAudio [1, 2] readyManager)) = Recording
   \<and> client (snd (sendAudio [1, 2] readyManager))
       = Some \<lparr>connectionState = Connected, ws = True, audioBuffer = [[1, 2]],
               sendInterval = True, wire = [[0x11, 0x10, 0x11, 0x00, 0, 0, 0, 0]]\<rparr>
   \<and> currentState recordingManager = Recording
   \<and> client (snd (sendAudio [3] recordingManager))
       = Some \<lparr>connectionState = Connected, ws = True, audioBuffer = [[1, 2], [3]],
               sendInterval = True, wire = [[0x11, 0x10, 0x11, 0x00, 0, 0, 0, 0]]\<rparr>
   \<and> client failedManager \<noteq> None \<and> currentState failedManager = Error
   \<and> sendAudio [1, 2] failedManager
       = (Inr (), failedManager\<lparr>warnings := [AudioIgnored Error]\<rparr>)
   \<and> stopSession plainRuntime silentEnv failedManager
       = Some (Inl (CannotStopSession Error), failedManager)"
proof -
  have st: "startSession plainRuntime 1000 Open (new_ASRManager None None)
       = (Some (Inr ()), readyManager)"
    by (simp add: readyManager_def startSession_def new_ASRManager_def client_connect_def
        new_ASRClient_def Let_def split: prod.splits)
  note a = state_guards[where s = readyManager and rt = plainRuntime and now = 5000 and ev = Open
      and s' = readyManager and now' = 5000 and ev' = Open and audioData = "[1, 2]"
      and env = silentEnv]
  note b = state_guards[where s = "new_ASRManager None None" and rt = plainRuntime and now = 1000
      and ev = Open and s' = readyManager and now' = 5000 and ev' = Open and audioData = "[1, 2]"
      and env = silentEnv]
  note c = state_guards[where s = recordingManager and rt = plainRuntime and now = 5000
      and ev = Open and s' = readyManager and now' = 5000 and ev' = Open and audioData = "[3]"
      and env = silentEnv]
  note d = state_guards[where s = failedManager and rt = plainRuntime and now = 5000
      and ev = Open and s' = readyManager and now' = 5000 and ev' = Open and audioData = "[1, 2]"
      and env = silentEnv]
  have a': "startSession plainRuntime 5000 Open readyManager
       = (Some (Inl (CannotStartSession Ready)), readyManager)"
    "sendAudio [1, 2] readyManager =
       (Inr (), (setState Recording readyManager)
          \<lparr>client := Some (client_sendAudio [1, 2]
              \<lparr>connectionState = Connected, ws = True, audioBuffer = [],
                sendInterval = True, wire = [[0x11, 0x10, 0x11, 0x00, 0, 0, 0, 0]]\<rparr>)\<rparr>)"
    using a by (simp_all add: readyManager_eq)
  have b': "fst (startSession plainRuntime 5000 Open (snd (sendAudio [1, 2] readyManager)))
       = Some (Inl (CannotStartSession Recording))"
    "sendAudio [1, 2] (new_ASRManager None None)
       = (Inl SessionNotStarted, new_ASRManager None None)"
    using b st by (simp_all add: new_ASRManager_fields)
  have c': "sendAudio [3] recordingManager =
       (Inr (), recordingManager
          \<lparr>client := Some (client_sendAudio [3]
              \<lparr>connectionState = Connected, ws = True, audioBuffer = [[1, 2]],
                sendInterval = True, wire = [[0x11, 0x10, 0x11, 0x00, 0, 0, 0, 0]]\<rparr>)\<rparr>)"
    using c by (simp add: recordingManager_fields)
  have d': "sendAudio [1, 2] failedManager
       = (Inr (), failedManager\<lparr>warnings := [AudioIgnored Error]\<rparr>)"
    "\<exists>e. stopSession plainRuntime silentEnv failedManager = Some (Inl e, failedManager)"
    using d by (auto simp: failedManager_fields)
  have d'': "stopSession plainRuntime silentEnv failedManager
       = Some (Inl (CannotStopSession Error), failedManager)"
    by (simp add: stopSession_def failedManager_fields)
  show ?thesis
    using st a' b' c' d' d''
    by (simp add: readyManager_eq recordingManager_fields failedManager_fields
        new_ASRManager_fields client_sendAudio_def isConnected_def)
qed

text \<open>A partial result recorded before \<open>cancelSession\<close> is still there after it.\<close>

theorem cancelSession_keeps_partial_results:
  "partialResults (cancelSession recordingManager) = [textResult ''hello'' True]
   \<and> partialResults (cancelSession recordingManager) \<noteq> []"
  using recordingManager_fields(3) by (simp add: cancelSession_def Let_def split: option.splits)

theorem cancelSession_effect_witness:
  "client recordingManager
     = Some \<lparr>connectionState = Connected, ws = True, audioBuffer = [[1, 2]],
             sendInterval = True, wire = [[0x11, 0x10, 0x11, 0x00, 0, 0, 0, 0]]\<rparr>
   \<and> currentState (cancelSession recordingManager) = Idle
   \<and> client (cancelSession recordingManager) = None
   \<and> closedClients (cancelSession recordingManager)
       = [\<lparr>connectionState = Disconnected, ws = False, audioBuffer = [],
            sendInterval = False, wire = [[0x11, 0x10, 0x11, 0x00, 0, 0, 0, 0]]\<rparr>]
   \<and> client (new_ASRManager None None) = None
   \<and> closedClients (cancelSession (new_ASRManager None None)) = []"
proof -
  have cc: "closedClients recordingManager = []"
    by (simp add: recordingManager_def readyManager_eq manager_defs Let_def)
  show ?thesis
    using cancelSession_effect[of recordingManager]
      cancelSession_effect[of "new_ASRManager None None"] cc
    by (simp add: recordingManager_fields new_ASRManager_fields client_close_def
        stopAudioSender_def Let_def) (simp add: new_ASRManager_def)
qed

subsection \<open>The history\<close>

text \<open>
  Claim C7. A step of a run changes the history only when it is \<open>clearHistory\<close> or a
  \<open>stopSession\<close> that returns a result with a non-empty text while \<open>autoSaveHistory\<close> is set,
  and that step puts one entry, with the text of the result, at the front and keeps the
  first \<open>maxHistorySize\<close> entries. The history of a reachable manager never has more than
  \<open>maxHistorySize\<close> entries. After a run without \<open>clearHistory\<close> from a reachable manager
  with \<open>autoSaveHistory\<close> set, the history lists the sessions completed with a non-empty
  text, the most recent first, before the entries it had, cut to \<open>maxHistorySize\<close>; when more
  than \<open>maxHistorySize\<close> sessions were completed with a non-empty text it has exactly
  \<open>maxHistorySize\<close> entries, the most recent of those sessions, the most recent first.
\<close>

theorem history_bounded:
  "(\<forall>x s'. exec rt x s = Some s' \<and> history s' \<noteq> history s \<longrightarrow>
       (x = ClearHistory \<and> history s' = [])
       \<or> (\<exists>env result e. x = StopSession env \<and> stopSession rt env s = Some (Inr result, s')
             \<and> autoSaveHistory (config s) \<and> truthy (r_text result)
             \<and> entryKey e = (uuid env, r_text result)
             \<and> history s' = take (maxHistorySize (config s)) (e # history s)))
   \<and> (reachable rt s \<longrightarrow> length (history s) \<le> maxHistorySize (config s))
   \<and> (\<forall>ops s'. reachable rt s \<and> autoSaveHistory (config s) \<and> ClearHistory \<notin> set ops
          \<and> run rt ops s = Some s' \<longrightarrow>
        map entryKey (history s') =
          take (maxHistorySize (config s))
            (rev (completedSessions rt ops s) @ map entryKey (history s))
        \<and> (maxHistorySize (config s) < length (completedSessions rt ops s) \<longrightarrow>
             length (history s') = maxHistorySize (config s)
             \<and> map entryKey (history s') =
                 take (maxHistorySize (config s)) (rev (completedSessions rt ops s))))"
proof -
  have A: "\<forall>x s'. exec rt x s = Some s' \<and> history s' \<noteq> history s \<longrightarrow>
       (x = ClearHistory \<and> history s' = [])
       \<or> (\<exists>env result e. x = StopSession env \<and> stopSession rt env s = Some (Inr result, s')
             \<and> autoSaveHistory (config s) \<and> truthy (r_text result)
             \<and> entryKey e = (uuid env, r_text result)
             \<and> history s' = take (maxHistorySize (config s)) (e # history s))"
  proof (intro allI impI)
    fix x s'
    assume h: "exec rt x s = Some s' \<and> history s' \<noteq> history s"
    show "(x = ClearHistory \<and> history s' = [])
       \<or> (\<exists>env result e. x = StopSession env \<and> stopSession rt env s = Some (Inr result, s')
             \<and> autoSaveHistory (config s) \<and> truthy (r_text result)
             \<and> entryKey e = (uuid env, r_text result)
             \<and> history s' = take (maxHistorySize (config s)) (e # history s))"
    proof (cases "x = ClearHistory")
      case True
      with h show ?thesis by (auto simp: clearHistory_def)
    next
      case False
      with h exec_history[of rt x s s'] show ?thesis by blast
    qed
  qed
  have B: "reachable rt s \<longrightarrow> length (history s) \<le> maxHistorySize (config s)"
    using reachable_inv by (auto simp: manager_inv_def)
  have C: "\<forall>ops s'. reachable rt s \<and> autoSaveHistory (config s) \<and> ClearHistory \<notin> set ops
          \<and> run rt ops s = Some s' \<longrightarrow>
        map entryKey (history s') =
          take (maxHistorySize (config s))
            (rev (completedSessions rt ops s) @ map entryKey (history s))
        \<and> (maxHistorySize (config s) < length (completedSessions rt ops s) \<longrightarrow>
             length (history s') = maxHistorySize (config s)
             \<and> map entryKey (history s') =
                 take (maxHistorySize (config s)) (rev (completedSessions rt ops s)))"
  proof (intro allI impI)
    fix ops s'
    assume h: "reachable rt s \<and> autoSaveHistory (config s) \<and> ClearHistory \<notin> set ops
          \<and> run rt ops s = Some s'"
    then have i: "manager_inv s" using reachable_inv by blast
    from h i have k: "map entryKey (history s') =
          take (maxHistorySize (config s))
            (rev (completedSessions rt ops s) @ map entryKey (history s))"
      by (intro run_history_keys) auto
    have l: "length (history s') = maxHistorySize (config s)
             \<and> map entryKey (history s') =
                 take (maxHistorySize (config s)) (rev (completedSessions rt ops s))"
      if "maxHistorySize (config s) < length (completedSessions rt ops s)"
    proof -
      have eq: "map entryKey (history s') =
                 take (maxHistorySize (config s)) (rev (completedSessions rt ops s))"
        unfolding k using that by simp
      have "length (history s') = length (map entryKey (history s'))" by simp
      also have "\<dots> = maxHistorySize (config s)" unfolding eq using that by simp
      finally show ?thesis using eq by simp
    qed
    from k l show "map entryKey (history s') =
          take (maxHistorySize (config s))
            (rev (completedSessions rt ops s) @ map entryKey (history s))
        \<and> (maxHistorySize (config s) < length (completedSessions rt ops s) \<longrightarrow>
             length (history s') = maxHistorySize (config s)
             \<and> map entryKey (history s') =
                 take (maxHistorySize (config s)) (rev (completedSessions rt ops s)))"
      by blast
  qed
  from A B C show ?thesis by blast
qed


text \<open>Two calls that evaluate a run: a \<open>startSession\<close> whose socket opens, and a
  \<open>stopSession\<close> during whose \<open>finish()\<close> the final result arrives.\<close>

lemma smallManager_reachable: "reachable plainRuntime smallManager"
  unfolding smallManager_def by (rule reachable_new)

lemma startSession_open:
  assumes "currentState s = Idle"
  shows "\<exists>s'. startSession rt now Open s = (Some (Inr ()), s') \<and> currentState s' = Ready
           \<and> client s' \<noteq> None \<and> sessionStartTime s' = Some now
           \<and> config s' = config s \<and> history s' = history s"
  using assms
  by (simp add: startSession_def client_connect_def new_ASRClient_def Let_def)

lemma stopSession_final_during_finish:
  assumes "client s = Some c" "currentState s = Recording \<or> currentState s = Ready"
    "sessionStartTime s = Some start" "autoSaveHistory (config s)"
    "finishThrows env = None" "duringFinish env = [r]"
    "\<not> hasError r" "\<not> isPartial r" "truthy (r_text r)"
  shows "\<exists>s'. stopSession rt env s = Some (Inr r, s') \<and> currentState s' = Completed
           \<and> client s' = None \<and> config s' = config s
           \<and> history s' = take (maxHistorySize (config s))
                (\<lparr>h_id = uuid env, h_text = r_text r, h_startTime = start,
                  h_endTime = waitStart env, h_duration = waitStart env - start\<rparr> # history s)"
proof -
  define s2 where "s2 = deliver (duringFinish env)
                     ((setState Processing s)\<lparr>client := Some (client_finish rt c)\<rparr>)"
  have f: "finalResult s2 = Some r" "config s2 = config s" "sessionStartTime s2 = Some start"
    "history s2 = history s"
    using assms by (simp_all add: s2_def handleTranscriptionResult_def)
  have w: "waitForFinalResult FINAL_RESULT_TIMEOUT_MS 0 (sleeps env) s2 = Some (Inr r, s2, 0)"
    by (simp add: waitForFinalResult.simps f)
  have a: "addToHistory rt (waitStart env) (uuid env) r (setState Completed s2) =
      Inr ((setState Completed s2)\<lparr>history := take (maxHistorySize (config s))
                (\<lparr>h_id = uuid env, h_text = r_text r, h_startTime = start,
                  h_endTime = waitStart env, h_duration = waitStart env - start\<rparr> # history s)\<rparr>)"
    by (simp add: addToHistory_def f Let_def)
  have "stopSession rt env s =
      Some (Inr r, cleanup ((setState Completed s2)\<lparr>history := take (maxHistorySize (config s))
                (\<lparr>h_id = uuid env, h_text = r_text r, h_startTime = start,
                  h_endTime = waitStart env, h_duration = waitStart env - start\<rparr> # history s)\<rparr>))"
    unfolding stopSession_valid[OF assms(1,2)] s2_def[symmetric]
    using assms(4,5,9) by (simp add: w a f)
  then show ?thesis by (simp add: f)
qed

lemma stopEnv_fields:
  "finishThrows (stopEnv u t start) = None"
  "duringFinish (stopEnv u t start) = [textResult t False]"
  "waitStart (stopEnv u t start) = start"
  "uuid (stopEnv u t start) = ascii u"
  by (simp_all add: stopEnv_def)

lemma textResult_fields:
  "\<not> hasError (textResult t p)" "isPartial (textResult t p) = p"
  "r_text (textResult t p) = JStr (ascii t)"
  by (simp_all add: textResult_def hasError_def)

lemma smallManager_fields:
  "currentState smallManager = Idle" "autoSaveHistory (config smallManager)"
  "maxHistorySize (config smallManager) = 1" "history smallManager = []"
  by (simp_all add: smallManager_def new_ASRManager_def)

lemma twoSessions_run:
  "\<exists>s'. run plainRuntime twoSessions smallManager = Some s'
     \<and> completedSessions plainRuntime twoSessions smallManager =
         [(ascii ''id-1'', JStr (ascii ''first'')), (ascii ''id-2'', JStr (ascii ''second''))]"
proof -
  have t1: "truthy (r_text (textResult ''first'' False))"
    "truthy (r_text (textResult ''second'' False))"
    by (simp_all add: textResult_def ascii_def)
  have np: "\<not> isPartial (textResult t False)" for t by (simp add: textResult_def)
  from startSession_open[OF smallManager_fields(1), of plainRuntime 1000]
  obtain s1 c1 where s1: "startSession plainRuntime 1000 Open smallManager = (Some (Inr ()), s1)"
    "currentState s1 = Ready" "client s1 = Some c1" "sessionStartTime s1 = Some 1000"
    "config s1 = config smallManager" by auto
  have a1: "autoSaveHistory (config s1)" by (simp add: s1(5) smallManager_fields)
  have e1: "finishThrows (stopEnv ''id-1'' ''first'' 2000) = None"
    "duringFinish (stopEnv ''id-1'' ''first'' 2000) = [textResult ''first'' False]"
    by (simp_all add: stopEnv_fields)
  from stopSession_final_during_finish[OF s1(3) disjI2[OF s1(2)] s1(4) a1 e1
      textResult_fields(1) np t1(1), of plainRuntime]
  obtain s2 where s2: "stopSession plainRuntime (stopEnv ''id-1'' ''first'' 2000) s1
      = Some (Inr (textResult ''first'' False), s2)" "config s2 = config s1"
    by auto
  define s3 where "s3 = cancelSession s2"
  have s3: "currentState s3 = Idle" "config s3 = config s2"
    by (simp_all add: s3_def cancelSession_fields) (simp add: cancelSession_def Let_def)
  from startSession_open[OF s3(1), of plainRuntime 3000]
  obtain s4 c4 where s4: "startSession plainRuntime 3000 Open s3 = (Some (Inr ()), s4)"
    "currentState s4 = Ready" "client s4 = Some c4" "sessionStartTime s4 = Some 3000"
    "config s4 = config s3" by auto
  have a4: "autoSaveHistory (config s4)" by (simp add: s4(5) s3(2) s2(2) s1(5) smallManager_fields)
  have e2: "finishThrows (stopEnv ''id-2'' ''second'' 4000) = None"
    "duringFinish (stopEnv ''id-2'' ''second'' 4000) = [textResult ''second'' False]"
    by (simp_all add: stopEnv_fields)
  from stopSession_final_during_finish[OF s4(3) disjI2[OF s4(2)] s4(4) a4 e2
      textResult_fields(1) np t1(2), of plainRuntime]
  obtain s5 where s5: "stopSession plainRuntime (stopEnv ''id-2'' ''second'' 4000) s4
      = Some (Inr (textResult ''second'' False), s5)"
    by auto
  have "run plainRuntime twoSessions smallManager = Some s5"
    by (simp add: twoSessions_def s1 s2 s3_def[symmetric] s4 s5)
  moreover have "completedSessions plainRuntime twoSessions smallManager =
         [(ascii ''id-1'', JStr (ascii ''first'')), (ascii ''id-2'', JStr (ascii ''second''))]"
    using t1
    by (simp add: twoSessions_def s1 s2 s3_def[symmetric] s4 s5 savedBy_def stopEnv_fields
        textResult_fields)
  ultimately show ?thesis by blast
qed

theorem history_bounded_witness:
  "reachable plainRuntime smallManager
   \<and> autoSaveHistory (config smallManager)
   \<and> maxHistorySize (config smallManager) = 1
   \<and> ClearHistory \<notin> set twoSessions
   \<and> completedSessions plainRuntime twoSessions smallManager =
       [(ascii ''id-1'', JStr (ascii ''first'')), (ascii ''id-2'', JStr (ascii ''second''))]
   \<and> (\<exists>s'. run plainRuntime twoSessions smallManager = Some s'
         \<and> length (history s') = 1
         \<and> map entryKey (history s') = [(ascii ''id-2'', JStr (ascii ''second''))])"
proof -
  note c = smallManager_fields(2,3)
  have n: "ClearHistory \<notin> set twoSessions" by (simp add: twoSessions_def)
  from twoSessions_run obtain s' where r: "run plainRuntime twoSessions smallManager = Some s'"
    and cs: "completedSessions plainRuntime twoSessions smallManager =
       [(ascii ''id-1'', JStr (ascii ''first'')), (ascii ''id-2'', JStr (ascii ''second''))]"
    by blast
  from history_bounded[of plainRuntime smallManager] smallManager_reachable c n r
  have "length (history s') = maxHistorySize (config smallManager)
        \<and> map entryKey (history s') =
            take (maxHistorySize (config smallManager))
              (rev (completedSessions plainRuntime twoSessions smallManager))"
    by (simp add: cs)
  then have l: "length (history s') = 1"
    and m: "map entryKey (history s') = [(ascii ''id-2'', JStr (ascii ''second''))]"
    by (simp_all add: c cs)
  from r l m have "\<exists>s'. run plainRuntime twoSessions smallManager = Some s'
         \<and> length (history s') = 1
         \<and> map entryKey (history s') = [(ascii ''id-2'', JStr (ascii ''second''))]"
    by (intro exI[of _ s']) simp
  with smallManager_reachable c n cs show ?thesis by simp
qed



section \<open>Properties of the rewrite service\<close>

lemma rewriteTry_cases:
  "rewriteTry cfg fetch typeError text trimmedText = Returns res \<Longrightarrow>
     original res = text
     \<and> (success res \<and> polished res \<noteq> [] \<and> rw_error res = None
        \<or> \<not> success res \<and> polished res = text
          \<and> (\<exists>msg. rw_error res = Some msg \<and> msg \<noteq> []))"
  by (auto simp: rewriteTry_def apiRequestFailed_def apiEmptyResult_def ascii_def
      split: outcome.splits if_splits option.splits list.splits)

text \<open>The exceptions of the \<^verbatim>\<open>try\<close> block: of \<^verbatim>\<open>fetch\<close>, of \<^verbatim>\<open>response.text()\<close> for a response that
  is not ok, of \<^verbatim>\<open>response.json()\<close>, and of reading the completion.\<close>

lemma rewriteTry_throws:
  "rewriteTry cfg fetch typeError text trimmedText = Throws e \<longleftrightarrow>
     fetch (rewriteRequest cfg trimmedText) = Throws e
     \<or> (\<exists>resp. fetch (rewriteRequest cfg trimmedText) = Returns resp \<and> \<not> ok resp
            \<and> textBody resp = Throws e)
     \<or> (\<exists>resp. fetch (rewriteRequest cfg trimmedText) = Returns resp \<and> ok resp
            \<and> jsonBody resp = Throws e)
     \<or> (\<exists>resp data. fetch (rewriteRequest cfg trimmedText) = Returns resp \<and> ok resp
            \<and> jsonBody resp = Returns data \<and> completionContent typeError data = Throws e)"
  by (auto simp: rewriteTry_def split: outcome.splits if_splits option.splits list.splits)

text \<open>
  Claim C8, as the code has it. \<open>rewrite\<close> returns a result for every input and every
  behaviour of \<open>fetch\<close>. An input that is empty after trimming gives the empty polished text
  with success and no call of \<open>fetch\<close>; otherwise a missing key gives the input back with
  success and no call. Otherwise \<open>fetch\<close> is called once. A response that is not ok and
  whose body is read gives a failure with the \<open>API request failed\<close> message and the status; a
  completion that is missing or empty gives a failure with the \<open>API empty result\<close> message;
  both messages are non-empty. An exception, whether of \<open>fetch\<close>, of reading the body of a
  response that is not ok, of parsing the body of a response that is ok, or of reading the
  completion, gives a failure whose error is the message of the exception, whatever it is.
  A completion with a text that is not empty after trimming gives that text with success.
  In every case the original is the input, and a failure carries the input as polished text
  and an error.
\<close>

theorem rewrite_always_returns:
  "(trim str = [] \<longrightarrow>
      rewrite cfg fetch typeError str =
        (\<lparr>original = str, polished = [], success = True, rw_error = None\<rparr>, []))
   \<and> (trim str \<noteq> [] \<and> apiKey cfg = [] \<longrightarrow>
      rewrite cfg fetch typeError str =
        (\<lparr>original = str, polished = str, success = True, rw_error = None\<rparr>, []))
   \<and> (trim str \<noteq> [] \<and> apiKey cfg \<noteq> [] \<longrightarrow>
      snd (rewrite cfg fetch typeError str) = [rewriteRequest cfg (trim str)]
      \<and> (\<forall>resp errorText. fetch (rewriteRequest cfg (trim str)) = Returns resp \<and> \<not> ok resp
             \<and> textBody resp = Returns errorText \<longrightarrow>
           fst (rewrite cfg fetch typeError str) =
             \<lparr>original = str, polished = str, success = False,
              rw_error = Some (apiRequestFailed (status resp))\<rparr>
           \<and> apiRequestFailed (status resp) \<noteq> [])
      \<and> (\<forall>resp data content. fetch (rewriteRequest cfg (trim str)) = Returns resp \<and> ok resp
             \<and> jsonBody resp = Returns data \<and> completionContent typeError data = Returns content
             \<and> (content = None \<or> content = Some []) \<longrightarrow>
           fst (rewrite cfg fetch typeError str) =
             \<lparr>original = str, polished = str, success = False,
              rw_error = Some apiEmptyResult\<rparr>
           \<and> apiEmptyResult \<noteq> [])
      \<and> (\<forall>resp data content. fetch (rewriteRequest cfg (trim str)) = Returns resp \<and> ok resp
             \<and> jsonBody resp = Returns data
             \<and> completionContent typeError data = Returns (Some content) \<and> content \<noteq> [] \<longrightarrow>
           fst (rewrite cfg fetch typeError str) =
             \<lparr>original = str, polished = content, success = True, rw_error = None\<rparr>)
      \<and> (\<forall>e. fetch (rewriteRequest cfg (trim str)) = Throws e
             \<or> (\<exists>resp. fetch (rewriteRequest cfg (trim str)) = Returns resp \<and> \<not> ok resp
                    \<and> textBody resp = Throws e)
             \<or> (\<exists>resp. fetch (rewriteRequest cfg (trim str)) = Returns resp \<and> ok resp
                    \<and> jsonBody resp = Throws e)
             \<or> (\<exists>resp data. fetch (rewriteRequest cfg (trim str)) = Returns resp \<and> ok resp
                    \<and> jsonBody resp = Returns data
                    \<and> completionContent typeError data = Throws e) \<longrightarrow>
           fst (rewrite cfg fetch typeError str) =
             \<lparr>original = str, polished = str, success = False,
              rw_error = Some (errorMessage e)\<rparr>))
   \<and> original (fst (rewrite cfg fetch typeError str)) = str
   \<and> (\<not> success (fst (rewrite cfg fetch typeError str)) \<longrightarrow>
        polished (fst (rewrite cfg fetch typeError str)) = str
        \<and> rw_error (fst (rewrite cfg fetch typeError str)) \<noteq> None)"
proof -
  have u: "original (fst (rewrite cfg fetch typeError str)) = str
   \<and> (\<not> success (fst (rewrite cfg fetch typeError str)) \<longrightarrow>
        polished (fst (rewrite cfg fetch typeError str)) = str
        \<and> rw_error (fst (rewrite cfg fetch typeError str)) \<noteq> None)"
    using rewriteTry_cases[of cfg fetch typeError "str" "trim str"]
    by (auto simp: rewrite_def Let_def split: outcome.splits)
  have a: "trim str \<noteq> [] \<and> apiKey cfg \<noteq> [] \<longrightarrow>
      snd (rewrite cfg fetch typeError str) = [rewriteRequest cfg (trim str)]"
    by (auto simp: rewrite_def Let_def split: outcome.splits)
  have b: "trim str \<noteq> [] \<and> apiKey cfg \<noteq> [] \<longrightarrow>
      (\<forall>resp errorText. fetch (rewriteRequest cfg (trim str)) = Returns resp \<and> \<not> ok resp
             \<and> textBody resp = Returns errorText \<longrightarrow>
           fst (rewrite cfg fetch typeError str) =
             \<lparr>original = str, polished = str, success = False,
              rw_error = Some (apiRequestFailed (status resp))\<rparr>
           \<and> apiRequestFailed (status resp) \<noteq> [])"
    by (auto simp: rewrite_def rewriteTry_def Let_def apiRequestFailed_def ascii_def)
  have c: "trim str \<noteq> [] \<and> apiKey cfg \<noteq> [] \<longrightarrow>
      (\<forall>resp data content. fetch (rewriteRequest cfg (trim str)) = Returns resp \<and> ok resp
             \<and> jsonBody resp = Returns data \<and> completionContent typeError data = Returns content
             \<and> (content = None \<or> content = Some []) \<longrightarrow>
           fst (rewrite cfg fetch typeError str) =
             \<lparr>original = str, polished = str, success = False,
              rw_error = Some apiEmptyResult\<rparr>
           \<and> apiEmptyResult \<noteq> [])"
    by (auto simp: rewrite_def rewriteTry_def Let_def apiEmptyResult_def ascii_def)
  have c2: "trim str \<noteq> [] \<and> apiKey cfg \<noteq> [] \<longrightarrow>
      (\<forall>resp data content. fetch (rewriteRequest cfg (trim str)) = Returns resp \<and> ok resp
             \<and> jsonBody resp = Returns data
             \<and> completionContent typeError data = Returns (Some content) \<and> content \<noteq> [] \<longrightarrow>
           fst (rewrite cfg fetch typeError str) =
             \<lparr>original = str, polished = content, success = True, rw_error = None\<rparr>)"
    by (auto simp: rewrite_def rewriteTry_def Let_def split: list.splits)
  have d: "trim str \<noteq> [] \<and> apiKey cfg \<noteq> [] \<longrightarrow>
      (\<forall>e. fetch (rewriteRequest cfg (trim str)) = Throws e
             \<or> (\<exists>resp. fetch (rewriteRequest cfg (trim str)) = Returns resp \<and> \<not> ok resp
                    \<and> textBody resp = Throws e)
             \<or> (\<exists>resp. fetch (rewriteRequest cfg (trim str)) = Returns resp \<and> ok resp
                    \<and> jsonBody resp = Throws e)
             \<or> (\<exists>resp data. fetch (rewriteRequest cfg (trim str)) = Returns resp \<and> ok resp
                    \<and> jsonBody resp = Returns data
                    \<and> completionContent typeError data = Throws e) \<longrightarrow>
           fst (rewrite cfg fetch typeError str) =
             \<lparr>original = str, polished = str, success = False,
              rw_error = Some (errorMessage e)\<rparr>)"
  proof (intro impI allI)
    fix e
    assume h: "trim str \<noteq> [] \<and> apiKey cfg \<noteq> []"
    assume "fetch (rewriteRequest cfg (trim str)) = Throws e
             \<or> (\<exists>resp. fetch (rewriteRequest cfg (trim str)) = Returns resp \<and> \<not> ok resp
                    \<and> textBody resp = Throws e)
             \<or> (\<exists>resp. fetch (rewriteRequest cfg (trim str)) = Returns resp \<and> ok resp
                    \<and> jsonBody resp = Throws e)
             \<or> (\<exists>resp data. fetch (rewriteRequest cfg (trim str)) = Returns resp \<and> ok resp
                    \<and> jsonBody resp = Returns data
                    \<and> completionContent typeError data = Throws e)"
    then have "rewriteTry cfg fetch typeError str (trim str) = Throws e"
      by (simp only: rewriteTry_throws)
    with h show "fst (rewrite cfg fetch typeError str) =
             \<lparr>original = str, polished = str, success = False,
              rw_error = Some (errorMessage e)\<rparr>"
      by (simp add: rewrite_def Let_def)
  qed
  have e: "trim str = [] \<longrightarrow>
      rewrite cfg fetch typeError str =
        (\<lparr>original = str, polished = [], success = True, rw_error = None\<rparr>, [])"
    by (simp add: rewrite_def)
  have f: "trim str \<noteq> [] \<and> apiKey cfg = [] \<longrightarrow>
      rewrite cfg fetch typeError str =
        (\<lparr>original = str, polished = str, success = True, rw_error = None\<rparr>, [])"
    by (simp add: rewrite_def)
  from u a b c c2 d e f show ?thesis by blast
qed

text \<open>Examples.\<close>

lemma trim_hi: "trim (ascii ''hi'') = ascii ''hi''"
  by (simp add: trim_def ascii_def isWhiteSpace_def)

lemma trim_spaces: "trim (ascii ''   '') = []"
  by (simp add: trim_def ascii_def isWhiteSpace_def)

lemma exampleConfig_apiKey: "apiKey exampleConfig = ascii ''key''" "apiKey exampleConfig \<noteq> []"
  by (simp_all add: exampleConfig_def new_RewriteService_def ascii_def)

text \<open>
  When \<open>fetch\<close> throws an \<open>Error\<close> whose message is empty, the error of the result is the
  empty string; so it is when the response is not ok (status 401) and reading its body
  throws such an \<open>Error\<close>.
\<close>

theorem rewrite_error_may_be_empty:
  "rewrite exampleConfig fetchFails exampleTypeError (ascii ''hi'')
     = (\<lparr>original = ascii ''hi'', polished = ascii ''hi'', success = False, rw_error = Some []\<rparr>,
        [rewriteRequest exampleConfig (ascii ''hi'')])
   \<and> \<not> ok unreadable \<and> status unreadable = 401
   \<and> rewrite exampleConfig fetchUnreadable exampleTypeError (ascii ''hi'')
     = (\<lparr>original = ascii ''hi'', polished = ascii ''hi'', success = False, rw_error = Some []\<rparr>,
        [rewriteRequest exampleConfig (ascii ''hi'')])"
proof -
  have k: "apiKey exampleConfig \<noteq> []" by (rule exampleConfig_apiKey(2))
  have h: "ascii ''hi'' \<noteq> ([] :: jsstring)" by (simp add: ascii_def)
  have 1: "rewrite exampleConfig fetchFails exampleTypeError (ascii ''hi'')
     = (\<lparr>original = ascii ''hi'', polished = ascii ''hi'', success = False, rw_error = Some []\<rparr>,
        [rewriteRequest exampleConfig (ascii ''hi'')])"
    using k h
    by (simp add: rewrite_def rewriteTry_def trim_hi fetchFails_def errorMessage_def Let_def)
  have 2: "rewrite exampleConfig fetchUnreadable exampleTypeError (ascii ''hi'')
     = (\<lparr>original = ascii ''hi'', polished = ascii ''hi'', success = False, rw_error = Some []\<rparr>,
        [rewriteRequest exampleConfig (ascii ''hi'')])"
    using k h
    by (simp add: rewrite_def rewriteTry_def trim_hi fetchUnreadable_def unreadable_def
        unauthorized_def errorMessage_def Let_def)
  from 1 2 show ?thesis by (simp add: unreadable_def unauthorized_def)
qed

lemma noChoices_content:
  "completionContent typeError (JObj [(ascii ''choices'', JArr [])]) = Returns None"
  by (simp add: completionContent_def optProp_def optIndex0_def ascii_def)

lemma polite_content:
  "completionContent typeError
     (JObj [(ascii ''choices'',
        JArr [JObj [(ascii ''message'', JObj [(ascii ''content'', JStr (ascii '' Hi. ''))])]])])
     = Returns (Some (ascii ''Hi.''))"
  by (simp add: completionContent_def optProp_def optIndex0_def)
     (simp add: trim_def ascii_def isWhiteSpace_def)

theorem rewrite_always_returns_witness:
  "trim (ascii ''   '') = []
   \<and> rewrite exampleConfig (\<lambda>req. Returns noChoices) exampleTypeError (ascii ''   '')
       = (\<lparr>original = ascii ''   '', polished = [], success = True, rw_error = None\<rparr>, [])
   \<and> trim (ascii ''hi'') \<noteq> []
   \<and> apiKey (exampleConfig\<lparr>apiKey := []\<rparr>) = []
   \<and> rewrite (exampleConfig\<lparr>apiKey := []\<rparr>) (\<lambda>req. Returns noChoices) exampleTypeError
         (ascii ''hi'')
       = (\<lparr>original = ascii ''hi'', polished = ascii ''hi'', success = True, rw_error = None\<rparr>, [])
   \<and> apiKey exampleConfig \<noteq> []
   \<and> fst (rewrite exampleConfig (\<lambda>req. Returns unauthorized) exampleTypeError (ascii ''hi''))
       = \<lparr>original = ascii ''hi'', polished = ascii ''hi'', success = False,
          rw_error = Some (ascii ''API '' @ [0x8BF7, 0x6C42, 0x5931, 0x8D25] @ ascii '': 401'')\<rparr>
   \<and> fst (rewrite exampleConfig (\<lambda>req. Returns noChoices) exampleTypeError (ascii ''hi''))
       = \<lparr>original = ascii ''hi'', polished = ascii ''hi'', success = False,
          rw_error = Some (ascii ''API '' @ [0x8FD4, 0x56DE, 0x7A7A, 0x7ED3, 0x679C])\<rparr>
   \<and> fst (rewrite exampleConfig (\<lambda>req. Returns polite) exampleTypeError (ascii ''hi''))
       = \<lparr>original = ascii ''hi'', polished = ascii ''Hi.'', success = True, rw_error = None\<rparr>
   \<and> fst (rewrite exampleConfig (\<lambda>req. Throws (ErrorObject (ascii ''Network error'')))
            exampleTypeError (ascii ''hi''))
       = \<lparr>original = ascii ''hi'', polished = ascii ''hi'', success = False,
          rw_error = Some (ascii ''Network error'')\<rparr>
   \<and> fst (rewrite exampleConfig
            (\<lambda>req. Returns (unauthorized\<lparr>textBody := Throws (NonError (ascii ''aborted''))\<rparr>))
            exampleTypeError (ascii ''hi''))
       = \<lparr>original = ascii ''hi'', polished = ascii ''hi'', success = False,
          rw_error = Some (ascii ''aborted'')\<rparr>
   \<and> fst (rewrite exampleConfig
            (\<lambda>req. Returns (noChoices\<lparr>jsonBody := Returns JNull\<rparr>)) exampleTypeError
            (ascii ''hi''))
       = \<lparr>original = ascii ''hi'', polished = ascii ''hi'', success = False,
          rw_error = Some (ascii ''null is not an object'')\<rparr>
   \<and> snd (rewrite exampleConfig (\<lambda>req. Returns unauthorized) exampleTypeError (ascii ''hi''))
       = [rewriteRequest exampleConfig (ascii ''hi'')]"
proof -
  have h: "trim (ascii ''hi'') \<noteq> []" unfolding trim_hi by (simp add: ascii_def)
  have d: "dec 401 = ascii ''401''" by (simp add: dec_def digits.simps ascii_def)
  note k = exampleConfig_apiKey(2)
  note a = rewrite_always_returns[where str = "ascii ''   ''" and cfg = exampleConfig
      and fetch = "\<lambda>req. Returns noChoices" and typeError = exampleTypeError]
  note b = rewrite_always_returns[where str = "ascii ''hi''" and cfg = "exampleConfig\<lparr>apiKey := []\<rparr>"
      and fetch = "\<lambda>req. Returns noChoices" and typeError = exampleTypeError]
  note c = rewrite_always_returns[where str = "ascii ''hi''" and cfg = exampleConfig
      and fetch = "\<lambda>req. Returns unauthorized" and typeError = exampleTypeError]
  note e = rewrite_always_returns[where str = "ascii ''hi''" and cfg = exampleConfig
      and fetch = "\<lambda>req. Returns noChoices" and typeError = exampleTypeError]
  note f = rewrite_always_returns[where str = "ascii ''hi''" and cfg = exampleConfig
      and fetch = "\<lambda>req. Throws (ErrorObject (ascii ''Network error''))"
      and typeError = exampleTypeError]
  note g = rewrite_always_returns[where str = "ascii ''hi''" and cfg = exampleConfig
      and fetch = "\<lambda>req. Returns polite" and typeError = exampleTypeError]
  note i = rewrite_always_returns[where str = "ascii ''hi''" and cfg = exampleConfig
      and fetch = "\<lambda>req. Returns (unauthorized\<lparr>textBody := Throws (NonError (ascii ''aborted''))\<rparr>)"
      and typeError = exampleTypeError]
  note j = rewrite_always_returns[where str = "ascii ''hi''" and cfg = exampleConfig
      and fetch = "\<lambda>req. Returns (noChoices\<lparr>jsonBody := Returns JNull\<rparr>)"
      and typeError = exampleTypeError]
  have a': "rewrite exampleConfig (\<lambda>req. Returns noChoices) exampleTypeError (ascii ''   '')
       = (\<lparr>original = ascii ''   '', polished = [], success = True, rw_error = None\<rparr>, [])"
    using a trim_spaces by simp
  have b': "rewrite (exampleConfig\<lparr>apiKey := []\<rparr>) (\<lambda>req. Returns noChoices) exampleTypeError
         (ascii ''hi'')
       = (\<lparr>original = ascii ''hi'', polished = ascii ''hi'', success = True, rw_error = None\<rparr>, [])"
    using b h by simp
  have c': "fst (rewrite exampleConfig (\<lambda>req. Returns unauthorized) exampleTypeError (ascii ''hi''))
       = \<lparr>original = ascii ''hi'', polished = ascii ''hi'', success = False,
          rw_error = Some (apiRequestFailed 401)\<rparr>"
    "snd (rewrite exampleConfig (\<lambda>req. Returns unauthorized) exampleTypeError (ascii ''hi''))
       = [rewriteRequest exampleConfig (ascii ''hi'')]"
    using c h k by (simp_all add: unauthorized_def trim_hi)
  have e': "fst (rewrite exampleConfig (\<lambda>req. Returns noChoices) exampleTypeError (ascii ''hi''))
       = \<lparr>original = ascii ''hi'', polished = ascii ''hi'', success = False,
          rw_error = Some apiEmptyResult\<rparr>"
    using e h k noChoices_content by (simp add: noChoices_def)
  have f': "fst (rewrite exampleConfig (\<lambda>req. Throws (ErrorObject (ascii ''Network error'')))
            exampleTypeError (ascii ''hi''))
       = \<lparr>original = ascii ''hi'', polished = ascii ''hi'', success = False,
          rw_error = Some (ascii ''Network error'')\<rparr>"
    using f h k by (simp add: errorMessage_def)
  have hi: "ascii ''Hi.'' \<noteq> ([] :: jsstring)" by (simp add: ascii_def)
  have g': "fst (rewrite exampleConfig (\<lambda>req. Returns polite) exampleTypeError (ascii ''hi''))
       = \<lparr>original = ascii ''hi'', polished = ascii ''Hi.'', success = True, rw_error = None\<rparr>"
    using g h k polite_content[of exampleTypeError] hi by (simp add: polite_def)
  have i': "fst (rewrite exampleConfig
            (\<lambda>req. Returns (unauthorized\<lparr>textBody := Throws (NonError (ascii ''aborted''))\<rparr>))
            exampleTypeError (ascii ''hi''))
       = \<lparr>original = ascii ''hi'', polished = ascii ''hi'', success = False,
          rw_error = Some (ascii ''aborted'')\<rparr>"
    using i h k by (simp add: unauthorized_def errorMessage_def)
  have jc: "completionContent exampleTypeError JNull
              = Throws (ErrorObject (ascii ''null is not an object''))"
    by (simp add: completionContent_def exampleTypeError_def)
  have j': "fst (rewrite exampleConfig
            (\<lambda>req. Returns (noChoices\<lparr>jsonBody := Returns JNull\<rparr>)) exampleTypeError
            (ascii ''hi''))
       = \<lparr>original = ascii ''hi'', polished = ascii ''hi'', success = False,
          rw_error = Some (ascii ''null is not an object'')\<rparr>"
    using j h k jc by (simp add: noChoices_def errorMessage_def)
  show ?thesis
    using a' b' c' e' f' g' i' j' h k trim_spaces
    by (simp add: apiRequestFailed_def apiEmptyResult_def d ascii_def)
qed

section \<open>Properties of the conversion of samples\<close>

text \<open>A number whose truncation fits in sixteen bits is stored as its truncation.\<close>

lemma toInt16_in_range:
  "- 32768 \<le> truncate r \<Longrightarrow> truncate r \<le> 32767 \<Longrightarrow> toInt16 r = truncate r"
  unfolding toInt16_def sint_sbintrunc'
  by (rule signed_take_bit_int_eq_self) simp_all

text \<open>The loops store the converted sample at each index, and nothing else.\<close>

lemma float32ToInt16_loop_eq:
  "length int16Array = length float32Array \<Longrightarrow> i \<le> length float32Array \<Longrightarrow>
   float32ToInt16_loop float32Array i int16Array
     = take i int16Array @ map float32ToInt16_sample (drop i float32Array)"
proof (induction float32Array i int16Array rule: float32ToInt16_loop.induct)
  case (1 float32Array i int16Array)
  show ?case
  proof (cases "i < length float32Array")
    case True
    let ?v = "float32ToInt16_sample (float32Array ! i)"
    have "float32ToInt16_loop float32Array i int16Array
            = float32ToInt16_loop float32Array (i + 1) (int16Array[i := ?v])"
      using True by (subst float32ToInt16_loop.simps) simp
    also have "\<dots> = take (i + 1) (int16Array[i := ?v])
                      @ map float32ToInt16_sample (drop (i + 1) float32Array)"
      using True "1.prems" by (intro "1.IH") simp_all
    also have "take (i + 1) (int16Array[i := ?v]) = take i int16Array @ [?v]"
      using True "1.prems"(1) by (simp add: take_Suc_conv_app_nth)
    also have "(take i int16Array @ [?v]) @ map float32ToInt16_sample (drop (i + 1) float32Array)
                 = take i int16Array @ map float32ToInt16_sample (drop i float32Array)"
      using True by (simp add: Cons_nth_drop_Suc[symmetric])
    finally show ?thesis .
  next
    case False
    with "1.prems" show ?thesis by (subst float32ToInt16_loop.simps) simp
  qed
qed

lemma float32ToInt16_map: "float32ToInt16 float32Array = map float32ToInt16_sample float32Array"
  by (simp add: float32ToInt16_def float32ToInt16_loop_eq)

lemma int16ToFloat32_loop_eq:
  "length float32Array = length int16Array \<Longrightarrow> i \<le> length int16Array \<Longrightarrow>
   int16ToFloat32_loop fround int16Array i float32Array
     = take i float32Array @ map (\<lambda>x. Finite (fround (int16Quotient x))) (drop i int16Array)"
proof (induction fround int16Array i float32Array rule: int16ToFloat32_loop.induct)
  case (1 fround int16Array i float32Array)
  show ?case
  proof (cases "i < length int16Array")
    case True
    let ?v = "Finite (fround (int16Quotient (int16Array ! i)))"
    have "int16ToFloat32_loop fround int16Array i float32Array
            = int16ToFloat32_loop fround int16Array (i + 1) (float32Array[i := ?v])"
      using True by (subst int16ToFloat32_loop.simps) simp
    also have "\<dots> = take (i + 1) (float32Array[i := ?v])
                      @ map (\<lambda>x. Finite (fround (int16Quotient x))) (drop (i + 1) int16Array)"
      using True "1.prems" by (intro "1.IH") simp_all
    also have "take (i + 1) (float32Array[i := ?v]) = take i float32Array @ [?v]"
      using True "1.prems"(1) by (simp add: take_Suc_conv_app_nth)
    also have "(take i float32Array @ [?v])
                 @ map (\<lambda>x. Finite (fround (int16Quotient x))) (drop (i + 1) int16Array)
                 = take i float32Array
                   @ map (\<lambda>x. Finite (fround (int16Quotient x))) (drop i int16Array)"
      using True by (simp add: Cons_nth_drop_Suc[symmetric])
    finally show ?thesis .
  next
    case False
    with "1.prems" show ?thesis by (subst int16ToFloat32_loop.simps) simp
  qed
qed

lemma int16ToFloat32_map:
  "int16ToFloat32 fround int16Array = map (\<lambda>x. Finite (fround (int16Quotient x))) int16Array"
  by (simp add: int16ToFloat32_def int16ToFloat32_loop_eq)

lemma sample_zero: "float32ToInt16_sample (Finite 0) = 0"
  by (simp add: float32ToInt16_sample_def toInt16_def truncate_def)

lemma sample_above: "1 \<le> r \<Longrightarrow> float32ToInt16_sample (Finite r) = 32767"
  by (simp add: float32ToInt16_sample_def toInt16_def truncate_def min_def max_def)

lemma sample_below: "r \<le> - 1 \<Longrightarrow> float32ToInt16_sample (Finite r) = - 32768"
  by (simp add: float32ToInt16_sample_def toInt16_def truncate_def min_def max_def)

lemma sample_infinite:
  "float32ToInt16_sample PosInf = 32767" "float32ToInt16_sample NegInf = - 32768"
  by (simp_all add: float32ToInt16_sample_def toInt16_def truncate_def)

text \<open>
  The round trip of one sample, for a float32 \<open>f\<close> within a relative error of \<open>2^-23\<close> of the
  quotient: the product is within 1 of the sample on either side, and truncation towards
  zero moves it by less than 1.
\<close>

lemma roundtrip_nonneg:
  fixes x :: int and f :: real
  assumes "0 \<le> x" "x \<le> 32767"
    and "\<bar>f - real_of_int x / 32767\<bar> \<le> \<bar>real_of_int x / 32767\<bar> / 2 ^ 23"
  shows "\<bar>float32ToInt16_sample (Finite f) - x\<bar> \<le> 1"
proof -
  define q where "q = real_of_int x / 32767"
  have q0: "0 \<le> q" using assms(1) by (simp add: q_def)
  have xq: "real_of_int x = q * 32767" by (simp add: q_def)
  have xr: "real_of_int x \<le> 32767" using assms(2) by linarith
  have e: "\<bar>f - q\<bar> \<le> q / 2 ^ 23" using assms(3) q0 by (simp add: q_def)
  have small: "q * 32767 / 2 ^ 23 < 1" using xr xq by simp
  have flo: "real_of_int x - 1 < f * 32767"
  proof -
    have "q - q / 2 ^ 23 \<le> f" using e by linarith
    then have "(q - q / 2 ^ 23) * 32767 \<le> f * 32767" by simp
    then show ?thesis using small xq by (simp add: algebra_simps)
  qed
  have fhi: "f * 32767 < real_of_int x + 1"
  proof -
    have "f \<le> q + q / 2 ^ 23" using e by linarith
    then have "f * 32767 \<le> (q + q / 2 ^ 23) * 32767" by simp
    then show ?thesis using small xq by (simp add: algebra_simps)
  qed
  have f0: "0 \<le> f"
  proof -
    have "q / 2 ^ 23 \<le> q" using q0 by (simp add: field_simps)
    then show ?thesis using e by linarith
  qed
  define v where "v = min 1 f * 32767"
  have v0: "0 \<le> v" using f0 by (simp add: v_def min_def)
  have vhi: "v < real_of_int x + 1" using fhi by (simp add: v_def min_def)
  have vlo: "real_of_int x - 1 < v" using flo xr by (simp add: v_def min_def)
  have v32: "v \<le> 32767" by (simp add: v_def min_def)
  have s: "float32ToInt16_sample (Finite f) = toInt16 v"
    using f0 by (simp add: float32ToInt16_sample_def v_def min_def max_def)
  have t: "truncate v = \<lfloor>v\<rfloor>" using v0 by (simp add: truncate_def)
  have lo: "x - 1 \<le> \<lfloor>v\<rfloor>"
  proof -
    have "real_of_int (x - 1) \<le> v" using vlo by simp
    then show ?thesis by (simp only: le_floor_iff)
  qed
  have hi: "\<lfloor>v\<rfloor> \<le> x"
  proof -
    have a: "real_of_int \<lfloor>v\<rfloor> \<le> v" by (rule of_int_floor_le)
    have b: "real_of_int (x + 1) = real_of_int x + 1" by simp
    from a vhi b have "real_of_int \<lfloor>v\<rfloor> < real_of_int (x + 1)" by linarith
    then have "\<lfloor>v\<rfloor> < x + 1" by (simp only: of_int_less_iff)
    then show ?thesis by linarith
  qed
  have "0 \<le> \<lfloor>v\<rfloor>" using v0 by simp
  moreover have "\<lfloor>v\<rfloor> \<le> 32767" using hi assms(2) by linarith
  ultimately have "toInt16 v = \<lfloor>v\<rfloor>" using t toInt16_in_range[of v] by simp
  with s lo hi show ?thesis by linarith
qed

lemma roundtrip_neg:
  fixes x :: int and f :: real
  assumes "x < 0" "- 32768 \<le> x"
    and "\<bar>f - real_of_int x / 32768\<bar> \<le> \<bar>real_of_int x / 32768\<bar> / 2 ^ 23"
  shows "\<bar>float32ToInt16_sample (Finite f) - x\<bar> \<le> 1"
proof -
  define q where "q = real_of_int x / 32768"
  have q0: "q < 0" using assms(1) by (simp add: q_def)
  have xq: "real_of_int x = q * 32768" by (simp add: q_def)
  have xr: "- 32768 \<le> real_of_int x" using assms(2) by linarith
  have e: "\<bar>f - q\<bar> \<le> - q / 2 ^ 23" using assms(3) q0 by (simp add: q_def)
  have small: "- (q * 32768) / 2 ^ 23 < 1" using xr xq by simp
  have flo: "real_of_int x - 1 < f * 32768"
  proof -
    have "q + q / 2 ^ 23 \<le> f" using e by linarith
    then have "(q + q / 2 ^ 23) * 32768 \<le> f * 32768" by simp
    then show ?thesis using small xq by (simp add: algebra_simps)
  qed
  have fhi: "f * 32768 < real_of_int x + 1"
  proof -
    have "f \<le> q - q / 2 ^ 23" using e by linarith
    then have "f * 32768 \<le> (q - q / 2 ^ 23) * 32768" by simp
    then show ?thesis using small xq by (simp add: algebra_simps)
  qed
  have f0: "f < 0"
  proof -
    have "q < q / 2 ^ 23" using q0 by (simp add: field_simps)
    then have "q - q / 2 ^ 23 < 0" by simp
    then show ?thesis using e by linarith
  qed
  define v where "v = max (- 1) f * 32768"
  have v0: "v < 0" using f0 by (simp add: v_def max_def)
  have vhi: "v < real_of_int x + 1" using fhi xr by (simp add: v_def max_def)
  have vlo: "real_of_int x - 1 < v" using flo by (simp add: v_def max_def)
  have v32: "- 32768 \<le> v" by (simp add: v_def max_def)
  have s: "float32ToInt16_sample (Finite f) = toInt16 v"
    using f0 by (simp add: float32ToInt16_sample_def v_def min_def max_def)
  have t: "truncate v = \<lceil>v\<rceil>" using v0 by (simp add: truncate_def)
  have lo: "x \<le> \<lceil>v\<rceil>"
  proof -
    have "real_of_int (x - 1) < v" using vlo by simp
    then have "x - 1 < \<lceil>v\<rceil>" by (simp only: less_ceiling_iff)
    then show ?thesis by linarith
  qed
  have hi: "\<lceil>v\<rceil> \<le> x + 1"
  proof -
    have "v \<le> real_of_int (x + 1)" using vhi by simp
    then show ?thesis by (simp only: ceiling_le_iff)
  qed
  have "\<lceil>v\<rceil> \<le> 0" using v0 by (simp add: ceiling_le_iff)
  moreover have "- 32768 \<le> \<lceil>v\<rceil>" using lo assms(2) by linarith
  ultimately have "toInt16 v = \<lceil>v\<rceil>" using t toInt16_in_range[of v] by simp
  with s lo hi show ?thesis by linarith
qed

text \<open>
  Claim C9. \<open>float32ToInt16\<close> gives an array of the length of its input and converts every
  sample where it stands: 0.0 to 0, 1.0 to 32767 and -1.0 to -32768; every sample greater
  than 1.0, the positive infinity too, to 32767, and every sample less than -1.0, the
  negative infinity too, to -32768. For every array of int16 values, with the quotients of
  \<open>int16ToFloat32\<close> stored within a relative error of \<open>2^-23\<close> (the division in double
  precision and the store as float32 are within \<open>2^-53\<close> and \<open>2^-24\<close>), the round trip
  \<open>float32ToInt16 (int16ToFloat32 ys)\<close> has the length of \<open>ys\<close> and differs from \<open>ys\<close> by at
  most 1 at every index; so it does for the array of one value.
\<close>

theorem float32ToInt16_conversion:
  "length (float32ToInt16 xs) = length xs
   \<and> (\<forall>i < length xs.
        float32ToInt16 xs ! i = float32ToInt16_sample (xs ! i)
        \<and> (xs ! i = Finite 0 \<longrightarrow> float32ToInt16 xs ! i = 0)
        \<and> (xs ! i = Finite 1 \<longrightarrow> float32ToInt16 xs ! i = 32767)
        \<and> (xs ! i = Finite (- 1) \<longrightarrow> float32ToInt16 xs ! i = - 32768)
        \<and> (\<forall>r. xs ! i = Finite r \<and> 1 < r \<longrightarrow> float32ToInt16 xs ! i = 32767)
        \<and> (xs ! i = PosInf \<longrightarrow> float32ToInt16 xs ! i = 32767)
        \<and> (\<forall>r. xs ! i = Finite r \<and> r < - 1 \<longrightarrow> float32ToInt16 xs ! i = - 32768)
        \<and> (xs ! i = NegInf \<longrightarrow> float32ToInt16 xs ! i = - 32768))
   \<and> float32ToInt16 [Finite 0] = [0]
   \<and> float32ToInt16 [Finite 1] = [32767]
   \<and> float32ToInt16 [Finite (- 1)] = [- 32768]
   \<and> (1 < r \<longrightarrow> float32ToInt16 [Finite r] = [32767])
   \<and> float32ToInt16 [PosInf] = [32767]
   \<and> (r < - 1 \<longrightarrow> float32ToInt16 [Finite r] = [- 32768])
   \<and> float32ToInt16 [NegInf] = [- 32768]
   \<and> length (int16ToFloat32 fround ys) = length ys
   \<and> ((\<forall>y \<in> set ys. - 32768 \<le> y \<and> y \<le> 32767
          \<and> \<bar>fround (int16Quotient y) - int16Quotient y\<bar> \<le> \<bar>int16Quotient y\<bar> / 2 ^ 23) \<longrightarrow>
        length (float32ToInt16 (int16ToFloat32 fround ys)) = length ys
        \<and> (\<forall>i < length ys. \<bar>float32ToInt16 (int16ToFloat32 fround ys) ! i - ys ! i\<bar> \<le> 1))
   \<and> (- 32768 \<le> x \<and> x \<le> 32767
        \<and> \<bar>fround (int16Quotient x) - int16Quotient x\<bar> \<le> \<bar>int16Quotient x\<bar> / 2 ^ 23 \<longrightarrow>
      (\<exists>y. float32ToInt16 (int16ToFloat32 fround [x]) = [y] \<and> \<bar>y - x\<bar> \<le> 1))"
proof -
  have one: "\<bar>float32ToInt16_sample (Finite (fround (int16Quotient y))) - y\<bar> \<le> 1"
    if h: "- 32768 \<le> y \<and> y \<le> 32767
        \<and> \<bar>fround (int16Quotient y) - int16Quotient y\<bar> \<le> \<bar>int16Quotient y\<bar> / 2 ^ 23" for y
  proof (cases "y < 0")
    case True
    with h show ?thesis by (intro roundtrip_neg) (simp_all add: int16Quotient_def)
  next
    case False
    with h show ?thesis by (intro roundtrip_nonneg) (simp_all add: int16Quotient_def)
  qed
  have len: "length (float32ToInt16 xs) = length xs" by (simp add: float32ToInt16_map)
  have elems: "\<forall>i < length xs.
        float32ToInt16 xs ! i = float32ToInt16_sample (xs ! i)
        \<and> (xs ! i = Finite 0 \<longrightarrow> float32ToInt16 xs ! i = 0)
        \<and> (xs ! i = Finite 1 \<longrightarrow> float32ToInt16 xs ! i = 32767)
        \<and> (xs ! i = Finite (- 1) \<longrightarrow> float32ToInt16 xs ! i = - 32768)
        \<and> (\<forall>r. xs ! i = Finite r \<and> 1 < r \<longrightarrow> float32ToInt16 xs ! i = 32767)
        \<and> (xs ! i = PosInf \<longrightarrow> float32ToInt16 xs ! i = 32767)
        \<and> (\<forall>r. xs ! i = Finite r \<and> r < - 1 \<longrightarrow> float32ToInt16 xs ! i = - 32768)
        \<and> (xs ! i = NegInf \<longrightarrow> float32ToInt16 xs ! i = - 32768)"
  proof (intro allI impI)
    fix i
    assume i: "i < length xs"
    then have e: "float32ToInt16 xs ! i = float32ToInt16_sample (xs ! i)"
      by (simp add: float32ToInt16_map)
    show "float32ToInt16 xs ! i = float32ToInt16_sample (xs ! i)
        \<and> (xs ! i = Finite 0 \<longrightarrow> float32ToInt16 xs ! i = 0)
        \<and> (xs ! i = Finite 1 \<longrightarrow> float32ToInt16 xs ! i = 32767)
        \<and> (xs ! i = Finite (- 1) \<longrightarrow> float32ToInt16 xs ! i = - 32768)
        \<and> (\<forall>r. xs ! i = Finite r \<and> 1 < r \<longrightarrow> float32ToInt16 xs ! i = 32767)
        \<and> (xs ! i = PosInf \<longrightarrow> float32ToInt16 xs ! i = 32767)
        \<and> (\<forall>r. xs ! i = Finite r \<and> r < - 1 \<longrightarrow> float32ToInt16 xs ! i = - 32768)
        \<and> (xs ! i = NegInf \<longrightarrow> float32ToInt16 xs ! i = - 32768)"
      unfolding e
      using sample_zero sample_above[of 1] sample_below[of "- 1"] sample_above sample_below
        sample_infinite
      by (auto simp: less_imp_le)
  qed
  have singles: "float32ToInt16 [Finite 0] = [0]
   \<and> float32ToInt16 [Finite 1] = [32767]
   \<and> float32ToInt16 [Finite (- 1)] = [- 32768]
   \<and> (1 < r \<longrightarrow> float32ToInt16 [Finite r] = [32767])
   \<and> float32ToInt16 [PosInf] = [32767]
   \<and> (r < - 1 \<longrightarrow> float32ToInt16 [Finite r] = [- 32768])
   \<and> float32ToInt16 [NegInf] = [- 32768]"
    using sample_zero sample_above[of 1] sample_below[of "- 1"] sample_above[of r]
      sample_below[of r] sample_infinite
    by (simp add: float32ToInt16_map)
  have len2: "length (int16ToFloat32 fround ys) = length ys" by (simp add: int16ToFloat32_map)
  have trip: "(\<forall>y \<in> set ys. - 32768 \<le> y \<and> y \<le> 32767
          \<and> \<bar>fround (int16Quotient y) - int16Quotient y\<bar> \<le> \<bar>int16Quotient y\<bar> / 2 ^ 23) \<longrightarrow>
        length (float32ToInt16 (int16ToFloat32 fround ys)) = length ys
        \<and> (\<forall>i < length ys. \<bar>float32ToInt16 (int16ToFloat32 fround ys) ! i - ys ! i\<bar> \<le> 1)"
  proof (intro impI conjI allI)
    show "length (float32ToInt16 (int16ToFloat32 fround ys)) = length ys"
      by (simp add: float32ToInt16_map int16ToFloat32_map)
  next
    fix i
    assume h: "\<forall>y \<in> set ys. - 32768 \<le> y \<and> y \<le> 32767
          \<and> \<bar>fround (int16Quotient y) - int16Quotient y\<bar> \<le> \<bar>int16Quotient y\<bar> / 2 ^ 23"
      and i: "i < length ys"
    then have "ys ! i \<in> set ys" by simp
    with h have "- 32768 \<le> ys ! i \<and> ys ! i \<le> 32767
        \<and> \<bar>fround (int16Quotient (ys ! i)) - int16Quotient (ys ! i)\<bar>
            \<le> \<bar>int16Quotient (ys ! i)\<bar> / 2 ^ 23"
      by blast
    from one[OF this] i
    show "\<bar>float32ToInt16 (int16ToFloat32 fround ys) ! i - ys ! i\<bar> \<le> 1"
      by (simp add: float32ToInt16_map int16ToFloat32_map)
  qed
  have rt: "- 32768 \<le> x \<and> x \<le> 32767
        \<and> \<bar>fround (int16Quotient x) - int16Quotient x\<bar> \<le> \<bar>int16Quotient x\<bar> / 2 ^ 23 \<longrightarrow>
      (\<exists>y. float32ToInt16 (int16ToFloat32 fround [x]) = [y] \<and> \<bar>y - x\<bar> \<le> 1)"
    using one[of x] by (simp add: float32ToInt16_map int16ToFloat32_map)
  from len elems singles len2 trip rt show ?thesis by blast
qed

text \<open>
  An array of seven samples, and the round trip of two values through a store that rounds
  every quotient towards zero: 3 comes back as 2 and -32768 as -32767.
\<close>

lemma seven_samples:
  "float32ToInt16 [Finite 0, Finite (3 / 2), NegInf, Finite (- 2), Finite 1, Finite (- 1), PosInf]
     = [0, 32767, - 32768, - 32768, 32767, - 32768, 32767]"
  using sample_zero sample_above[of "3 / 2"] sample_below[of "- 2"] sample_above[of 1]
    sample_below[of "- 1"] sample_infinite
  by (simp add: float32ToInt16_map)

lemma roundtrip_two:
  "float32ToInt16 (int16ToFloat32 (\<lambda>q. q * (16777215 / 16777216)) [3, - 32768]) = [2, - 32767]"
  by (simp add: float32ToInt16_map int16ToFloat32_map int16Quotient_def
      float32ToInt16_sample_def toInt16_def truncate_def min_def max_def)

theorem float32ToInt16_conversion_witness:
  "length [Finite 0, Finite (3 / 2), NegInf, Finite (- 2), Finite 1, Finite (- 1), PosInf] = 7
   \<and> float32ToInt16 [Finite 0, Finite (3 / 2), NegInf, Finite (- 2), Finite 1, Finite (- 1), PosInf]
       = [0, 32767, - 32768, - 32768, 32767, - 32768, 32767]
   \<and> (1 :: real) < 3 / 2 \<and> (- 2 :: real) < - 1
   \<and> float32ToInt16 [Finite (3 / 2)] = [32767]
   \<and> float32ToInt16 [Finite (- 2)] = [- 32768]
   \<and> \<bar>int16Quotient 3 * (16777215 / 16777216) - int16Quotient 3\<bar> \<le> \<bar>int16Quotient 3\<bar> / 2 ^ 23
   \<and> \<bar>int16Quotient (- 32768) * (16777215 / 16777216) - int16Quotient (- 32768)\<bar>
        \<le> \<bar>int16Quotient (- 32768)\<bar> / 2 ^ 23
   \<and> float32ToInt16 (int16ToFloat32 (\<lambda>q. q * (16777215 / 16777216)) [3, - 32768]) = [2, - 32767]
   \<and> \<bar>2 - 3 :: int\<bar> \<le> 1 \<and> \<bar>- 32767 - (- 32768) :: int\<bar> \<le> 1"
proof -
  let ?xs = "[Finite 0, Finite (3 / 2), NegInf, Finite (- 2), Finite 1, Finite (- 1), PosInf]"
  let ?f = "\<lambda>q :: real. q * (16777215 / 16777216)"
  have h: "\<forall>y \<in> set [3, - 32768]. - 32768 \<le> y \<and> y \<le> 32767
          \<and> \<bar>?f (int16Quotient y) - int16Quotient y\<bar> \<le> \<bar>int16Quotient y\<bar> / 2 ^ 23"
    by (simp add: int16Quotient_def)
  note t = float32ToInt16_conversion[where xs = ?xs and r = "3 / 2" and fround = ?f
      and ys = "[3, - 32768]" and x = 3]
  note u = float32ToInt16_conversion[where xs = ?xs and r = "- 2" and fround = ?f
      and ys = "[3, - 32768]" and x = 3]
  from t have l: "length (float32ToInt16 ?xs) = 7" by simp
  from t have a: "float32ToInt16 [Finite (3 / 2)] = [32767]" by simp
  from u have b: "float32ToInt16 [Finite (- 2)] = [- 32768]" by simp
  from t h have c: "\<forall>i < length [3, - 32768 :: int].
      \<bar>float32ToInt16 (int16ToFloat32 ?f [3, - 32768]) ! i - [3, - 32768] ! i\<bar> \<le> 1"
    by blast
  from c[rule_format, of 0] c[rule_format, of 1]
  have d: "\<bar>2 - 3 :: int\<bar> \<le> 1" "\<bar>- 32767 - (- 32768) :: int\<bar> \<le> 1"
    by (simp_all add: roundtrip_two)
  from h have h': "\<bar>int16Quotient 3 * (16777215 / 16777216) - int16Quotient 3\<bar>
      \<le> \<bar>int16Quotient 3\<bar> / 2 ^ 23"
    "\<bar>int16Quotient (- 32768) * (16777215 / 16777216) - int16Quotient (- 32768)\<bar>
        \<le> \<bar>int16Quotient (- 32768)\<bar> / 2 ^ 23"
    by simp_all
  from l a b d h' seven_samples roundtrip_two show ?thesis by simp
qed


end
